(* ===== verification/Fuse_Prelude.thy ===== *)
theory Fuse_Prelude
  imports Main "HOL-Library.Word"
begin

text \<open>
  Shared vocabulary of the development: the machine-integer types of the
  Rust source, the fact collections the component theories feed, and the
  generic lemmas on flag tests, casts and result values that the component
  proofs are built from.

  \<^item> \<open>u8\<close>, \<open>u32\<close>, \<open>u64\<close> are Rust's unsigned integers; \<open>i32\<close> and \<open>i64\<close> are
    the same bit patterns read with \<open>sint\<close>, so that the cast \<open>x as i64\<close> of a
    \<open>u64\<close> is the identity on bits, as it is in Rust.
  \<^item> \<open>flag_set x m\<close> is the source's idiom
    \<^verbatim>\<open>match x & m { 0 => ..., _ => ... }\<close>: the second arm is taken exactly
    when \<open>flag_set x m\<close> holds.
  \<^item> \<open>as_u32\<close> is the truncating cast \<^verbatim>\<open>n as u32\<close> of a \<^verbatim>\<open>usize\<close>.
  \<^item> A computation that may panic returns \<open>panic + 'a\<close> with \<open>Inl\<close> the panic;
    \<open>bind_result\<close> sequences two of them.
\<close>

unbundle bit_operations_syntax

section \<open>Fact collections\<close>

named_theorems abi_defs "values of the constants of the kernel ABI"
named_theorems arm_defs "the arms of the dispatcher, one definition per operation"
named_theorems accessor_defs "accessors of requests, headers and reply objects"

section \<open>Machine integers and byte strings\<close>

type_synonym u8 = "8 word"
type_synonym u32 = "32 word"
type_synonym u64 = "64 word"
type_synonym i32 = "32 word"
type_synonym i64 = "64 word"
type_synonym bytes = "u8 list"
type_synonym os_str = "u8 list"

definition as_u32 :: "nat \<Rightarrow> u32" where
  "as_u32 n = of_nat n"

definition as_usize :: "u32 \<Rightarrow> nat" where
  "as_usize w = unat w"

definition as_i64 :: "u64 \<Rightarrow> i64" where
  "as_i64 w = w"

lemma unat_as_u32: "unat (as_u32 n) = n mod 2 ^ 32"
  by (simp add: as_u32_def unat_of_nat)

lemma unat_as_u32_small [simp]: "n < 2 ^ 32 \<Longrightarrow> unat (as_u32 n) = n"
  by (simp add: unat_as_u32)

lemma as_usize_inj [simp]: "as_usize a = as_usize b \<longleftrightarrow> a = b"
  by (simp add: as_usize_def word_unat_eq_iff)

lemma as_usize_numeral [simp]: "as_usize (numeral k) = unat (numeral k :: u32)"
  by (simp add: as_usize_def)

lemma sint_as_i64:
  "sint (as_i64 w) = (if uint w < 2 ^ 63 then uint w else uint w - 2 ^ 64)"
proof -
  have b: "0 \<le> uint w" "uint w < 2 ^ 64"
    using uint_bounded [of w] by simp_all
  have "sint w = (uint w + 2 ^ 63) mod 2 ^ 64 - 2 ^ 63"
    by (simp add: sint_uint signed_take_bit_eq_take_bit_shift take_bit_eq_mod)
  also have "\<dots> = (if uint w < 2 ^ 63 then uint w else uint w - 2 ^ 64)"
  proof (cases "uint w < 2 ^ 63")
    case True
    with b have "(uint w + 2 ^ 63) mod 2 ^ 64 = uint w + 2 ^ 63"
      by (intro mod_pos_pos_trivial) simp_all
    with True show ?thesis by simp
  next
    case False
    with b have "(uint w + 2 ^ 63 - 2 ^ 64) mod 2 ^ 64 = uint w + 2 ^ 63 - 2 ^ 64"
      by (intro mod_pos_pos_trivial) simp_all
    moreover have "(uint w + 2 ^ 63 - 2 ^ 64) mod 2 ^ 64 = (uint w + 2 ^ 63) mod (2 ^ 64 :: int)"
      by (rule minus_mod_self2)
    ultimately show ?thesis using False by simp
  qed
  finally show ?thesis by (simp add: as_i64_def)
qed

lemma uint_less_pow_iff: "uint (w::'a::len word) < 2 ^ n \<longleftrightarrow> unat w < 2 ^ n"
  by transfer (simp add: nat_less_iff)

section \<open>Word minimum as the source writes it\<close>

lemma if_less_is_min: "(if (a::'a::len word) < b then a else b) = min a b"
  by (simp add: min_def not_less) (metis order.order_iff_strict)

lemma word_min_cases: "min (a::'a::len word) b = a \<or> min a b = b"
  by (simp add: min_def)

section \<open>Flag tests\<close>

definition flag_set :: "'a::len word \<Rightarrow> 'a word \<Rightarrow> bool" where
  "flag_set x m \<longleftrightarrow> x AND m \<noteq> 0"

lemma flag_set_zero [simp]: "\<not> flag_set 0 m" "\<not> flag_set x 0"
  by (simp_all add: flag_set_def)

lemma flag_set_pow2: "flag_set x (2 ^ n) \<longleftrightarrow> bit x n"
  by (simp add: flag_set_def and_exp_eq_0_iff_not_bit)

lemma flag_set_one: "flag_set x 1 \<longleftrightarrow> odd x"
  using flag_set_pow2 [of x 0] by (simp add: bit_0)

lemma flag_set_or: "flag_set (x OR y) m \<longleftrightarrow> flag_set x m \<or> flag_set y m"
  by (simp add: flag_set_def bit.conj_disj_distrib2 or_eq_0_iff)

lemma flag_set_self: "flag_set m m \<longleftrightarrow> m \<noteq> 0"
  by (simp add: flag_set_def)

lemma flag_set_and_mask: "flag_set (x AND k) m \<longleftrightarrow> flag_set x (k AND m)"
  by (simp add: flag_set_def and.assoc)

lemma flag_set_disjoint: "k AND m = 0 \<Longrightarrow> \<not> flag_set k m"
  by (simp add: flag_set_def)

lemma and_le_mask: "(x::'a::len word) AND m \<le> m"
  by (rule word_and_le1)

section \<open>Results that may abort\<close>

text \<open>
  The ways the dispatcher can stop without returning: a failed \<^verbatim>\<open>assert!\<close>,
  the two overflow panics of \<^verbatim>\<open>std::time\<close>, and (a value of the model only)
  an operation variant that the platform's build does not contain.
\<close>

datatype panic =
    Assertion_failed
  | Duration_overflow
  | SystemTime_overflow
  | Variant_not_compiled

definition bind_result :: "'e + 'a \<Rightarrow> ('a \<Rightarrow> 'e + 'b) \<Rightarrow> 'e + 'b" where
  "bind_result r f = (case r of Inl e \<Rightarrow> Inl e | Inr a \<Rightarrow> f a)"

lemma bind_result_simps [simp]:
  "bind_result (Inl e) f = Inl e"
  "bind_result (Inr a) f = f a"
  by (simp_all add: bind_result_def)

lemma bind_result_eq_Inr:
  "bind_result r f = Inr b \<longleftrightarrow> (\<exists>a. r = Inr a \<and> f a = Inr b)"
  by (cases r) simp_all

lemma bind_result_eq_Inl:
  "bind_result r f = Inl e \<longleftrightarrow> r = Inl e \<or> (\<exists>a. r = Inr a \<and> f a = Inl e)"
  by (cases r) simp_all

end
