(* ===== verification/Fuse_Time.thy ===== *)
theory Fuse_Time
  imports Fuse_Prelude
begin

text \<open>
  The two types of \<^verbatim>\<open>std::time\<close> that the set-attributes arm of the dispatcher
  builds, with the arithmetic it relies on.  \<open>Duration_new\<close> is
  \<^verbatim>\<open>Duration::new\<close> (nanoseconds above one second are carried into the
  seconds, and the carry may overflow), \<open>checked_add\<close> is
  \<^verbatim>\<open>SystemTime::checked_add\<close> on the Unix representation (signed 64-bit
  seconds, nanoseconds below one second), both with \<open>None\<close> where the library
  reports overflow.  \<open>duration_nanos\<close> and \<open>time_nanos\<close> read a value as a
  number of nanoseconds: the lemmas say that both operations are exact
  whenever they return, and say exactly when they do not return.
\<close>

section \<open>Durations\<close>

definition NANOS_PER_SEC :: u32 where
  "NANOS_PER_SEC = 1000000000"

record duration =
  dur_secs :: u64
  dur_nanos :: u32

definition checked_add_u64 :: "u64 \<Rightarrow> u64 \<Rightarrow> u64 option" where
  "checked_add_u64 a b = (if unat a + unat b < 2 ^ 64 then Some (a + b) else None)"

definition Duration_new :: "u64 \<Rightarrow> u32 \<Rightarrow> duration option" where
  "Duration_new secs nanos =
     (if nanos < NANOS_PER_SEC then Some \<lparr>dur_secs = secs, dur_nanos = nanos\<rparr>
      else case checked_add_u64 secs (ucast (nanos div NANOS_PER_SEC)) of
             None \<Rightarrow> None
           | Some secs' \<Rightarrow> Some \<lparr>dur_secs = secs', dur_nanos = nanos mod NANOS_PER_SEC\<rparr>)"

definition duration_ok :: "duration \<Rightarrow> bool" where
  "duration_ok d \<longleftrightarrow> dur_nanos d < NANOS_PER_SEC"

definition duration_nanos :: "duration \<Rightarrow> nat" where
  "duration_nanos d = unat (dur_secs d) * 10 ^ 9 + unat (dur_nanos d)"

section \<open>Points in time\<close>

record system_time =
  tv_sec :: i64
  tv_nsec :: u32

definition UNIX_EPOCH :: system_time where
  "UNIX_EPOCH = \<lparr>tv_sec = 0, tv_nsec = 0\<rparr>"

definition checked_add_unsigned :: "i64 \<Rightarrow> u64 \<Rightarrow> i64 option" where
  "checked_add_unsigned a b =
     (if sint a + uint b < 2 ^ 63 then Some (a + b) else None)"

definition checked_add_i64 :: "i64 \<Rightarrow> i64 \<Rightarrow> i64 option" where
  "checked_add_i64 a b =
     (if - (2 ^ 63) \<le> sint a + sint b \<and> sint a + sint b < 2 ^ 63 then Some (a + b) else None)"

definition checked_add :: "system_time \<Rightarrow> duration \<Rightarrow> system_time option" where
  "checked_add t d =
     (case checked_add_unsigned (tv_sec t) (dur_secs d) of
        None \<Rightarrow> None
      | Some secs \<Rightarrow>
          let nsec = dur_nanos d + tv_nsec t in
          if nsec \<ge> NANOS_PER_SEC then
            (case checked_add_i64 secs 1 of
               None \<Rightarrow> None
             | Some secs' \<Rightarrow> Some \<lparr>tv_sec = secs', tv_nsec = nsec - NANOS_PER_SEC\<rparr>)
          else Some \<lparr>tv_sec = secs, tv_nsec = nsec\<rparr>)"

definition time_ok :: "system_time \<Rightarrow> bool" where
  "time_ok t \<longleftrightarrow> tv_nsec t < NANOS_PER_SEC"

definition time_nanos :: "system_time \<Rightarrow> int" where
  "time_nanos t = sint (tv_sec t) * 10 ^ 9 + uint (tv_nsec t)"

section \<open>Word arithmetic without overflow\<close>

lemma unat_NANOS_PER_SEC [simp]: "unat NANOS_PER_SEC = 10 ^ 9"
  by (simp add: NANOS_PER_SEC_def)

lemma uint_NANOS_PER_SEC [simp]: "uint NANOS_PER_SEC = 10 ^ 9"
  by (simp add: NANOS_PER_SEC_def)

lemma nanos_less_iff: "n < NANOS_PER_SEC \<longleftrightarrow> unat n < 10 ^ 9"
  by (simp add: word_less_nat_alt)

lemma unat_ucast_u32_u64: "unat (ucast (n::u32) :: u64) = unat n"
  by (simp add: unsigned_ucast_eq take_bit_nat_eq_self unsigned_less [of n, THEN order.strict_trans])

lemma unat_add_u64: "unat (a::u64) + unat b < 2 ^ 64 \<Longrightarrow> unat (a + b) = unat a + unat b"
  using unat_add_lem [of a b] by simp

lemma unat_add_u32: "unat (a::u32) + unat b < 2 ^ 32 \<Longrightarrow> unat (a + b) = unat a + unat b"
  using unat_add_lem [of a b] by simp

lemma take_bit_sint: "take_bit 64 (sint (a::i64)) = take_bit 64 (uint a)"
  by (simp add: sint_uint take_bit_signed_take_bit)

lemma sint_add_uint:
  assumes "sint (a::i64) + uint (b::u64) < 2 ^ 63"
  shows "sint (a + b) = sint a + uint b"
proof -
  have "- (2 ^ 63) \<le> sint a" "0 \<le> uint b"
    using sint_ge [of a] by simp_all
  then have ge: "- (2 ^ 63) \<le> sint a + uint b"
    by linarith
  have "take_bit 64 (sint a + uint b) = take_bit 64 (uint a + uint b)"
    using take_bit_sint [of a] by (metis take_bit_add)
  then have "signed_take_bit 63 (sint a + uint b) = signed_take_bit 63 (uint a + uint b)"
    by (simp add: signed_take_bit_eq_iff_take_bit_eq)
  moreover have "sint (a + b) = signed_take_bit 63 (uint a + uint b)"
  proof -
    have "uint (a + b) = take_bit 64 (uint a + uint b)"
      by (simp add: uint_word_ariths take_bit_eq_mod)
    then show ?thesis
      by (simp add: sint_uint signed_take_bit_take_bit)
  qed
  moreover have "signed_take_bit 63 (sint a + uint b) = sint a + uint b"
    using assms ge by (intro signed_take_bit_int_eq_self) simp_all
  ultimately show ?thesis by simp
qed

lemma sint_add_one:
  assumes "sint (a::i64) + 1 < 2 ^ 63"
  shows "sint (a + 1) = sint a + 1"
  using sint_add_uint [of a 1] assms by simp

section \<open>Duration::new\<close>

lemma checked_add_u64_Some:
  "checked_add_u64 a b = Some c \<longleftrightarrow> unat a + unat b < 2 ^ 64 \<and> c = a + b"
  by (auto simp: checked_add_u64_def)

lemma unat_carry: "unat (ucast (n div NANOS_PER_SEC) :: u64) = unat (n::u32) div 10 ^ 9"
  by (simp add: unat_ucast_u32_u64 unat_div)

lemma Duration_new_ok: "Duration_new secs nanos = Some d \<Longrightarrow> duration_ok d"
  by (auto simp: Duration_new_def duration_ok_def nanos_less_iff unat_mod
           split: if_splits option.splits)

lemma Duration_new_None_iff:
  "Duration_new secs nanos = None \<longleftrightarrow> 2 ^ 64 \<le> unat secs + unat nanos div 10 ^ 9"
proof (cases "nanos < NANOS_PER_SEC")
  case True
  then have "unat nanos div 10 ^ 9 = 0"
    by (simp add: nanos_less_iff)
  moreover have "unat secs < 2 ^ 64"
    using unsigned_less [of secs] by simp
  ultimately show ?thesis using True
    by (simp add: Duration_new_def)
next
  case False
  then show ?thesis
    by (auto simp: Duration_new_def checked_add_u64_def unat_carry not_less
             split: option.splits)
qed

lemma Duration_new_nanos:
  assumes "Duration_new secs nanos = Some d"
  shows "duration_nanos d = unat secs * 10 ^ 9 + unat nanos"
proof (cases "nanos < NANOS_PER_SEC")
  case True
  with assms show ?thesis
    by (auto simp: Duration_new_def duration_nanos_def)
next
  case False
  with assms obtain s where s: "checked_add_u64 secs (ucast (nanos div NANOS_PER_SEC)) = Some s"
    and d: "d = \<lparr>dur_secs = s, dur_nanos = nanos mod NANOS_PER_SEC\<rparr>"
    by (auto simp: Duration_new_def split: option.splits)
  from s have "unat s = unat secs + unat nanos div 10 ^ 9"
    by (simp add: checked_add_u64_Some unat_add_u64 unat_carry)
  with d show ?thesis
    by (simp add: duration_nanos_def unat_mod algebra_simps)
qed

lemma Duration_new_small:
  "nanos < NANOS_PER_SEC \<Longrightarrow> Duration_new secs nanos = Some \<lparr>dur_secs = secs, dur_nanos = nanos\<rparr>"
  by (simp add: Duration_new_def)

section \<open>SystemTime::checked_add\<close>

lemma checked_add_unsigned_Some:
  "checked_add_unsigned a b = Some c \<longleftrightarrow> sint a + uint b < 2 ^ 63 \<and> c = a + b"
  by (auto simp: checked_add_unsigned_def)

lemma checked_add_i64_one:
  "checked_add_i64 a 1 = (if sint a + 1 < 2 ^ 63 then Some (a + 1) else None)"
proof -
  have "- (2 ^ 63) \<le> sint a"
    using sint_ge [of a] by simp
  then show ?thesis
    by (simp add: checked_add_i64_def)
qed

lemma nsec_sum:
  assumes "time_ok t" "duration_ok d"
  shows "unat (dur_nanos d + tv_nsec t) = unat (dur_nanos d) + unat (tv_nsec t)"
  using assms by (intro unat_add_u32) (simp add: time_ok_def duration_ok_def nanos_less_iff)

lemma nsec_carry:
  assumes "time_ok t" "duration_ok d" "NANOS_PER_SEC \<le> dur_nanos d + tv_nsec t"
  shows "unat (dur_nanos d + tv_nsec t - NANOS_PER_SEC) = unat (dur_nanos d) + unat (tv_nsec t) - 10 ^ 9"
  using assms nsec_sum [OF assms(1,2)] by (simp add: unat_sub)

lemma checked_add_unfold:
  "checked_add t d =
     (if \<not> sint (tv_sec t) + uint (dur_secs d) < 2 ^ 63 then None
      else if NANOS_PER_SEC \<le> dur_nanos d + tv_nsec t then
        (if sint (tv_sec t + dur_secs d) + 1 < 2 ^ 63
         then Some \<lparr>tv_sec = tv_sec t + dur_secs d + 1,
                    tv_nsec = dur_nanos d + tv_nsec t - NANOS_PER_SEC\<rparr>
         else None)
      else Some \<lparr>tv_sec = tv_sec t + dur_secs d, tv_nsec = dur_nanos d + tv_nsec t\<rparr>)"
  by (simp add: checked_add_def checked_add_unsigned_def checked_add_i64_one Let_def)

lemma checked_add_ok:
  assumes "time_ok t" "duration_ok d" "checked_add t d = Some t'"
  shows "time_ok t'"
proof (cases "NANOS_PER_SEC \<le> dur_nanos d + tv_nsec t")
  case True
  with assms(3) have t': "tv_nsec t' = dur_nanos d + tv_nsec t - NANOS_PER_SEC"
    by (auto simp: checked_add_unfold split: if_splits)
  have "unat (dur_nanos d) + unat (tv_nsec t) < 2 * 10 ^ 9"
    using assms(1,2) by (simp add: time_ok_def duration_ok_def nanos_less_iff)
  with nsec_carry [OF assms(1,2) True] t' show ?thesis
    by (simp add: time_ok_def nanos_less_iff)
next
  case False
  with assms(3) show ?thesis
    by (auto simp: checked_add_unfold time_ok_def not_le split: if_splits)
qed

lemma duration_nanos_int:
  "int (duration_nanos d) = uint (dur_secs d) * 10 ^ 9 + uint (dur_nanos d)"
  by (simp add: duration_nanos_def)

lemma nsec_sum_int:
  assumes "time_ok t" "duration_ok d"
  shows "uint (dur_nanos d + tv_nsec t) = uint (dur_nanos d) + uint (tv_nsec t)"
proof -
  have "int (unat (dur_nanos d + tv_nsec t)) = int (unat (dur_nanos d) + unat (tv_nsec t))"
    by (simp only: nsec_sum [OF assms])
  then show ?thesis by simp
qed

lemma nsec_carry_int:
  assumes "time_ok t" "duration_ok d" "NANOS_PER_SEC \<le> dur_nanos d + tv_nsec t"
  shows "uint (dur_nanos d + tv_nsec t - NANOS_PER_SEC) = uint (dur_nanos d) + uint (tv_nsec t) - 10 ^ 9"
proof -
  have "uint NANOS_PER_SEC \<le> uint (dur_nanos d + tv_nsec t)"
    using assms(3) by (simp only: word_le_def)
  then have "uint (dur_nanos d + tv_nsec t - NANOS_PER_SEC) =
      uint (dur_nanos d + tv_nsec t) - uint NANOS_PER_SEC"
    by (simp only: uint_sub_lem)
  then show ?thesis
    by (simp add: nsec_sum_int [OF assms(1,2)])
qed

lemma checked_add_nanos:
  assumes "time_ok t" "duration_ok d" "checked_add t d = Some t'"
  shows "time_nanos t' = time_nanos t + int (duration_nanos d)"
proof -
  let ?s = "tv_sec t + dur_secs d"
  from assms(3) have "sint (tv_sec t) + uint (dur_secs d) < 2 ^ 63"
    by (auto simp: checked_add_unfold split: if_splits)
  then have sint_s: "sint ?s = sint (tv_sec t) + uint (dur_secs d)"
    by (rule sint_add_uint)
  show ?thesis
  proof (cases "NANOS_PER_SEC \<le> dur_nanos d + tv_nsec t")
    case True
    with assms(3) have lt: "sint ?s + 1 < 2 ^ 63"
      and t': "tv_sec t' = ?s + 1" "tv_nsec t' = dur_nanos d + tv_nsec t - NANOS_PER_SEC"
      by (auto simp: checked_add_unfold split: if_splits)
    have "sint (tv_sec t') = sint (tv_sec t) + uint (dur_secs d) + 1"
      using t'(1) sint_add_one [OF lt] sint_s by simp
    moreover have "uint (tv_nsec t') = uint (dur_nanos d) + uint (tv_nsec t) - 10 ^ 9"
      using t'(2) nsec_carry_int [OF assms(1,2) True] by simp
    ultimately show ?thesis
      by (simp add: time_nanos_def duration_nanos_int ring_distribs)
  next
    case False
    with assms(3) have t': "tv_sec t' = ?s" "tv_nsec t' = dur_nanos d + tv_nsec t"
      by (auto simp: checked_add_unfold split: if_splits)
    have "uint (tv_nsec t') = uint (dur_nanos d) + uint (tv_nsec t)"
      using t'(2) nsec_sum_int [OF assms(1,2)] by simp
    with t'(1) sint_s show ?thesis
      by (simp add: time_nanos_def duration_nanos_int ring_distribs)
  qed
qed

text \<open>From the epoch nothing is carried: the sum exists exactly when the seconds fit \<^verbatim>\<open>i64\<close>.\<close>

lemma checked_add_epoch:
  assumes "duration_ok d"
  shows "checked_add UNIX_EPOCH d =
     (if unat (dur_secs d) < 2 ^ 63 then Some \<lparr>tv_sec = dur_secs d, tv_nsec = dur_nanos d\<rparr>
      else None)"
proof -
  have "uint (dur_secs d) < 2 ^ 63 \<longleftrightarrow> unat (dur_secs d) < 2 ^ 63"
    by (rule uint_less_pow_iff)
  with assms show ?thesis
    by (auto simp: checked_add_unfold UNIX_EPOCH_def duration_ok_def)
qed

lemma time_ok_epoch [simp]: "time_ok UNIX_EPOCH"
  by (simp add: time_ok_def UNIX_EPOCH_def NANOS_PER_SEC_def)

lemma time_nanos_epoch [simp]: "time_nanos UNIX_EPOCH = 0"
  by (simp add: time_nanos_def UNIX_EPOCH_def)

end
