(* ===== verification/Fuse_Abi.thy ===== *)
theory Fuse_Abi
  imports Fuse_Time
begin

text \<open>
  The kernel ABI as far as \<^verbatim>\<open>src/fuse_ll/src/fuse/request.rs\<close> reads it: the
  constants it tests and the argument structs whose fields it forwards.  The
  ABI module itself (\<^verbatim>\<open>abi.rs\<close>) is not among the sources, so everything
  here is modelled from the specification and from the way \<^verbatim>\<open>request.rs\<close>
  uses it; the values of the constants are those of the FUSE kernel
  interface 7.x and of the macOS extension flags.

  Each argument struct is a record holding the fields that carry information
  (padding and unused words are left to the decoder).  Field \<open>f\<close> of struct
  \<^verbatim>\<open>fuse_X_in\<close> is written \<open>X_f\<close>, since Isabelle wants one name per field and
  the structs share names such as \<^verbatim>\<open>fh\<close>, \<^verbatim>\<open>flags\<close> and \<^verbatim>\<open>size\<close>.

  What depends on the build (the target platform, the minor version the
  crate was built for, the session's buffer sizes) is a field of the record
  \<open>platform\<close>, which every operation of the model takes as its first argument.
\<close>

section \<open>Build parameters\<close>

record platform =
  target_os_macos :: bool
  FUSE_KERNEL_MINOR_VERSION :: u32
  BUFFER_SIZE :: nat
  MAX_WRITE_SIZE :: nat
  clock_now :: system_time

section \<open>Constants\<close>

definition FUSE_KERNEL_VERSION :: u32 where [abi_defs]:
  "FUSE_KERNEL_VERSION = 7"

definition FUSE_ASYNC_READ :: u32 where [abi_defs]:
  "FUSE_ASYNC_READ = push_bit 0 1"

definition FUSE_CASE_INSENSITIVE :: u32 where [abi_defs]:
  "FUSE_CASE_INSENSITIVE = push_bit 29 1"

definition FUSE_VOL_RENAME :: u32 where [abi_defs]:
  "FUSE_VOL_RENAME = push_bit 30 1"

definition FUSE_XTIMES :: u32 where [abi_defs]:
  "FUSE_XTIMES = push_bit 31 1"

definition FUSE_RELEASE_FLUSH :: u32 where [abi_defs]:
  "FUSE_RELEASE_FLUSH = push_bit 0 1"

definition FATTR_MODE :: u32 where [abi_defs]:
  "FATTR_MODE = push_bit 0 1"

definition FATTR_UID :: u32 where [abi_defs]:
  "FATTR_UID = push_bit 1 1"

definition FATTR_GID :: u32 where [abi_defs]:
  "FATTR_GID = push_bit 2 1"

definition FATTR_SIZE :: u32 where [abi_defs]:
  "FATTR_SIZE = push_bit 3 1"

definition FATTR_ATIME :: u32 where [abi_defs]:
  "FATTR_ATIME = push_bit 4 1"

definition FATTR_MTIME :: u32 where [abi_defs]:
  "FATTR_MTIME = push_bit 5 1"

definition FATTR_FH :: u32 where [abi_defs]:
  "FATTR_FH = push_bit 6 1"

definition FATTR_CRTIME :: u32 where [abi_defs]:
  "FATTR_CRTIME = push_bit 28 1"

definition FATTR_CHGTIME :: u32 where [abi_defs]:
  "FATTR_CHGTIME = push_bit 29 1"

definition FATTR_BKUPTIME :: u32 where [abi_defs]:
  "FATTR_BKUPTIME = push_bit 30 1"

definition FATTR_FLAGS :: u32 where [abi_defs]:
  "FATTR_FLAGS = push_bit 31 1"

text \<open>The error numbers of \<^verbatim>\<open>libc\<close> that the dispatcher replies with.\<close>

definition EIO :: i32 where [abi_defs]:
  "EIO = 5"

definition ENOSYS :: "platform \<Rightarrow> i32" where [abi_defs]:
  "ENOSYS pf = (if target_os_macos pf then 78 else 38)"

definition EPROTO :: "platform \<Rightarrow> i32" where [abi_defs]:
  "EPROTO pf = (if target_os_macos pf then 100 else 71)"

section \<open>Argument structs\<close>

record fuse_init_in =
  init_major :: u32
  init_minor :: u32
  init_max_readahead :: u32
  init_flags :: u32

record fuse_init_out =
  out_major :: u32
  out_minor :: u32
  out_max_readahead :: u32
  out_flags :: u32
  out_unused :: u32
  out_max_write :: u32

record fuse_interrupt_in =
  interrupt_unique :: u64

record fuse_forget_in =
  forget_nlookup :: u64

record fuse_setattr_in =
  setattr_valid :: u32
  setattr_fh :: u64
  setattr_size :: u64
  setattr_atime :: u64
  setattr_mtime :: u64
  setattr_atimensec :: u32
  setattr_mtimensec :: u32
  setattr_mode :: u32
  setattr_uid :: u32
  setattr_gid :: u32
  setattr_bkuptime :: u64
  setattr_chgtime :: u64
  setattr_crtime :: u64
  setattr_bkuptimensec :: u32
  setattr_chgtimensec :: u32
  setattr_crtimensec :: u32
  setattr_flags :: u32

record fuse_mknod_in =
  mknod_mode :: u32
  mknod_rdev :: u32

record fuse_mkdir_in =
  mkdir_mode :: u32

record fuse_rename_in =
  rename_newdir :: u64

record fuse_link_in =
  link_oldnodeid :: u64

record fuse_open_in =
  open_flags :: u32

record fuse_read_in =
  read_fh :: u64
  read_offset :: u64
  read_size :: u32

record fuse_write_in =
  write_fh :: u64
  write_offset :: u64
  write_size :: u32
  write_write_flags :: u32

record fuse_flush_in =
  flush_fh :: u64
  flush_lock_owner :: u64

record fuse_release_in =
  release_fh :: u64
  release_flags :: u32
  release_release_flags :: u32
  release_lock_owner :: u64

record fuse_fsync_in =
  fsync_fh :: u64
  fsync_fsync_flags :: u32

record fuse_setxattr_in =
  setxattr_size :: u32
  setxattr_flags :: u32
  setxattr_position :: u32

record fuse_getxattr_in =
  getxattr_size :: u32

record fuse_access_in =
  access_mask :: u32

record fuse_create_in =
  create_flags :: u32
  create_mode :: u32

record fuse_file_lock =
  lock_start :: u64
  lock_end :: u64
  lock_typ :: u32
  lock_pid :: u32

record fuse_lk_in =
  lk_fh :: u64
  lk_owner :: u64
  lk_lk :: fuse_file_lock

record fuse_bmap_in =
  bmap_block :: u64
  bmap_blocksize :: u32

record fuse_exchange_in =
  exchange_olddir :: u64
  exchange_newdir :: u64
  exchange_options :: u64

section \<open>The attribute bits are distinct single bits\<close>

lemmas fattr_defs =
  FATTR_MODE_def FATTR_UID_def FATTR_GID_def FATTR_SIZE_def FATTR_ATIME_def
  FATTR_MTIME_def FATTR_FH_def FATTR_CRTIME_def FATTR_CHGTIME_def
  FATTR_BKUPTIME_def FATTR_FLAGS_def

definition fattr_bits :: "u32 list" where
  "fattr_bits = [FATTR_MODE, FATTR_UID, FATTR_GID, FATTR_SIZE, FATTR_ATIME,
     FATTR_MTIME, FATTR_FH, FATTR_CRTIME, FATTR_CHGTIME, FATTR_BKUPTIME, FATTR_FLAGS]"

lemma fattr_bits_distinct: "distinct fattr_bits"
  by (simp add: fattr_bits_def fattr_defs)

lemma fattr_bits_disjoint:
  "a \<in> set fattr_bits \<Longrightarrow> b \<in> set fattr_bits \<Longrightarrow> a \<noteq> b \<Longrightarrow> a AND b = 0"
  by (auto simp: fattr_bits_def fattr_defs)

lemma fattr_bits_nonzero: "a \<in> set fattr_bits \<Longrightarrow> a \<noteq> 0"
  by (auto simp: fattr_bits_def fattr_defs)

section \<open>Two builds, for the worked instances\<close>

definition example_linux :: platform where
  "example_linux = \<lparr>target_os_macos = False, FUSE_KERNEL_MINOR_VERSION = 8,
     BUFFER_SIZE = 65536, MAX_WRITE_SIZE = 61440,
     clock_now = \<lparr>tv_sec = 1700000000, tv_nsec = 0\<rparr>\<rparr>"

definition example_macos :: platform where
  "example_macos = \<lparr>target_os_macos = True, FUSE_KERNEL_MINOR_VERSION = 8,
     BUFFER_SIZE = 65536, MAX_WRITE_SIZE = 61440,
     clock_now = \<lparr>tv_sec = 1700000000, tv_nsec = 0\<rparr>\<rparr>"

lemmas example_platform_defs = example_linux_def example_macos_def

end
