(* ===== verification/Fuse_LL_Request.thy ===== *)
theory Fuse_LL_Request
  imports Fuse_Abi
begin

text \<open>
  The parsed request that \<^verbatim>\<open>request.rs\<close> receives from the low-level module
  \<^verbatim>\<open>ll_request\<close>: the fixed header and the operation, a closed tagged union
  with one variant per opcode.  The variants and what each carries are
  the patterns of the \<^verbatim>\<open>match\<close> in \<^verbatim>\<open>Request::dispatch\<close>; the module itself is
  not among the sources.

  Three variants exist on macOS only.  The datatype holds them on every
  platform and \<open>op_compiled\<close> says which variants the build contains.
\<close>

section \<open>The request header\<close>

record fuse_in_header =
  hdr_len :: u32
  hdr_opcode :: u32
  hdr_unique :: u64
  hdr_nodeid :: u64
  hdr_uid :: u32
  hdr_gid :: u32
  hdr_pid :: u32
  hdr_padding :: u32

section \<open>Operations\<close>

datatype operation =
    Init fuse_init_in
  | Destroy
  | Interrupt fuse_interrupt_in
  | Lookup os_str
  | Forget fuse_forget_in
  | GetAttr
  | SetAttr fuse_setattr_in
  | ReadLink
  | MkNod fuse_mknod_in os_str
  | MkDir fuse_mkdir_in os_str
  | Unlink os_str
  | RmDir os_str
  | SymLink os_str os_str
  | Rename fuse_rename_in os_str os_str
  | Link fuse_link_in os_str
  | Open fuse_open_in
  | Read fuse_read_in
  | Write fuse_write_in bytes
  | Flush fuse_flush_in
  | Release fuse_release_in
  | FSync fuse_fsync_in
  | OpenDir fuse_open_in
  | ReadDir fuse_read_in
  | ReleaseDir fuse_release_in
  | FSyncDir fuse_fsync_in
  | StatFs
  | SetXAttr fuse_setxattr_in os_str bytes
  | GetXAttr fuse_getxattr_in os_str
  | ListXAttr fuse_getxattr_in
  | RemoveXAttr os_str
  | Access fuse_access_in
  | Create fuse_create_in os_str
  | GetLk fuse_lk_in
  | SetLk fuse_lk_in
  | SetLkW fuse_lk_in
  | BMap fuse_bmap_in
  | SetVolName os_str
  | GetXTimes
  | Exchange fuse_exchange_in os_str os_str

fun macos_only :: "operation \<Rightarrow> bool" where
  "macos_only (SetVolName name) = True"
| "macos_only GetXTimes = True"
| "macos_only (Exchange arg oldname newname) = True"
| "macos_only other = False"

definition op_compiled :: "platform \<Rightarrow> operation \<Rightarrow> bool" where
  "op_compiled pf operation \<longleftrightarrow> target_os_macos pf \<or> \<not> macos_only operation"

section \<open>The parsed request\<close>

record ll_request =
  ll_header :: fuse_in_header
  ll_operation :: operation

definition ll_unique :: "ll_request \<Rightarrow> u64" where [accessor_defs]:
  "ll_unique r = hdr_unique (ll_header r)"

definition ll_nodeid :: "ll_request \<Rightarrow> u64" where [accessor_defs]:
  "ll_nodeid r = hdr_nodeid (ll_header r)"

definition ll_uid :: "ll_request \<Rightarrow> u32" where [accessor_defs]:
  "ll_uid r = hdr_uid (ll_header r)"

definition ll_gid :: "ll_request \<Rightarrow> u32" where [accessor_defs]:
  "ll_gid r = hdr_gid (ll_header r)"

definition ll_pid :: "ll_request \<Rightarrow> u32" where [accessor_defs]:
  "ll_pid r = hdr_pid (ll_header r)"

section \<open>Classes of operations\<close>

text \<open>
  The dispatcher treats the handshake, the teardown and the interrupt apart
  from the operations it hands to the filesystem; \<open>class_of\<close> names the four
  classes, for the statements that hold of a whole class.
\<close>

datatype op_class = Handshake | Teardown | Cancel | Regular

fun class_of :: "operation \<Rightarrow> op_class" where
  "class_of (Init arg) = Handshake"
| "class_of Destroy = Teardown"
| "class_of (Interrupt arg) = Cancel"
| "class_of other = Regular"

lemma class_of_Handshake [simp]: "class_of x = Handshake \<longleftrightarrow> (\<exists>arg. x = Init arg)"
  by (cases x) simp_all

lemma class_of_Teardown [simp]: "class_of x = Teardown \<longleftrightarrow> x = Destroy"
  by (cases x) simp_all

lemma class_of_Cancel [simp]: "class_of x = Cancel \<longleftrightarrow> (\<exists>arg. x = Interrupt arg)"
  by (cases x) simp_all

lemma op_compiled_macos [simp]: "target_os_macos pf \<Longrightarrow> op_compiled pf x"
  by (simp add: op_compiled_def)

lemma op_compiled_simps [simp]:
  "op_compiled pf (SetVolName name) \<longleftrightarrow> target_os_macos pf"
  "op_compiled pf GetXTimes \<longleftrightarrow> target_os_macos pf"
  "op_compiled pf (Exchange arg oldname newname) \<longleftrightarrow> target_os_macos pf"
  by (simp_all add: op_compiled_def)

lemma op_compiled_other [simp]: "\<not> macos_only x \<Longrightarrow> op_compiled pf x"
  by (simp add: op_compiled_def)

end
