(* ===== verification/Fuse_Reply.thy ===== *)
theory Fuse_Reply
  imports Fuse_Abi
begin

text \<open>
  Reply objects and what they put on the channel.  A reply object is made
  for one request and bound to its correlation id (\<^verbatim>\<open>unique\<close>) and to the
  channel the request came from.  It has two terminal operations, \<open>reply_ok\<close>
  and \<open>reply_error\<close>; each yields the one message the object sends, so a
  reply object that has been used is gone, as in the source, where the
  terminal methods take \<^verbatim>\<open>self\<close> by value.  The module \<^verbatim>\<open>reply.rs\<close> is not among
  the sources: the model follows the specification's contract of the reply
  encoder.

  A message is what the kernel reads back: the correlation id, an error
  number (zero for success) and the payload.  The payload of the handshake
  reply is kept as the struct \<^verbatim>\<open>fuse_init_out\<close>; the payloads the filesystem
  produces are byte strings.
\<close>

type_synonym channel_sender = nat

datatype payload =
    No_data
  | Init_out fuse_init_out
  | Data bytes

record message =
  msg_ch :: channel_sender
  msg_unique :: u64
  msg_error :: i32
  msg_data :: payload

record reply =
  reply_unique :: u64
  reply_ch :: channel_sender

record reply_directory =
  dir_reply :: reply
  dir_size :: nat

definition Reply_new :: "u64 \<Rightarrow> channel_sender \<Rightarrow> reply" where
  "Reply_new unique ch = \<lparr>reply_unique = unique, reply_ch = ch\<rparr>"

definition ReplyDirectory_new :: "u64 \<Rightarrow> channel_sender \<Rightarrow> nat \<Rightarrow> reply_directory" where
  "ReplyDirectory_new unique ch budget = \<lparr>dir_reply = Reply_new unique ch, dir_size = budget\<rparr>"

definition reply_send :: "reply \<Rightarrow> i32 \<Rightarrow> payload \<Rightarrow> message" where
  "reply_send r err data =
     \<lparr>msg_ch = reply_ch r, msg_unique = reply_unique r, msg_error = err, msg_data = data\<rparr>"

definition reply_ok :: "reply \<Rightarrow> payload \<Rightarrow> message" where
  "reply_ok r data = reply_send r 0 data"

definition reply_error :: "reply \<Rightarrow> i32 \<Rightarrow> message" where
  "reply_error r err = reply_send r err No_data"

text \<open>
  What a filesystem method does with the reply object it is given: exactly
  one of the two terminal operations.
\<close>

datatype terminal = Term_ok bytes | Term_error i32

fun finish :: "reply \<Rightarrow> terminal \<Rightarrow> message" where
  "finish r (Term_ok data) = reply_ok r (Data data)"
| "finish r (Term_error err) = reply_error r err"

lemmas reply_defs = Reply_new_def ReplyDirectory_new_def reply_send_def reply_ok_def reply_error_def

lemma msg_unique_reply_ok [simp]: "msg_unique (reply_ok r data) = reply_unique r"
  by (simp add: reply_defs)

lemma msg_unique_reply_error [simp]: "msg_unique (reply_error r err) = reply_unique r"
  by (simp add: reply_defs)

lemma msg_ch_reply_ok [simp]: "msg_ch (reply_ok r data) = reply_ch r"
  by (simp add: reply_defs)

lemma msg_ch_reply_error [simp]: "msg_ch (reply_error r err) = reply_ch r"
  by (simp add: reply_defs)

lemma msg_error_reply_ok [simp]: "msg_error (reply_ok r data) = 0"
  by (simp add: reply_defs)

lemma msg_error_reply_error [simp]: "msg_error (reply_error r err) = err"
  by (simp add: reply_defs)

lemma msg_data_reply_ok [simp]: "msg_data (reply_ok r data) = data"
  by (simp add: reply_defs)

lemma msg_data_reply_error [simp]: "msg_data (reply_error r err) = No_data"
  by (simp add: reply_defs)

lemma msg_unique_finish [simp]: "msg_unique (finish r t) = reply_unique r"
  by (cases t) simp_all

lemma msg_ch_finish [simp]: "msg_ch (finish r t) = reply_ch r"
  by (cases t) simp_all

lemma reply_unique_new [simp]: "reply_unique (Reply_new unique ch) = unique"
  by (simp add: Reply_new_def)

lemma reply_ch_new [simp]: "reply_ch (Reply_new unique ch) = ch"
  by (simp add: Reply_new_def)

lemma dir_reply_new [simp]: "dir_reply (ReplyDirectory_new unique ch budget) = Reply_new unique ch"
  by (simp add: ReplyDirectory_new_def)

lemma dir_size_new [simp]: "dir_size (ReplyDirectory_new unique ch budget) = budget"
  by (simp add: ReplyDirectory_new_def)

end
