(* ===== verification/Fuse_Request.thy ===== *)
theory Fuse_Request
  imports Fuse_LL_Request Fuse_Reply
begin

text \<open>
  The struct \<^verbatim>\<open>Request\<close> of \<^verbatim>\<open>src/fuse_ll/src/fuse/request.rs\<close> and its small
  methods: the accessors \<^verbatim>\<open>unique\<close>, \<^verbatim>\<open>uid\<close>, \<^verbatim>\<open>gid\<close>, \<^verbatim>\<open>pid\<close>, and \<^verbatim>\<open>reply\<close>,
  which makes the reply object of the request.  The fields are written
  \<open>request_ch\<close>, \<open>request_data\<close> and \<open>request_ll\<close> (the field \<^verbatim>\<open>request\<close> of the
  source, the parsed request).

  The constructor \<^verbatim>\<open>Request::new\<close> calls the decoder
  \<^verbatim>\<open>ll_request::Request::try_from\<close>, which is not among the sources; \<open>Request_new\<close>
  takes the decoder as its first argument, so that what is proved of it
  holds for every decoder, and \<open>Fuse_Wire\<close> supplies one.
\<close>

record request =
  request_ch :: channel_sender
  request_data :: bytes
  request_ll :: ll_request

definition Request_new ::
  "(bytes \<Rightarrow> 'e + ll_request) \<Rightarrow> channel_sender \<Rightarrow> bytes \<Rightarrow> request option" where
  "Request_new try_from ch data =
     (case try_from data of
        Inr r \<Rightarrow> Some \<lparr>request_ch = ch, request_data = data, request_ll = r\<rparr>
      | Inl err \<Rightarrow> None)"

definition request_reply :: "request \<Rightarrow> reply" where [accessor_defs]:
  "request_reply req = Reply_new (ll_unique (request_ll req)) (request_ch req)"

definition request_unique :: "request \<Rightarrow> u64" where [accessor_defs]:
  "request_unique req = ll_unique (request_ll req)"

definition request_uid :: "request \<Rightarrow> u32" where [accessor_defs]:
  "request_uid req = ll_uid (request_ll req)"

definition request_gid :: "request \<Rightarrow> u32" where [accessor_defs]:
  "request_gid req = ll_gid (request_ll req)"

definition request_pid :: "request \<Rightarrow> u32" where [accessor_defs]:
  "request_pid req = ll_pid (request_ll req)"

text \<open>The reply object of a request carries the request's correlation id and channel.\<close>

lemma reply_unique_request_reply [simp]:
  "reply_unique (request_reply req) = request_unique req"
  by (simp add: request_reply_def request_unique_def)

lemma reply_ch_request_reply [simp]:
  "reply_ch (request_reply req) = request_ch req"
  by (simp add: request_reply_def)

lemma Request_new_Some_iff:
  "Request_new try_from ch data = Some req \<longleftrightarrow>
     (\<exists>r. try_from data = Inr r \<and> req = \<lparr>request_ch = ch, request_data = data, request_ll = r\<rparr>)"
  by (cases "try_from data") (auto simp: Request_new_def)

lemma Request_new_None_iff:
  "Request_new try_from ch data = None \<longleftrightarrow> (\<exists>err. try_from data = Inl err)"
  by (cases "try_from data") (auto simp: Request_new_def)

lemma request_unique_header: "request_unique req = hdr_unique (ll_header (request_ll req))"
  by (simp add: request_unique_def ll_unique_def)

section \<open>A request for the worked instances\<close>

definition example_request :: "operation \<Rightarrow> request" where
  "example_request x =
     \<lparr>request_ch = 3, request_data = [],
      request_ll = \<lparr>ll_header = \<lparr>hdr_len = 40, hdr_opcode = 0, hdr_unique = 42, hdr_nodeid = 7,
                      hdr_uid = 1000, hdr_gid = 1000, hdr_pid = 77, hdr_padding = 0\<rparr>,
                    ll_operation = x\<rparr>\<rparr>"

lemma example_request_simps [simp]:
  "ll_operation (request_ll (example_request x)) = x"
  "request_unique (example_request x) = 42"
  "request_ch (example_request x) = 3"
  "ll_nodeid (request_ll (example_request x)) = 7"
  by (simp_all add: example_request_def accessor_defs)

end
