(* ===== verification/Fuse_Filesystem.thy ===== *)
theory Fuse_Filesystem
  imports Fuse_Request
begin

text \<open>
  The interface between the dispatcher and the filesystem implementation
  (the trait \<^verbatim>\<open>Filesystem\<close>, which is not among the sources).  The two sides
  agree on a datatype of calls: \<open>fs_call\<close> has one constructor per method of
  the trait that the dispatcher invokes, carrying the arguments the
  dispatcher derives and the reply object it hands over.  The method
  \<^verbatim>\<open>forget\<close> takes no reply object.

  An implementation is a record \<open>filesystem_ops\<close> over its own state \<open>'fs\<close>:
  the hooks \<open>fs_init\<close> and \<open>fs_destroy\<close>, and \<open>fs_handle\<close>, which runs one
  call and says which terminal operation it applied to the reply object.
  \<open>answer\<close> turns that into the messages on the channel: one message from
  the call's reply object, or none for a call without one.
\<close>

record setattr_args =
  sa_mode :: "u32 option"
  sa_uid :: "u32 option"
  sa_gid :: "u32 option"
  sa_size :: "u64 option"
  sa_atime :: "system_time option"
  sa_mtime :: "system_time option"
  sa_fh :: "u64 option"
  sa_crtime :: "system_time option"
  sa_chgtime :: "system_time option"
  sa_bkuptime :: "system_time option"
  sa_flags :: "u32 option"

datatype fs_call =
    fs_lookup u64 os_str reply
  | fs_forget u64 u64
  | fs_getattr u64 reply
  | fs_setattr u64 setattr_args reply
  | fs_readlink u64 reply
  | fs_mknod u64 os_str u32 u32 reply
  | fs_mkdir u64 os_str u32 reply
  | fs_unlink u64 os_str reply
  | fs_rmdir u64 os_str reply
  | fs_symlink u64 os_str os_str reply
  | fs_rename u64 os_str u64 os_str reply
  | fs_link u64 u64 os_str reply
  | fs_open u64 u32 reply
  | fs_read u64 u64 i64 u32 reply
  | fs_write u64 u64 i64 bytes u32 reply
  | fs_flush u64 u64 u64 reply
  | fs_release u64 u64 u32 u64 bool reply
  | fs_fsync u64 u64 bool reply
  | fs_opendir u64 u32 reply
  | fs_readdir u64 u64 i64 reply_directory
  | fs_releasedir u64 u64 u32 reply
  | fs_fsyncdir u64 u64 bool reply
  | fs_statfs u64 reply
  | fs_setxattr u64 os_str bytes u32 u32 reply
  | fs_getxattr u64 os_str u32 reply
  | fs_listxattr u64 u32 reply
  | fs_removexattr u64 os_str reply
  | fs_access u64 u32 reply
  | fs_create u64 os_str u32 u32 reply
  | fs_getlk u64 u64 u64 u64 u64 u32 u32 reply
  | fs_setlk u64 u64 u64 u64 u64 u32 u32 bool reply
  | fs_bmap u64 u32 u64 reply
  | fs_setvolname os_str reply
  | fs_getxtimes u64 reply
  | fs_exchange u64 os_str u64 os_str u64 reply

fun reply_of :: "fs_call \<Rightarrow> reply option" where
  "reply_of (fs_lookup parent name r) = Some r"
| "reply_of (fs_forget ino nlookup) = None"
| "reply_of (fs_getattr ino r) = Some r"
| "reply_of (fs_setattr ino args r) = Some r"
| "reply_of (fs_readlink ino r) = Some r"
| "reply_of (fs_mknod parent name mode rdev r) = Some r"
| "reply_of (fs_mkdir parent name mode r) = Some r"
| "reply_of (fs_unlink parent name r) = Some r"
| "reply_of (fs_rmdir parent name r) = Some r"
| "reply_of (fs_symlink parent name link r) = Some r"
| "reply_of (fs_rename parent name newparent newname r) = Some r"
| "reply_of (fs_link ino newparent newname r) = Some r"
| "reply_of (fs_open ino flags r) = Some r"
| "reply_of (fs_read ino fh offset sz r) = Some r"
| "reply_of (fs_write ino fh offset data flags r) = Some r"
| "reply_of (fs_flush ino fh lock_owner r) = Some r"
| "reply_of (fs_release ino fh flags lock_owner flush r) = Some r"
| "reply_of (fs_fsync ino fh datasync r) = Some r"
| "reply_of (fs_opendir ino flags r) = Some r"
| "reply_of (fs_readdir ino fh offset d) = Some (dir_reply d)"
| "reply_of (fs_releasedir ino fh flags r) = Some r"
| "reply_of (fs_fsyncdir ino fh datasync r) = Some r"
| "reply_of (fs_statfs ino r) = Some r"
| "reply_of (fs_setxattr ino name val flags position r) = Some r"
| "reply_of (fs_getxattr ino name sz r) = Some r"
| "reply_of (fs_listxattr ino sz r) = Some r"
| "reply_of (fs_removexattr ino name r) = Some r"
| "reply_of (fs_access ino msk r) = Some r"
| "reply_of (fs_create parent name mode flags r) = Some r"
| "reply_of (fs_getlk ino fh lock_owner start fin typ pid r) = Some r"
| "reply_of (fs_setlk ino fh lock_owner start fin typ pid sleep r) = Some r"
| "reply_of (fs_bmap ino blocksize idx r) = Some r"
| "reply_of (fs_setvolname name r) = Some r"
| "reply_of (fs_getxtimes ino r) = Some r"
| "reply_of (fs_exchange parent name newparent newname options r) = Some r"

record 'fs filesystem_ops =
  fs_init :: "request \<Rightarrow> 'fs \<Rightarrow> (i32 + unit) \<times> 'fs"
  fs_destroy :: "request \<Rightarrow> 'fs \<Rightarrow> 'fs"
  fs_handle :: "request \<Rightarrow> fs_call \<Rightarrow> 'fs \<Rightarrow> terminal \<times> 'fs"

definition answer :: "fs_call \<Rightarrow> terminal \<Rightarrow> message list" where
  "answer call t = (case reply_of call of None \<Rightarrow> [] | Some r \<Rightarrow> [finish r t])"

lemma answer_forget [simp]: "answer (fs_forget ino nlookup) t = []"
  by (simp add: answer_def)

lemma answer_Some: "reply_of call = Some r \<Longrightarrow> answer call t = [finish r t]"
  by (simp add: answer_def)

lemma length_answer: "length (answer call t) = (if reply_of call = None then 0 else 1)"
  by (simp add: answer_def split: option.splits)

lemma answer_unique:
  "m \<in> set (answer call t) \<Longrightarrow> \<exists>r. reply_of call = Some r \<and> msg_unique m = reply_unique r \<and> msg_ch m = reply_ch r"
  by (cases "reply_of call") (auto simp: answer_def)

text \<open>Only \<^verbatim>\<open>forget\<close> is a call without a reply object.\<close>

lemma reply_of_None_iff: "reply_of call = None \<longleftrightarrow> (\<exists>ino nlookup. call = fs_forget ino nlookup)"
  by (cases call) simp_all

section \<open>Two implementations, for the worked instances\<close>

text \<open>
  \<open>counting_fs\<close> counts the calls it receives and answers every call with the
  empty payload; \<open>refusing_fs\<close> fails the mount in its \<open>init\<close> hook.
\<close>

definition counting_fs :: "nat filesystem_ops" where
  "counting_fs = \<lparr>fs_init = (\<lambda>req n. (Inr (), Suc n)),
     fs_destroy = (\<lambda>req n. Suc n),
     fs_handle = (\<lambda>req call n. (Term_ok [], Suc n))\<rparr>"

definition refusing_fs :: "nat filesystem_ops" where
  "refusing_fs = \<lparr>fs_init = (\<lambda>req n. (Inl 13, Suc n)),
     fs_destroy = (\<lambda>req n. Suc n),
     fs_handle = (\<lambda>req call n. (Term_error 38, Suc n))\<rparr>"

lemma counting_fs_simps [simp]:
  "fs_init counting_fs req n = (Inr (), Suc n)"
  "fs_destroy counting_fs req n = Suc n"
  "fs_handle counting_fs req call n = (Term_ok [], Suc n)"
  by (simp_all add: counting_fs_def)

lemma refusing_fs_simps [simp]:
  "fs_init refusing_fs req n = (Inl 13, Suc n)"
  "fs_destroy refusing_fs req n = Suc n"
  "fs_handle refusing_fs req call n = (Term_error 38, Suc n)"
  by (simp_all add: refusing_fs_def)

end
