(* ===== verification/Fuse_Session.thy ===== *)
theory Fuse_Session
  imports Fuse_Filesystem
begin

text \<open>
  The session: the state of one mounted connection that the dispatcher
  reads and writes.  The struct \<^verbatim>\<open>Session\<close> is not among the sources; its
  fields are those \<^verbatim>\<open>request.rs\<close> touches: the filesystem (here its state),
  the protocol version the kernel announced, and the two flags.

  The three states of the handshake state machine are read off the flags by
  \<open>state_of\<close>, and are linearly ordered by the life of a session.
  \<open>session_inv\<close> is what the dispatcher keeps true of the flags: a session
  is never destroyed without having been initialized.
\<close>

record 'fs session =
  filesystem :: 'fs
  proto_major :: u32
  proto_minor :: u32
  initialized :: bool
  destroyed :: bool

definition Session_new :: "'fs \<Rightarrow> 'fs session" where
  "Session_new fs = \<lparr>filesystem = fs, proto_major = 0, proto_minor = 0,
     initialized = False, destroyed = False\<rparr>"

datatype session_state = Uninitialized | Initialized | Destroyed

definition state_of :: "'fs session \<Rightarrow> session_state" where
  "state_of se = (if \<not> initialized se then Uninitialized
                  else if destroyed se then Destroyed else Initialized)"

definition session_inv :: "'fs session \<Rightarrow> bool" where
  "session_inv se \<longleftrightarrow> (destroyed se \<longrightarrow> initialized se)"

lemma state_of_simps [simp]:
  "state_of se = Uninitialized \<longleftrightarrow> \<not> initialized se"
  "state_of se = Initialized \<longleftrightarrow> initialized se \<and> \<not> destroyed se"
  "state_of se = Destroyed \<longleftrightarrow> initialized se \<and> destroyed se"
  by (simp_all add: state_of_def)

lemma session_inv_new [simp]: "session_inv (Session_new fs)"
  by (simp add: session_inv_def Session_new_def)

lemma state_of_new [simp]: "state_of (Session_new fs) = Uninitialized"
  by (simp add: Session_new_def)

lemma session_inv_filesystem [simp]:
  "session_inv (se\<lparr>filesystem := fs\<rparr>) = session_inv se"
  by (simp add: session_inv_def)

lemma session_inv_proto [simp]:
  "session_inv (se\<lparr>proto_major := a\<rparr>) = session_inv se"
  "session_inv (se\<lparr>proto_minor := b\<rparr>) = session_inv se"
  by (simp_all add: session_inv_def)

lemma session_inv_initialized [simp]: "session_inv (se\<lparr>initialized := True\<rparr>)"
  by (simp add: session_inv_def)

lemma session_inv_destroyed:
  "initialized se \<Longrightarrow> session_inv (se\<lparr>destroyed := True\<rparr>)"
  by (simp add: session_inv_def)

text \<open>
  The handshake state machine of the specification, over the classes of
  operations: what a single dispatch may do to the state.  The dispatcher is
  shown to refine it.
\<close>

inductive session_step :: "session_state \<Rightarrow> op_class \<Rightarrow> session_state \<Rightarrow> bool" where
  handshake_accepted: "session_step s Handshake (if s = Destroyed then Destroyed else Initialized)"
| handshake_refused: "session_step s Handshake s"
| teardown: "s \<noteq> Uninitialized \<Longrightarrow> session_step s Teardown Destroyed"
| teardown_early: "session_step Uninitialized Teardown Uninitialized"
| cancel: "session_step s Cancel s"
| regular: "session_step s Regular s"

inductive_cases session_step_HandshakeE: "session_step s Handshake s'"
inductive_cases session_step_TeardownE: "session_step s Teardown s'"
inductive_cases session_step_CancelE: "session_step s Cancel s'"
inductive_cases session_step_RegularE: "session_step s Regular s'"

inductive_simps session_step_Regular_iff [simp]: "session_step s Regular s'"
inductive_simps session_step_Cancel_iff [simp]: "session_step s Cancel s'"

code_pred session_step .

text \<open>
  The states in the order of a session's life: uninitialized, initialized,
  destroyed.  The order is an instance of the library's linear orders, so
  that "the state never moves backwards" is \<open>s \<le> s'\<close> and the library's
  lemmas on orders apply to it.
\<close>

fun state_rank :: "session_state \<Rightarrow> nat" where
  "state_rank Uninitialized = 0"
| "state_rank Initialized = 1"
| "state_rank Destroyed = 2"

instantiation session_state :: linorder
begin

definition less_eq_session_state :: "session_state \<Rightarrow> session_state \<Rightarrow> bool" where
  "s \<le> t \<longleftrightarrow> state_rank s \<le> state_rank t"

definition less_session_state :: "session_state \<Rightarrow> session_state \<Rightarrow> bool" where
  "s < t \<longleftrightarrow> state_rank s < state_rank t"

instance
proof
  fix s t :: session_state
  show "s \<le> t \<Longrightarrow> t \<le> s \<Longrightarrow> s = t"
    by (cases s; cases t) (simp_all add: less_eq_session_state_def)
qed (auto simp: less_eq_session_state_def less_session_state_def)

end

lemma session_state_le_simps [simp]:
  "Uninitialized \<le> s" "s \<le> Destroyed"
  "s \<le> Uninitialized \<longleftrightarrow> s = Uninitialized" "Destroyed \<le> s \<longleftrightarrow> s = Destroyed"
  "Initialized \<le> s \<longleftrightarrow> s \<noteq> Uninitialized" "s \<le> Initialized \<longleftrightarrow> s \<noteq> Destroyed"
  by (cases s; simp add: less_eq_session_state_def)+

lemma state_of_le_iff:
  "state_of se \<le> state_of se' \<longleftrightarrow>
     (initialized se \<longrightarrow> initialized se') \<and>
     (initialized se \<and> destroyed se \<longrightarrow> destroyed se')"
  by (cases "state_of se"; cases "state_of se'") (auto simp: state_of_def split: if_splits)

lemma session_step_mono: "session_step s c s' \<Longrightarrow> s \<le> s'"
  by (induction rule: session_step.induct) auto

lemma session_step_Destroyed: "session_step Destroyed c s' \<Longrightarrow> s' = Destroyed"
  by (erule session_step.cases) simp_all

end
