(* ===== verification/Fuse_Handshake.thy ===== *)
theory Fuse_Handshake
  imports Fuse_Session
begin

text \<open>
  The handshake arm of \<^verbatim>\<open>Request::dispatch\<close>
  (\<^verbatim>\<open>src/fuse_ll/src/fuse/request.rs\<close>, the arm for \<^verbatim>\<open>Operation::Init\<close>) with the
  capability mask \<open>INIT_FLAGS\<close> it uses.  The arm is \<open>dispatch_init\<close>; its
  parts are \<open>abi_unsupported\<close> (the version test), \<open>negotiated_readahead\<close>
  (the conditional that bounds the read-ahead by the buffer size) and
  \<open>init_out\<close> (the reply struct).

  The lemmas give the result of the arm on each of its three paths, the
  bounds of the negotiated values, and what the arm does to the session:
  it never touches \<open>destroyed\<close>, it sets \<open>initialized\<close> only on the accepting
  path, and it stores the kernel's version before it calls the \<open>init\<close> hook.
\<close>

section \<open>The capability mask\<close>

definition INIT_FLAGS :: "platform \<Rightarrow> u32" where
  "INIT_FLAGS pf =
     (if target_os_macos pf
      then FUSE_ASYNC_READ OR FUSE_CASE_INSENSITIVE OR FUSE_VOL_RENAME OR FUSE_XTIMES
      else FUSE_ASYNC_READ)"

section \<open>The handshake arm\<close>

definition abi_unsupported :: "fuse_init_in \<Rightarrow> bool" where
  "abi_unsupported arg \<longleftrightarrow>
     init_major arg < 7 \<or> (init_major arg = 7 \<and> init_minor arg < 6)"

definition negotiated_readahead :: "platform \<Rightarrow> fuse_init_in \<Rightarrow> u32" where
  "negotiated_readahead pf arg =
     (if as_u32 (BUFFER_SIZE pf) < init_max_readahead arg
      then as_u32 (BUFFER_SIZE pf)
      else init_max_readahead arg)"

definition init_out :: "platform \<Rightarrow> fuse_init_in \<Rightarrow> fuse_init_out" where
  "init_out pf arg =
     \<lparr>out_major = FUSE_KERNEL_VERSION,
      out_minor = FUSE_KERNEL_MINOR_VERSION pf,
      out_max_readahead = negotiated_readahead pf arg,
      out_flags = init_flags arg AND INIT_FLAGS pf,
      out_unused = 0,
      out_max_write = as_u32 (MAX_WRITE_SIZE pf)\<rparr>"

definition dispatch_init ::
  "platform \<Rightarrow> 'fs filesystem_ops \<Rightarrow> request \<Rightarrow> fuse_init_in \<Rightarrow> 'fs session
     \<Rightarrow> message list \<times> 'fs session" where
  "dispatch_init pf fs req arg se =
     (let reply = request_reply req in
      if abi_unsupported arg then ([reply_error reply (EPROTO pf)], se)
      else
        let se1 = se\<lparr>proto_major := init_major arg, proto_minor := init_minor arg\<rparr>;
            (res, fs1) = fs_init fs req (filesystem se1);
            se2 = se1\<lparr>filesystem := fs1\<rparr>
        in case res of
             Inl err \<Rightarrow> ([reply_error reply err], se2)
           | Inr u \<Rightarrow> ([reply_ok reply (Init_out (init_out pf arg))], se2\<lparr>initialized := True\<rparr>))"

section \<open>The version test\<close>

text \<open>The test is the lexicographic order on (major, minor), below 7.6.\<close>

lemma abi_unsupported_iff:
  "abi_unsupported arg \<longleftrightarrow>
     unat (init_major arg) < 7 \<or> (unat (init_major arg) = 7 \<and> unat (init_minor arg) < 6)"
proof -
  have "init_major arg = 7 \<longleftrightarrow> unat (init_major arg) = 7"
    using word_unat_eq_iff [of "init_major arg" 7] by simp
  then show ?thesis
    by (simp add: abi_unsupported_def word_less_nat_alt)
qed

lemma abi_unsupported_lex:
  "abi_unsupported arg \<longleftrightarrow>
     ((unat (init_major arg), unat (init_minor arg)), (7, 6)) \<in> less_than <*lex*> less_than"
  by (simp add: abi_unsupported_iff)

lemma abi_supported_iff:
  "\<not> abi_unsupported arg \<longleftrightarrow>
     7 < unat (init_major arg) \<or> (unat (init_major arg) = 7 \<and> 6 \<le> unat (init_minor arg))"
  by (auto simp: abi_unsupported_iff)

section \<open>The negotiated values\<close>

lemma negotiated_readahead_min:
  "negotiated_readahead pf arg = min (as_u32 (BUFFER_SIZE pf)) (init_max_readahead arg)"
  by (simp add: negotiated_readahead_def if_less_is_min)

lemma negotiated_readahead_le_requested:
  "negotiated_readahead pf arg \<le> init_max_readahead arg"
  by (simp add: negotiated_readahead_min)

lemma negotiated_readahead_le_buffer:
  "negotiated_readahead pf arg \<le> as_u32 (BUFFER_SIZE pf)"
  by (simp add: negotiated_readahead_min)

lemma INIT_FLAGS_value:
  "INIT_FLAGS pf = (if target_os_macos pf then 0xE0000001 else 1)"
  by (simp add: INIT_FLAGS_def abi_defs)

lemma out_flags_le: "out_flags (init_out pf arg) \<le> INIT_FLAGS pf"
  by (simp add: init_out_def and_le_mask)

lemma out_flags_offered: "out_flags (init_out pf arg) \<le> init_flags arg"
  by (simp add: init_out_def word_and_le2)

lemma out_flags_linux:
  "\<not> target_os_macos pf \<Longrightarrow>
     out_flags (init_out pf arg) = (if odd (init_flags arg) then 1 else 0)"
  by (simp add: init_out_def INIT_FLAGS_value and_one_eq mod_2_eq_odd)

section \<open>The three paths of the arm\<close>

lemma dispatch_init_unsupported:
  "abi_unsupported arg \<Longrightarrow>
     dispatch_init pf fs req arg se = ([reply_error (request_reply req) (EPROTO pf)], se)"
  by (simp add: dispatch_init_def)

lemma dispatch_init_refused:
  assumes "\<not> abi_unsupported arg" and "fs_init fs req (filesystem se) = (Inl err, fs1)"
  shows "dispatch_init pf fs req arg se =
     ([reply_error (request_reply req) err],
      se\<lparr>proto_major := init_major arg, proto_minor := init_minor arg, filesystem := fs1\<rparr>)"
  using assms by (simp add: dispatch_init_def)

lemma dispatch_init_accepted:
  assumes "\<not> abi_unsupported arg" and "fs_init fs req (filesystem se) = (Inr u, fs1)"
  shows "dispatch_init pf fs req arg se =
     ([reply_ok (request_reply req) (Init_out (init_out pf arg))],
      se\<lparr>proto_major := init_major arg, proto_minor := init_minor arg, filesystem := fs1,
         initialized := True\<rparr>)"
  using assms by (simp add: dispatch_init_def)

text \<open>Every path is one of the three: the case analysis the later proofs use.\<close>

lemma dispatch_init_cases [case_names unsupported refused accepted]:
  assumes "abi_unsupported arg \<Longrightarrow>
      dispatch_init pf fs req arg se = ([reply_error (request_reply req) (EPROTO pf)], se) \<Longrightarrow> P"
    and "\<And>err fs1. \<not> abi_unsupported arg \<Longrightarrow> fs_init fs req (filesystem se) = (Inl err, fs1) \<Longrightarrow>
      dispatch_init pf fs req arg se =
        ([reply_error (request_reply req) err],
         se\<lparr>proto_major := init_major arg, proto_minor := init_minor arg, filesystem := fs1\<rparr>) \<Longrightarrow> P"
    and "\<And>fs1. \<not> abi_unsupported arg \<Longrightarrow> fs_init fs req (filesystem se) = (Inr (), fs1) \<Longrightarrow>
      dispatch_init pf fs req arg se =
        ([reply_ok (request_reply req) (Init_out (init_out pf arg))],
         se\<lparr>proto_major := init_major arg, proto_minor := init_minor arg, filesystem := fs1,
            initialized := True\<rparr>) \<Longrightarrow> P"
  shows P
proof (cases "abi_unsupported arg")
  case True
  show ?thesis
    by (rule assms(1) [OF True dispatch_init_unsupported [OF True]])
next
  case False
  obtain res fs1 where r: "fs_init fs req (filesystem se) = (res, fs1)"
    by (cases "fs_init fs req (filesystem se)")
  show ?thesis
  proof (cases res)
    case (Inl err)
    with r have r': "fs_init fs req (filesystem se) = (Inl err, fs1)" by simp
    show ?thesis
      by (rule assms(2) [OF False r' dispatch_init_refused [OF False r']])
  next
    case (Inr u)
    with r have r': "fs_init fs req (filesystem se) = (Inr (), fs1)" by simp
    show ?thesis
      by (rule assms(3) [OF False r' dispatch_init_accepted [OF False r']])
  qed
qed

section \<open>What the arm does to the session\<close>

lemma dispatch_init_destroyed [simp]:
  "destroyed (snd (dispatch_init pf fs req arg se)) = destroyed se"
  by (cases rule: dispatch_init_cases [of arg pf fs req se]) simp_all

lemma dispatch_init_initialized_mono:
  "initialized se \<Longrightarrow> initialized (snd (dispatch_init pf fs req arg se))"
  by (cases rule: dispatch_init_cases [of arg pf fs req se]) simp_all

lemma dispatch_init_inv:
  "session_inv se \<Longrightarrow> session_inv (snd (dispatch_init pf fs req arg se))"
  by (cases rule: dispatch_init_cases [of arg pf fs req se]) simp_all

lemma dispatch_init_one_message:
  "\<exists>m. fst (dispatch_init pf fs req arg se) = [m] \<and>
       msg_unique m = request_unique req \<and> msg_ch m = request_ch req"
  by (cases rule: dispatch_init_cases [of arg pf fs req se]) simp_all

lemma dispatch_init_step:
  assumes "session_inv se"
  shows "session_step (state_of se) Handshake (state_of (snd (dispatch_init pf fs req arg se)))"
proof (cases rule: dispatch_init_cases [of arg pf fs req se])
  case unsupported
  then show ?thesis by (simp add: session_step.handshake_refused)
next
  case (refused err fs1)
  then have "state_of (snd (dispatch_init pf fs req arg se)) = state_of se"
    by (simp add: state_of_def)
  then show ?thesis by (simp add: session_step.handshake_refused)
next
  case (accepted fs1)
  then have eq: "state_of (snd (dispatch_init pf fs req arg se)) =
      (if state_of se = Destroyed then Destroyed else Initialized)"
    using assms by (auto simp: state_of_def session_inv_def)
  show ?thesis
    unfolding eq by (rule session_step.handshake_accepted)
qed

section \<open>Properties of the negotiation\<close>

lemma bit_INIT_FLAGS:
  "bit (INIT_FLAGS pf) n \<longleftrightarrow> n = 0 \<or> (target_os_macos pf \<and> (n = 29 \<or> n = 30 \<or> n = 31))"
proof -
  have pb: "bit (push_bit k (1::u32)) n \<longleftrightarrow> n = k \<and> k < 32" for k
    by (auto simp: bit_exp_iff)
  show ?thesis
    by (cases "target_os_macos pf")
      (simp_all only: INIT_FLAGS_def abi_defs if_True if_False bit_or_iff pb, auto)
qed

definition example_init_offer :: fuse_init_in where
  "example_init_offer = \<lparr>init_major = 7, init_minor = 31, init_max_readahead = 131072,
     init_flags = 1\<rparr>"

lemma example_init_offer_simps [simp]:
  "init_max_readahead example_init_offer = 131072" "init_flags example_init_offer = 1"
  by (simp_all add: example_init_offer_def)

text \<open>
  C27.  The handshake reply grants no more than the kernel offered and the
  build supports.  The readahead it grants is the smaller of the readahead
  the kernel asked for and the session buffer size cast to 32 bits, which
  is the size modulo \<open>2^32\<close>: the buffer size itself when it is smaller
  than \<open>2^32\<close> bytes.  It grants a capability flag exactly when the kernel
  offered it and the build supports it: bit 0 (asynchronous reads) on every
  platform, bits 29, 30 and 31 (case insensitivity, volume rename, extended
  times) on macOS only, and no other bit ever.
\<close>

theorem handshake_reply_negotiated:
  "unat (out_max_readahead (init_out pf arg)) =
     min (BUFFER_SIZE pf mod 2 ^ 32) (unat (init_max_readahead arg)) \<and>
   (BUFFER_SIZE pf < 2 ^ 32 \<longrightarrow>
      unat (out_max_readahead (init_out pf arg)) =
        min (BUFFER_SIZE pf) (unat (init_max_readahead arg))) \<and>
   (\<forall>n. bit (out_flags (init_out pf arg)) n \<longleftrightarrow>
      bit (init_flags arg) n \<and>
      (n = 0 \<or> (target_os_macos pf \<and> (n = 29 \<or> n = 30 \<or> n = 31))))"
proof -
  have "unat (out_max_readahead (init_out pf arg)) =
      min (unat (as_u32 (BUFFER_SIZE pf))) (unat (init_max_readahead arg))"
    by (simp add: init_out_def negotiated_readahead_def word_less_nat_alt min_def)
  then show ?thesis
    by (simp add: unat_as_u32 init_out_def bit_and_iff bit_INIT_FLAGS)
qed

theorem handshake_reply_negotiated_witness:
  "unat (out_max_readahead (init_out example_linux example_init_offer)) = 65536 \<and>
   unat (out_max_readahead (init_out (example_linux\<lparr>BUFFER_SIZE := 2 ^ 32 + 4096\<rparr>)
     example_init_offer)) = 4096 \<and>
   bit (out_flags (init_out example_linux example_init_offer)) 0 \<and>
   \<not> bit (out_flags (init_out example_linux example_init_offer)) 29"
proof -
  note r = handshake_reply_negotiated [of example_linux example_init_offer]
  note w = handshake_reply_negotiated [of "example_linux\<lparr>BUFFER_SIZE := 2 ^ 32 + 4096\<rparr>"
      example_init_offer]
  from r [THEN conjunct1] w [THEN conjunct1]
    r [THEN conjunct2, THEN conjunct2, THEN spec, of 0]
    r [THEN conjunct2, THEN conjunct2, THEN spec, of 29]
  show ?thesis
    by (simp add: example_linux_def)
qed

end
