(* ===== verification/Fuse_Setattr.thy ===== *)
theory Fuse_Setattr
  imports Fuse_Session
begin

text \<open>
  The set-attributes arm of \<^verbatim>\<open>Request::dispatch\<close>
  (\<^verbatim>\<open>src/fuse_ll/src/fuse/request.rs\<close>, the arm for \<^verbatim>\<open>Operation::SetAttr\<close>).  The
  wire struct carries a validity mask; the arm turns each attribute into an
  optional value, present exactly when its bit is set.  One definition per
  \<^verbatim>\<open>let\<close> of the source: \<open>attr_mode\<close> to \<open>attr_fh\<close>, then \<open>get_macos_setattr\<close>
  with the four attributes of the macOS build, and \<open>call_setattr\<close>, which
  passes them to the filesystem.

  The two ways the source builds a point in time differ.  \<open>epoch_plus\<close> is
  \<^verbatim>\<open>UNIX_EPOCH + Duration::new(secs, nsecs)\<close>, which panics when the sum is
  not representable; \<open>checked_or_now\<close> is the macOS form, which takes the
  current time instead when the addition overflows but still evaluates
  \<^verbatim>\<open>Duration::new\<close> first.  The lemmas give both in closed form.
\<close>

section \<open>Points in time from the wire\<close>

definition epoch_plus :: "u64 \<Rightarrow> u32 \<Rightarrow> panic + system_time" where
  "epoch_plus secs nanos =
     (case Duration_new secs nanos of
        None \<Rightarrow> Inl Duration_overflow
      | Some d \<Rightarrow>
          (case checked_add UNIX_EPOCH d of
             None \<Rightarrow> Inl SystemTime_overflow
           | Some t \<Rightarrow> Inr t))"

definition checked_or_now :: "platform \<Rightarrow> u64 \<Rightarrow> u32 \<Rightarrow> panic + system_time" where
  "checked_or_now pf secs nanos =
     (case Duration_new secs nanos of
        None \<Rightarrow> Inl Duration_overflow
      | Some d \<Rightarrow>
          Inr (case checked_add UNIX_EPOCH d of
                 Some t \<Rightarrow> t
               | None \<Rightarrow> clock_now pf))"

section \<open>The optional attributes\<close>

definition attr_mode :: "fuse_setattr_in \<Rightarrow> u32 option" where
  "attr_mode arg =
     (if flag_set (setattr_valid arg) FATTR_MODE then Some (setattr_mode arg) else None)"

definition attr_uid :: "fuse_setattr_in \<Rightarrow> u32 option" where
  "attr_uid arg =
     (if flag_set (setattr_valid arg) FATTR_UID then Some (setattr_uid arg) else None)"

definition attr_gid :: "fuse_setattr_in \<Rightarrow> u32 option" where
  "attr_gid arg =
     (if flag_set (setattr_valid arg) FATTR_GID then Some (setattr_gid arg) else None)"

definition attr_size :: "fuse_setattr_in \<Rightarrow> u64 option" where
  "attr_size arg =
     (if flag_set (setattr_valid arg) FATTR_SIZE then Some (setattr_size arg) else None)"

definition attr_atime :: "fuse_setattr_in \<Rightarrow> panic + system_time option" where
  "attr_atime arg =
     (if flag_set (setattr_valid arg) FATTR_ATIME
      then bind_result (epoch_plus (setattr_atime arg) (setattr_atimensec arg)) (\<lambda>t. Inr (Some t))
      else Inr None)"

definition attr_mtime :: "fuse_setattr_in \<Rightarrow> panic + system_time option" where
  "attr_mtime arg =
     (if flag_set (setattr_valid arg) FATTR_MTIME
      then bind_result (epoch_plus (setattr_mtime arg) (setattr_mtimensec arg)) (\<lambda>t. Inr (Some t))
      else Inr None)"

definition attr_fh :: "fuse_setattr_in \<Rightarrow> u64 option" where
  "attr_fh arg =
     (if flag_set (setattr_valid arg) FATTR_FH then Some (setattr_fh arg) else None)"

definition attr_crtime :: "platform \<Rightarrow> fuse_setattr_in \<Rightarrow> panic + system_time option" where
  "attr_crtime pf arg =
     (if flag_set (setattr_valid arg) FATTR_CRTIME
      then bind_result (checked_or_now pf (setattr_crtime arg) (setattr_crtimensec arg))
             (\<lambda>t. Inr (Some t))
      else Inr None)"

definition attr_chgtime :: "platform \<Rightarrow> fuse_setattr_in \<Rightarrow> panic + system_time option" where
  "attr_chgtime pf arg =
     (if flag_set (setattr_valid arg) FATTR_CHGTIME
      then bind_result (checked_or_now pf (setattr_chgtime arg) (setattr_chgtimensec arg))
             (\<lambda>t. Inr (Some t))
      else Inr None)"

definition attr_bkuptime :: "platform \<Rightarrow> fuse_setattr_in \<Rightarrow> panic + system_time option" where
  "attr_bkuptime pf arg =
     (if flag_set (setattr_valid arg) FATTR_BKUPTIME
      then bind_result (checked_or_now pf (setattr_bkuptime arg) (setattr_bkuptimensec arg))
             (\<lambda>t. Inr (Some t))
      else Inr None)"

definition attr_flags :: "fuse_setattr_in \<Rightarrow> u32 option" where
  "attr_flags arg =
     (if flag_set (setattr_valid arg) FATTR_FLAGS then Some (setattr_flags arg) else None)"

definition get_macos_setattr ::
  "platform \<Rightarrow> fuse_setattr_in
     \<Rightarrow> panic + (system_time option \<times> system_time option \<times> system_time option \<times> u32 option)" where
  "get_macos_setattr pf arg =
     (if target_os_macos pf then
        bind_result (attr_crtime pf arg) (\<lambda>crtime.
        bind_result (attr_chgtime pf arg) (\<lambda>chgtime.
        bind_result (attr_bkuptime pf arg) (\<lambda>bkuptime.
        Inr (crtime, chgtime, bkuptime, attr_flags arg))))
      else Inr (None, None, None, None))"

definition call_setattr :: "platform \<Rightarrow> request \<Rightarrow> fuse_setattr_in \<Rightarrow> panic + fs_call" where
  "call_setattr pf req arg =
     bind_result (attr_atime arg) (\<lambda>atime.
     bind_result (attr_mtime arg) (\<lambda>mtime.
     bind_result (get_macos_setattr pf arg) (\<lambda>(crtime, chgtime, bkuptime, flags).
     Inr (fs_setattr (ll_nodeid (request_ll req))
            \<lparr>sa_mode = attr_mode arg, sa_uid = attr_uid arg, sa_gid = attr_gid arg,
             sa_size = attr_size arg, sa_atime = atime, sa_mtime = mtime,
             sa_fh = attr_fh arg, sa_crtime = crtime, sa_chgtime = chgtime,
             sa_bkuptime = bkuptime, sa_flags = flags\<rparr>
            (request_reply req)))))"

lemmas attr_defs =
  attr_mode_def attr_uid_def attr_gid_def attr_size_def attr_atime_def attr_mtime_def
  attr_fh_def attr_crtime_def attr_chgtime_def attr_bkuptime_def attr_flags_def

section \<open>Each attribute bit is one bit of the mask\<close>

lemma fattr_flag_bit:
  "flag_set v FATTR_MODE \<longleftrightarrow> bit v 0"
  "flag_set v FATTR_UID \<longleftrightarrow> bit v 1"
  "flag_set v FATTR_GID \<longleftrightarrow> bit v 2"
  "flag_set v FATTR_SIZE \<longleftrightarrow> bit v 3"
  "flag_set v FATTR_ATIME \<longleftrightarrow> bit v 4"
  "flag_set v FATTR_MTIME \<longleftrightarrow> bit v 5"
  "flag_set v FATTR_FH \<longleftrightarrow> bit v 6"
  "flag_set v FATTR_CRTIME \<longleftrightarrow> bit v 28"
  "flag_set v FATTR_CHGTIME \<longleftrightarrow> bit v 29"
  "flag_set v FATTR_BKUPTIME \<longleftrightarrow> bit v 30"
  "flag_set v FATTR_FLAGS \<longleftrightarrow> bit v 31"
  by (simp_all only: fattr_defs push_bit_of_1 flag_set_pow2)

lemma flag_set_fattr_bits:
  assumes "a \<in> set fattr_bits" "b \<in> set fattr_bits"
  shows "flag_set a b \<longleftrightarrow> a = b"
proof (cases "a = b")
  case True
  with assms show ?thesis by (simp add: flag_set_self fattr_bits_nonzero)
next
  case False
  with assms show ?thesis by (simp add: flag_set_disjoint fattr_bits_disjoint)
qed

lemma fattr_in_bits [simp]:
  "FATTR_MODE \<in> set fattr_bits" "FATTR_UID \<in> set fattr_bits" "FATTR_GID \<in> set fattr_bits"
  "FATTR_SIZE \<in> set fattr_bits" "FATTR_ATIME \<in> set fattr_bits" "FATTR_MTIME \<in> set fattr_bits"
  "FATTR_FH \<in> set fattr_bits" "FATTR_CRTIME \<in> set fattr_bits"
  "FATTR_CHGTIME \<in> set fattr_bits" "FATTR_BKUPTIME \<in> set fattr_bits"
  "FATTR_FLAGS \<in> set fattr_bits"
  by (simp_all add: fattr_bits_def)

section \<open>The two time constructions in closed form\<close>

lemma Duration_new_eq:
  "Duration_new secs nanos =
     (if 2 ^ 64 \<le> unat secs + unat nanos div 10 ^ 9 then None
      else Some \<lparr>dur_secs = secs + ucast (nanos div NANOS_PER_SEC),
                 dur_nanos = nanos mod NANOS_PER_SEC\<rparr>)"
proof (cases "nanos < NANOS_PER_SEC")
  case True
  then have "nanos div NANOS_PER_SEC = 0" "nanos mod NANOS_PER_SEC = nanos"
    by (simp_all add: div_word_less mod_word_less)
  moreover have "\<not> 2 ^ 64 \<le> unat secs + unat nanos div 10 ^ 9"
    using Duration_new_None_iff [of secs nanos] True by (simp add: Duration_new_def)
  ultimately show ?thesis using True
    by (simp add: Duration_new_def)
next
  case False
  then show ?thesis
    by (simp add: Duration_new_def checked_add_u64_def unat_carry not_le)
qed

lemma epoch_secs:
  assumes "\<not> 2 ^ 64 \<le> unat secs + unat nanos div 10 ^ 9"
  shows "unat (secs + ucast (nanos div NANOS_PER_SEC) :: u64) = unat secs + unat nanos div 10 ^ 9"
  using assms by (simp add: unat_add_u64 unat_carry not_le)

lemma epoch_plus_eq:
  "epoch_plus secs nanos =
     (if 2 ^ 64 \<le> unat secs + unat nanos div 10 ^ 9 then Inl Duration_overflow
      else if 2 ^ 63 \<le> unat secs + unat nanos div 10 ^ 9 then Inl SystemTime_overflow
      else Inr \<lparr>tv_sec = secs + ucast (nanos div NANOS_PER_SEC),
                tv_nsec = nanos mod NANOS_PER_SEC\<rparr>)"
proof (cases "2 ^ 64 \<le> unat secs + unat nanos div 10 ^ 9")
  case True
  then show ?thesis by (simp add: epoch_plus_def Duration_new_eq)
next
  case False
  let ?d = "\<lparr>dur_secs = secs + ucast (nanos div NANOS_PER_SEC), dur_nanos = nanos mod NANOS_PER_SEC\<rparr>"
  have d: "Duration_new secs nanos = Some ?d"
    using False by (simp add: Duration_new_eq)
  then have ok: "duration_ok ?d"
    by (rule Duration_new_ok)
  have "unat (dur_secs ?d) < 2 ^ 63 \<longleftrightarrow> \<not> 2 ^ 63 \<le> unat secs + unat nanos div 10 ^ 9"
    using epoch_secs [OF False] by (simp add: not_le)
  then show ?thesis using False d
    by (simp add: epoch_plus_def checked_add_epoch [OF ok])
qed

lemma checked_or_now_eq:
  "checked_or_now pf secs nanos =
     (if 2 ^ 64 \<le> unat secs + unat nanos div 10 ^ 9 then Inl Duration_overflow
      else if 2 ^ 63 \<le> unat secs + unat nanos div 10 ^ 9 then Inr (clock_now pf)
      else Inr \<lparr>tv_sec = secs + ucast (nanos div NANOS_PER_SEC),
                tv_nsec = nanos mod NANOS_PER_SEC\<rparr>)"
proof (cases "2 ^ 64 \<le> unat secs + unat nanos div 10 ^ 9")
  case True
  then show ?thesis by (simp add: checked_or_now_def Duration_new_eq)
next
  case False
  let ?d = "\<lparr>dur_secs = secs + ucast (nanos div NANOS_PER_SEC), dur_nanos = nanos mod NANOS_PER_SEC\<rparr>"
  have d: "Duration_new secs nanos = Some ?d"
    using False by (simp add: Duration_new_eq)
  then have ok: "duration_ok ?d"
    by (rule Duration_new_ok)
  have "unat (dur_secs ?d) < 2 ^ 63 \<longleftrightarrow> \<not> 2 ^ 63 \<le> unat secs + unat nanos div 10 ^ 9"
    using epoch_secs [OF False] by (simp add: not_le)
  then show ?thesis using False d
    by (simp add: checked_or_now_def checked_add_epoch [OF ok])
qed

lemma epoch_plus_Inr_iff:
  "(\<exists>t. epoch_plus secs nanos = Inr t) \<longleftrightarrow> unat secs + unat nanos div 10 ^ 9 < 2 ^ 63"
  by (auto simp: epoch_plus_eq)

lemma epoch_plus_value:
  assumes "epoch_plus secs nanos = Inr t"
  shows "time_ok t" and "time_nanos t = int (unat secs) * 10 ^ 9 + int (unat nanos)"
proof -
  from assms obtain d where d: "Duration_new secs nanos = Some d"
    and t: "checked_add UNIX_EPOCH d = Some t"
    by (auto simp: epoch_plus_def split: option.splits)
  from d have ok: "duration_ok d"
    by (rule Duration_new_ok)
  show "time_ok t"
    using time_ok_epoch ok t by (rule checked_add_ok)
  have "time_nanos t = time_nanos UNIX_EPOCH + int (duration_nanos d)"
    using time_ok_epoch ok t by (rule checked_add_nanos)
  then show "time_nanos t = int (unat secs) * 10 ^ 9 + int (unat nanos)"
    by (simp add: Duration_new_nanos [OF d])
qed

section \<open>Presence of each attribute\<close>

lemma attr_time_Inr:
  "attr_atime arg = Inr x \<Longrightarrow> (x \<noteq> None \<longleftrightarrow> bit (setattr_valid arg) 4)"
  "attr_mtime arg = Inr y \<Longrightarrow> (y \<noteq> None \<longleftrightarrow> bit (setattr_valid arg) 5)"
  by (auto simp: attr_atime_def attr_mtime_def fattr_flag_bit bind_result_eq_Inr split: if_splits)

lemma attr_macos_time_Inr:
  "attr_crtime pf arg = Inr x \<Longrightarrow> (x \<noteq> None \<longleftrightarrow> bit (setattr_valid arg) 28)"
  "attr_chgtime pf arg = Inr y \<Longrightarrow> (y \<noteq> None \<longleftrightarrow> bit (setattr_valid arg) 29)"
  "attr_bkuptime pf arg = Inr z \<Longrightarrow> (z \<noteq> None \<longleftrightarrow> bit (setattr_valid arg) 30)"
  by (auto simp: attr_crtime_def attr_chgtime_def attr_bkuptime_def fattr_flag_bit
        bind_result_eq_Inr split: if_splits)

lemma attr_plain_bit:
  "attr_mode arg = (if bit (setattr_valid arg) 0 then Some (setattr_mode arg) else None)"
  "attr_uid arg = (if bit (setattr_valid arg) 1 then Some (setattr_uid arg) else None)"
  "attr_gid arg = (if bit (setattr_valid arg) 2 then Some (setattr_gid arg) else None)"
  "attr_size arg = (if bit (setattr_valid arg) 3 then Some (setattr_size arg) else None)"
  "attr_fh arg = (if bit (setattr_valid arg) 6 then Some (setattr_fh arg) else None)"
  "attr_flags arg = (if bit (setattr_valid arg) 31 then Some (setattr_flags arg) else None)"
  by (simp_all add: attr_defs fattr_flag_bit)

lemma get_macos_setattr_linux [simp]:
  "\<not> target_os_macos pf \<Longrightarrow> get_macos_setattr pf arg = Inr (None, None, None, None)"
  by (simp add: get_macos_setattr_def)

lemma get_macos_setattr_Inr:
  assumes "get_macos_setattr pf arg = Inr (crtime, chgtime, bkuptime, flags)"
  shows "crtime \<noteq> None \<longleftrightarrow> target_os_macos pf \<and> bit (setattr_valid arg) 28"
    and "chgtime \<noteq> None \<longleftrightarrow> target_os_macos pf \<and> bit (setattr_valid arg) 29"
    and "bkuptime \<noteq> None \<longleftrightarrow> target_os_macos pf \<and> bit (setattr_valid arg) 30"
    and "flags = (if target_os_macos pf \<and> bit (setattr_valid arg) 31
                  then Some (setattr_flags arg) else None)"
proof -
  show "crtime \<noteq> None \<longleftrightarrow> target_os_macos pf \<and> bit (setattr_valid arg) 28"
    using assms attr_macos_time_Inr(1) [of pf arg crtime]
    by (cases "target_os_macos pf") (auto simp: get_macos_setattr_def bind_result_eq_Inr)
  show "chgtime \<noteq> None \<longleftrightarrow> target_os_macos pf \<and> bit (setattr_valid arg) 29"
    using assms attr_macos_time_Inr(2) [of pf arg chgtime]
    by (cases "target_os_macos pf") (auto simp: get_macos_setattr_def bind_result_eq_Inr)
  show "bkuptime \<noteq> None \<longleftrightarrow> target_os_macos pf \<and> bit (setattr_valid arg) 30"
    using assms attr_macos_time_Inr(3) [of pf arg bkuptime]
    by (cases "target_os_macos pf") (auto simp: get_macos_setattr_def bind_result_eq_Inr)
  show "flags = (if target_os_macos pf \<and> bit (setattr_valid arg) 31
                  then Some (setattr_flags arg) else None)"
    using assms
    by (cases "target_os_macos pf")
       (auto simp: get_macos_setattr_def bind_result_eq_Inr attr_plain_bit)
qed

lemma call_setattr_InrE:
  assumes "call_setattr pf req arg = Inr c"
  obtains atime mtime crtime chgtime bkuptime flags where
    "attr_atime arg = Inr atime" "attr_mtime arg = Inr mtime"
    "get_macos_setattr pf arg = Inr (crtime, chgtime, bkuptime, flags)"
    "c = fs_setattr (ll_nodeid (request_ll req))
           \<lparr>sa_mode = attr_mode arg, sa_uid = attr_uid arg, sa_gid = attr_gid arg,
            sa_size = attr_size arg, sa_atime = atime, sa_mtime = mtime,
            sa_fh = attr_fh arg, sa_crtime = crtime, sa_chgtime = chgtime,
            sa_bkuptime = bkuptime, sa_flags = flags\<rparr>
           (request_reply req)"
  using assms unfolding call_setattr_def bind_result_eq_Inr
  by (auto split: prod.splits)

text \<open>With no time bit set the arm cannot panic and passes only the plain attributes.\<close>

lemma attr_no_time:
  "\<not> bit (setattr_valid arg) 4 \<Longrightarrow> attr_atime arg = Inr None"
  "\<not> bit (setattr_valid arg) 5 \<Longrightarrow> attr_mtime arg = Inr None"
  "\<not> bit (setattr_valid arg) 28 \<Longrightarrow> attr_crtime pf arg = Inr None"
  "\<not> bit (setattr_valid arg) 29 \<Longrightarrow> attr_chgtime pf arg = Inr None"
  "\<not> bit (setattr_valid arg) 30 \<Longrightarrow> attr_bkuptime pf arg = Inr None"
  by (simp_all add: attr_defs fattr_flag_bit)

lemma get_macos_setattr_no_time:
  assumes "\<not> bit (setattr_valid arg) 28" "\<not> bit (setattr_valid arg) 29"
    "\<not> bit (setattr_valid arg) 30"
  shows "get_macos_setattr pf arg =
     Inr (None, None, None, if target_os_macos pf then attr_flags arg else None)"
  using assms by (simp add: get_macos_setattr_def attr_no_time)

text \<open>Times within range never panic.\<close>

lemma attr_time_in_range:
  "unat (setattr_atime arg) + unat (setattr_atimensec arg) div 10 ^ 9 < 2 ^ 63 \<Longrightarrow>
     \<exists>x. attr_atime arg = Inr x"
  "unat (setattr_mtime arg) + unat (setattr_mtimensec arg) div 10 ^ 9 < 2 ^ 63 \<Longrightarrow>
     \<exists>x. attr_mtime arg = Inr x"
  by (simp_all add: attr_atime_def attr_mtime_def epoch_plus_eq)

lemma attr_macos_time_in_range:
  "unat (setattr_crtime arg) + unat (setattr_crtimensec arg) div 10 ^ 9 < 2 ^ 64 \<Longrightarrow>
     \<exists>x. attr_crtime pf arg = Inr x"
  "unat (setattr_chgtime arg) + unat (setattr_chgtimensec arg) div 10 ^ 9 < 2 ^ 64 \<Longrightarrow>
     \<exists>x. attr_chgtime pf arg = Inr x"
  "unat (setattr_bkuptime arg) + unat (setattr_bkuptimensec arg) div 10 ^ 9 < 2 ^ 64 \<Longrightarrow>
     \<exists>x. attr_bkuptime pf arg = Inr x"
  by (simp_all add: attr_crtime_def attr_chgtime_def attr_bkuptime_def checked_or_now_eq)

lemma get_macos_setattr_in_range:
  assumes "unat (setattr_crtime arg) + unat (setattr_crtimensec arg) div 10 ^ 9 < 2 ^ 64"
    and "unat (setattr_chgtime arg) + unat (setattr_chgtimensec arg) div 10 ^ 9 < 2 ^ 64"
    and "unat (setattr_bkuptime arg) + unat (setattr_bkuptimensec arg) div 10 ^ 9 < 2 ^ 64"
  shows "\<exists>x. get_macos_setattr pf arg = Inr x"
  using attr_macos_time_in_range(1) [OF assms(1), of pf]
    attr_macos_time_in_range(2) [OF assms(2), of pf]
    attr_macos_time_in_range(3) [OF assms(3), of pf]
  by (auto simp: get_macos_setattr_def)

lemma bit_FATTR_SIZE: "bit FATTR_SIZE n \<longleftrightarrow> n = 3"
proof -
  have "bit (2 ^ 3 :: u32) n \<longleftrightarrow> n = 3"
    by (simp only: bit_exp_iff possible_bit_word) auto
  then show ?thesis
    by (simp only: FATTR_SIZE_def push_bit_of_1)
qed

section \<open>An argument struct for the worked instances\<close>

definition example_setattr :: "u32 \<Rightarrow> u64 \<Rightarrow> fuse_setattr_in" where
  "example_setattr valid atime =
     \<lparr>setattr_valid = valid, setattr_fh = 5, setattr_size = 4096, setattr_atime = atime,
      setattr_mtime = 1600000000, setattr_atimensec = 1500000000, setattr_mtimensec = 0,
      setattr_mode = 420, setattr_uid = 1000, setattr_gid = 100,
      setattr_bkuptime = 0, setattr_chgtime = 0, setattr_crtime = 0,
      setattr_bkuptimensec = 0, setattr_chgtimensec = 0, setattr_crtimensec = 0,
      setattr_flags = 0\<rparr>"

lemmas setattr_eval =
  call_setattr_def get_macos_setattr_def attr_defs epoch_plus_eq checked_or_now_eq
  flag_set_def abi_defs example_setattr_def example_platform_defs NANOS_PER_SEC_def

section \<open>Properties of the arm\<close>

text \<open>
  C22.  A set-attributes request whose validity mask is exactly the size bit
  surfaces the size to the filesystem as present and every other
  attribute as absent, on both platforms, and the arm does not panic.
\<close>

theorem setattr_only_size:
  assumes "setattr_valid arg = FATTR_SIZE"
  shows "call_setattr pf req arg =
     Inr (fs_setattr (ll_nodeid (request_ll req))
            \<lparr>sa_mode = None, sa_uid = None, sa_gid = None,
             sa_size = Some (setattr_size arg), sa_atime = None, sa_mtime = None,
             sa_fh = None, sa_crtime = None, sa_chgtime = None,
             sa_bkuptime = None, sa_flags = None\<rparr>
            (request_reply req))"
proof -
  have b: "bit (setattr_valid arg) n \<longleftrightarrow> n = 3" for n
    by (simp add: assms bit_FATTR_SIZE)
  have "get_macos_setattr pf arg = Inr (None, None, None, None)"
    by (simp add: get_macos_setattr_no_time b attr_plain_bit)
  then show ?thesis
    by (simp add: call_setattr_def attr_no_time attr_plain_bit b)
qed

theorem setattr_only_size_witness:
  "setattr_valid (example_setattr 8 0) = FATTR_SIZE \<and>
   call_setattr example_macos (example_request (SetAttr (example_setattr 8 0))) (example_setattr 8 0) =
     Inr (fs_setattr 7
            \<lparr>sa_mode = None, sa_uid = None, sa_gid = None, sa_size = Some 4096,
             sa_atime = None, sa_mtime = None, sa_fh = None, sa_crtime = None,
             sa_chgtime = None, sa_bkuptime = None, sa_flags = None\<rparr>
            (Reply_new 42 3))"
proof -
  have v: "setattr_valid (example_setattr 8 0) = FATTR_SIZE"
    by (simp add: example_setattr_def FATTR_SIZE_def)
  show ?thesis
    using v setattr_only_size [OF v, of example_macos "example_request (SetAttr (example_setattr 8 0))"]
    by (simp add: example_setattr_def request_reply_def example_request_def accessor_defs)
qed

text \<open>
  C23.  Whenever the set-attributes arm reaches the filesystem, the call
  names the request's node and reply object, and each attribute is present
  exactly when its bit of the validity mask is set (the four macOS
  attributes only in the macOS build); a plain attribute that is present has
  the value of the wire struct.
\<close>

theorem setattr_presence_follows_mask:
  assumes "call_setattr pf req arg = Inr (fs_setattr ino a r)"
  shows "ino = ll_nodeid (request_ll req) \<and> r = request_reply req \<and>
     sa_mode a = (if bit (setattr_valid arg) 0 then Some (setattr_mode arg) else None) \<and>
     sa_uid a = (if bit (setattr_valid arg) 1 then Some (setattr_uid arg) else None) \<and>
     sa_gid a = (if bit (setattr_valid arg) 2 then Some (setattr_gid arg) else None) \<and>
     sa_size a = (if bit (setattr_valid arg) 3 then Some (setattr_size arg) else None) \<and>
     (sa_atime a \<noteq> None \<longleftrightarrow> bit (setattr_valid arg) 4) \<and>
     (sa_mtime a \<noteq> None \<longleftrightarrow> bit (setattr_valid arg) 5) \<and>
     sa_fh a = (if bit (setattr_valid arg) 6 then Some (setattr_fh arg) else None) \<and>
     (sa_crtime a \<noteq> None \<longleftrightarrow> target_os_macos pf \<and> bit (setattr_valid arg) 28) \<and>
     (sa_chgtime a \<noteq> None \<longleftrightarrow> target_os_macos pf \<and> bit (setattr_valid arg) 29) \<and>
     (sa_bkuptime a \<noteq> None \<longleftrightarrow> target_os_macos pf \<and> bit (setattr_valid arg) 30) \<and>
     sa_flags a = (if target_os_macos pf \<and> bit (setattr_valid arg) 31
                   then Some (setattr_flags arg) else None)"
proof -
  from assms obtain atime mtime crtime chgtime bkuptime flags where
    t: "attr_atime arg = Inr atime" "attr_mtime arg = Inr mtime"
    and m: "get_macos_setattr pf arg = Inr (crtime, chgtime, bkuptime, flags)"
    and c: "fs_setattr ino a r = fs_setattr (ll_nodeid (request_ll req))
           \<lparr>sa_mode = attr_mode arg, sa_uid = attr_uid arg, sa_gid = attr_gid arg,
            sa_size = attr_size arg, sa_atime = atime, sa_mtime = mtime,
            sa_fh = attr_fh arg, sa_crtime = crtime, sa_chgtime = chgtime,
            sa_bkuptime = bkuptime, sa_flags = flags\<rparr>
           (request_reply req)"
    by (rule call_setattr_InrE)
  from c have a: "ino = ll_nodeid (request_ll req)" "r = request_reply req"
    "sa_mode a = attr_mode arg" "sa_uid a = attr_uid arg" "sa_gid a = attr_gid arg"
    "sa_size a = attr_size arg" "sa_fh a = attr_fh arg" "sa_atime a = atime" "sa_mtime a = mtime"
    "sa_crtime a = crtime" "sa_chgtime a = chgtime" "sa_bkuptime a = bkuptime" "sa_flags a = flags"
    by simp_all
  show ?thesis
    unfolding a
    using attr_time_Inr(1) [OF t(1)] attr_time_Inr(2) [OF t(2)] get_macos_setattr_Inr [OF m]
    by (simp add: attr_plain_bit)
qed

theorem setattr_presence_follows_mask_witness:
  "\<exists>a. call_setattr example_linux (example_request (SetAttr (example_setattr 0x59 1)))
         (example_setattr 0x59 1) =
       Inr (fs_setattr 7 a (Reply_new 42 3)) \<and>
     sa_mode a = Some 420 \<and> sa_uid a = None \<and> sa_size a = Some 4096 \<and>
     sa_atime a = Some \<lparr>tv_sec = 2, tv_nsec = 500000000\<rparr> \<and>
     sa_fh a = Some 5 \<and> sa_crtime a = None"
proof -
  let ?a = "\<lparr>sa_mode = Some 420, sa_uid = None, sa_gid = None, sa_size = Some 4096,
     sa_atime = Some \<lparr>tv_sec = 2, tv_nsec = 500000000\<rparr>, sa_mtime = None, sa_fh = Some 5,
     sa_crtime = None, sa_chgtime = None, sa_bkuptime = None, sa_flags = None\<rparr>"
  have c: "call_setattr example_linux (example_request (SetAttr (example_setattr 0x59 1)))
         (example_setattr 0x59 1) =
       Inr (fs_setattr 7 ?a (Reply_new 42 3))"
    by (simp add: setattr_eval request_reply_def example_request_def accessor_defs)
  from setattr_presence_follows_mask [OF c] c show ?thesis
    by (intro exI [of _ ?a]) simp
qed

text \<open>
  C24.  When the access-time bit is set and the seconds of the access time do
  not fit a signed 64-bit value, the set-attributes arm panics: the source
  adds the duration to the epoch with \<^verbatim>\<open>+\<close>, which aborts on overflow.  The
  filesystem is not called.
\<close>

theorem setattr_atime_overflow_panics:
  assumes "bit (setattr_valid arg) 4" and "2 ^ 63 \<le> unat (setattr_atime arg)"
  shows "call_setattr pf req arg =
     Inl (if 2 ^ 64 \<le> unat (setattr_atime arg) + unat (setattr_atimensec arg) div 10 ^ 9
          then Duration_overflow else SystemTime_overflow)"
proof -
  have "2 ^ 63 \<le> unat (setattr_atime arg) + unat (setattr_atimensec arg) div 10 ^ 9"
    using assms(2) by (rule trans_le_add1)
  then have "attr_atime arg =
     Inl (if 2 ^ 64 \<le> unat (setattr_atime arg) + unat (setattr_atimensec arg) div 10 ^ 9
          then Duration_overflow else SystemTime_overflow)"
    using assms(1) by (simp add: attr_atime_def fattr_flag_bit epoch_plus_eq)
  then show ?thesis
    by (simp add: call_setattr_def)
qed

theorem setattr_atime_overflow_panics_witness:
  "bit (setattr_valid (example_setattr 0x10 (2 ^ 63))) 4 \<and>
   2 ^ 63 \<le> unat (setattr_atime (example_setattr 0x10 (2 ^ 63))) \<and>
   call_setattr example_linux (example_request (SetAttr (example_setattr 0x10 (2 ^ 63))))
     (example_setattr 0x10 (2 ^ 63)) = Inl SystemTime_overflow"
proof -
  have h: "bit (setattr_valid (example_setattr 0x10 (2 ^ 63))) 4"
    "2 ^ 63 \<le> unat (setattr_atime (example_setattr 0x10 (2 ^ 63)))"
    by (simp_all add: example_setattr_def)
  from setattr_atime_overflow_panics [OF h] h show ?thesis
    by (simp add: example_setattr_def)
qed

text \<open>
  C25.  \<^verbatim>\<open>UNIX_EPOCH + Duration::new(secs, nsecs)\<close> returns exactly when the
  seconds, with whole seconds of the nanoseconds carried, fit a signed
  64-bit value; the point in time it returns is normalised (nanoseconds
  below one second) and lies exactly \<open>secs\<close> seconds and \<open>nsecs\<close> nanoseconds
  after the epoch.
\<close>

theorem epoch_plus_exact:
  "((\<exists>t. epoch_plus secs nanos = Inr t) \<longleftrightarrow> unat secs + unat nanos div 10 ^ 9 < 2 ^ 63) \<and>
   (\<forall>t. epoch_plus secs nanos = Inr t \<longrightarrow>
      time_ok t \<and> time_nanos t = int (unat secs) * 10 ^ 9 + int (unat nanos))"
  using epoch_plus_Inr_iff [of secs nanos] epoch_plus_value [of secs nanos] by blast

theorem epoch_plus_exact_witness:
  "epoch_plus 1 1500000000 = Inr \<lparr>tv_sec = 2, tv_nsec = 500000000\<rparr> \<and>
   time_ok \<lparr>tv_sec = 2, tv_nsec = 500000000\<rparr> \<and>
   time_nanos \<lparr>tv_sec = 2, tv_nsec = 500000000\<rparr> = 2500000000"
proof -
  have e: "epoch_plus 1 1500000000 = Inr \<lparr>tv_sec = 2, tv_nsec = 500000000\<rparr>"
    by (simp add: epoch_plus_eq NANOS_PER_SEC_def)
  from epoch_plus_exact [of 1 1500000000] e show ?thesis
    by simp
qed

text \<open>
  C26.  In the macOS build the fallback to the current time covers one of
  the two overflows.  A creation time whose seconds, with whole seconds of
  the nanoseconds carried, do not fit a signed 64-bit value is replaced by
  the current time when they still fit an unsigned 64-bit value.  When the
  nanoseconds carry the seconds past the unsigned 64-bit range, the
  derivation panics inside \<^verbatim>\<open>Duration::new\<close>, before \<^verbatim>\<open>checked_add\<close> is
  reached, and the arm does not reach the filesystem.
\<close>

theorem macos_time_fallback:
  assumes "target_os_macos pf" and "bit (setattr_valid arg) 28"
    and "2 ^ 63 \<le> unat (setattr_crtime arg) + unat (setattr_crtimensec arg) div 10 ^ 9"
  shows "if unat (setattr_crtime arg) + unat (setattr_crtimensec arg) div 10 ^ 9 < 2 ^ 64
     then attr_crtime pf arg = Inr (Some (clock_now pf))
     else get_macos_setattr pf arg = Inl Duration_overflow"
proof -
  from assms(2,3) have "attr_crtime pf arg =
      (if unat (setattr_crtime arg) + unat (setattr_crtimensec arg) div 10 ^ 9 < 2 ^ 64
       then Inr (Some (clock_now pf)) else Inl Duration_overflow)"
    by (simp add: attr_crtime_def fattr_flag_bit checked_or_now_eq not_le)
  with assms(1) show ?thesis
    by (simp add: get_macos_setattr_def)
qed

theorem macos_time_fallback_witness:
  "attr_crtime example_macos ((example_setattr 0x10000000 0)\<lparr>setattr_crtime := 2 ^ 63\<rparr>) =
     Inr (Some \<lparr>tv_sec = 1700000000, tv_nsec = 0\<rparr>) \<and>
   get_macos_setattr example_macos
     ((example_setattr 0x10000000 0)\<lparr>setattr_crtime := 0xFFFFFFFFFFFFFFFF, setattr_crtimensec := 1000000000\<rparr>) =
     Inl Duration_overflow"
  using macos_time_fallback [of example_macos
      "(example_setattr 0x10000000 0)\<lparr>setattr_crtime := 2 ^ 63\<rparr>"]
    macos_time_fallback [of example_macos
      "(example_setattr 0x10000000 0)\<lparr>setattr_crtime := 0xFFFFFFFFFFFFFFFF, setattr_crtimensec := 1000000000\<rparr>"]
  by (simp add: example_macos_def example_setattr_def)

text \<open>
  The set-attributes arm reaches the filesystem whenever the times of the
  request are in range: access and modification time below \<open>2^63\<close> seconds,
  the three macOS times representable as a duration.  In particular every
  request with times a kernel can produce from a signed 64-bit clock is
  served.
\<close>

definition times_in_range :: "fuse_setattr_in \<Rightarrow> bool" where
  "times_in_range arg \<longleftrightarrow>
     unat (setattr_atime arg) + unat (setattr_atimensec arg) div 10 ^ 9 < 2 ^ 63 \<and>
     unat (setattr_mtime arg) + unat (setattr_mtimensec arg) div 10 ^ 9 < 2 ^ 63 \<and>
     unat (setattr_crtime arg) + unat (setattr_crtimensec arg) div 10 ^ 9 < 2 ^ 64 \<and>
     unat (setattr_chgtime arg) + unat (setattr_chgtimensec arg) div 10 ^ 9 < 2 ^ 64 \<and>
     unat (setattr_bkuptime arg) + unat (setattr_bkuptimensec arg) div 10 ^ 9 < 2 ^ 64"

lemma call_setattr_in_range:
  assumes "times_in_range arg"
  shows "\<exists>a. call_setattr pf req arg =
     Inr (fs_setattr (ll_nodeid (request_ll req)) a (request_reply req))"
proof -
  from assms have t: "unat (setattr_atime arg) + unat (setattr_atimensec arg) div 10 ^ 9 < 2 ^ 63"
    "unat (setattr_mtime arg) + unat (setattr_mtimensec arg) div 10 ^ 9 < 2 ^ 63"
    and m: "unat (setattr_crtime arg) + unat (setattr_crtimensec arg) div 10 ^ 9 < 2 ^ 64"
    "unat (setattr_chgtime arg) + unat (setattr_chgtimensec arg) div 10 ^ 9 < 2 ^ 64"
    "unat (setattr_bkuptime arg) + unat (setattr_bkuptimensec arg) div 10 ^ 9 < 2 ^ 64"
    by (simp_all add: times_in_range_def)
  from attr_time_in_range(1) [OF t(1)] attr_time_in_range(2) [OF t(2)]
    get_macos_setattr_in_range [OF m, of pf]
  show ?thesis by (auto simp: call_setattr_def)
qed

lemma example_setattr_in_range [simp]: "times_in_range (example_setattr valid 1)"
  by (simp add: times_in_range_def example_setattr_def)

end
