(* ===== verification/Fuse_Arms.thy ===== *)
theory Fuse_Arms
  imports Fuse_Setattr
begin

text \<open>
  The arms of \<^verbatim>\<open>Request::dispatch\<close> (\<^verbatim>\<open>src/fuse_ll/src/fuse/request.rs\<close>) that
  hand an operation to the filesystem, apart from set-attributes: one
  definition \<open>call_X\<close> per arm, which is the call the arm makes, with the
  arguments it derives from the wire struct.  Three derivations are more than
  forwarding and have definitions of their own: \<open>release_flush\<close> and
  \<open>fsync_datasync\<close> (a flag bit surfaced as a boolean) and \<open>get_position\<close>
  (present on macOS only).  The write and set-extended-attribute arms assert
  that the payload has the declared length, and panic otherwise.

  The lemmas say which reply object each call carries, what the derived
  booleans and casts are in terms of the wire values, and when the two
  asserting arms panic.
\<close>

section \<open>The arms that call the filesystem\<close>

text \<open>
  In each arm \<open>ino\<close> stands for \<^verbatim>\<open>self.request.nodeid()\<close> and the reply object
  is \<^verbatim>\<open>self.reply()\<close>.
\<close>

definition call_lookup :: "request \<Rightarrow> os_str \<Rightarrow> fs_call" where [arm_defs]:
  "call_lookup req name = fs_lookup (ll_nodeid (request_ll req)) name (request_reply req)"

definition call_forget :: "request \<Rightarrow> fuse_forget_in \<Rightarrow> fs_call" where [arm_defs]:
  "call_forget req arg = fs_forget (ll_nodeid (request_ll req)) (forget_nlookup arg)"

definition call_getattr :: "request \<Rightarrow> fs_call" where [arm_defs]:
  "call_getattr req = fs_getattr (ll_nodeid (request_ll req)) (request_reply req)"

definition call_readlink :: "request \<Rightarrow> fs_call" where [arm_defs]:
  "call_readlink req = fs_readlink (ll_nodeid (request_ll req)) (request_reply req)"

definition call_mknod :: "request \<Rightarrow> fuse_mknod_in \<Rightarrow> os_str \<Rightarrow> fs_call" where [arm_defs]:
  "call_mknod req arg name =
     fs_mknod (ll_nodeid (request_ll req)) name (mknod_mode arg) (mknod_rdev arg)
       (request_reply req)"

definition call_mkdir :: "request \<Rightarrow> fuse_mkdir_in \<Rightarrow> os_str \<Rightarrow> fs_call" where [arm_defs]:
  "call_mkdir req arg name =
     fs_mkdir (ll_nodeid (request_ll req)) name (mkdir_mode arg) (request_reply req)"

definition call_unlink :: "request \<Rightarrow> os_str \<Rightarrow> fs_call" where [arm_defs]:
  "call_unlink req name = fs_unlink (ll_nodeid (request_ll req)) name (request_reply req)"

definition call_rmdir :: "request \<Rightarrow> os_str \<Rightarrow> fs_call" where [arm_defs]:
  "call_rmdir req name = fs_rmdir (ll_nodeid (request_ll req)) name (request_reply req)"

definition call_symlink :: "request \<Rightarrow> os_str \<Rightarrow> os_str \<Rightarrow> fs_call" where [arm_defs]:
  "call_symlink req name link =
     fs_symlink (ll_nodeid (request_ll req)) name link (request_reply req)"

definition call_rename :: "request \<Rightarrow> fuse_rename_in \<Rightarrow> os_str \<Rightarrow> os_str \<Rightarrow> fs_call" where [arm_defs]:
  "call_rename req arg name newname =
     fs_rename (ll_nodeid (request_ll req)) name (rename_newdir arg) newname (request_reply req)"

definition call_link :: "request \<Rightarrow> fuse_link_in \<Rightarrow> os_str \<Rightarrow> fs_call" where [arm_defs]:
  "call_link req arg name =
     fs_link (link_oldnodeid arg) (ll_nodeid (request_ll req)) name (request_reply req)"

definition call_open :: "request \<Rightarrow> fuse_open_in \<Rightarrow> fs_call" where [arm_defs]:
  "call_open req arg = fs_open (ll_nodeid (request_ll req)) (open_flags arg) (request_reply req)"

definition call_read :: "request \<Rightarrow> fuse_read_in \<Rightarrow> fs_call" where [arm_defs]:
  "call_read req arg =
     fs_read (ll_nodeid (request_ll req)) (read_fh arg) (as_i64 (read_offset arg)) (read_size arg)
       (request_reply req)"

definition call_write :: "request \<Rightarrow> fuse_write_in \<Rightarrow> bytes \<Rightarrow> panic + fs_call" where [arm_defs]:
  "call_write req arg data =
     (if length data = as_usize (write_size arg)
      then Inr (fs_write (ll_nodeid (request_ll req)) (write_fh arg) (as_i64 (write_offset arg))
                  data (write_write_flags arg) (request_reply req))
      else Inl Assertion_failed)"

definition call_flush :: "request \<Rightarrow> fuse_flush_in \<Rightarrow> fs_call" where [arm_defs]:
  "call_flush req arg =
     fs_flush (ll_nodeid (request_ll req)) (flush_fh arg) (flush_lock_owner arg) (request_reply req)"

definition release_flush :: "fuse_release_in \<Rightarrow> bool" where
  "release_flush arg \<longleftrightarrow> flag_set (release_release_flags arg) FUSE_RELEASE_FLUSH"

definition call_release :: "request \<Rightarrow> fuse_release_in \<Rightarrow> fs_call" where [arm_defs]:
  "call_release req arg =
     fs_release (ll_nodeid (request_ll req)) (release_fh arg) (release_flags arg)
       (release_lock_owner arg) (release_flush arg) (request_reply req)"

definition fsync_datasync :: "fuse_fsync_in \<Rightarrow> bool" where
  "fsync_datasync arg \<longleftrightarrow> flag_set (fsync_fsync_flags arg) 1"

definition call_fsync :: "request \<Rightarrow> fuse_fsync_in \<Rightarrow> fs_call" where [arm_defs]:
  "call_fsync req arg =
     fs_fsync (ll_nodeid (request_ll req)) (fsync_fh arg) (fsync_datasync arg) (request_reply req)"

definition call_opendir :: "request \<Rightarrow> fuse_open_in \<Rightarrow> fs_call" where [arm_defs]:
  "call_opendir req arg =
     fs_opendir (ll_nodeid (request_ll req)) (open_flags arg) (request_reply req)"

definition call_readdir :: "request \<Rightarrow> fuse_read_in \<Rightarrow> fs_call" where [arm_defs]:
  "call_readdir req arg =
     fs_readdir (ll_nodeid (request_ll req)) (read_fh arg) (as_i64 (read_offset arg))
       (ReplyDirectory_new (ll_unique (request_ll req)) (request_ch req) (as_usize (read_size arg)))"

definition call_releasedir :: "request \<Rightarrow> fuse_release_in \<Rightarrow> fs_call" where [arm_defs]:
  "call_releasedir req arg =
     fs_releasedir (ll_nodeid (request_ll req)) (release_fh arg) (release_flags arg)
       (request_reply req)"

definition call_fsyncdir :: "request \<Rightarrow> fuse_fsync_in \<Rightarrow> fs_call" where [arm_defs]:
  "call_fsyncdir req arg =
     fs_fsyncdir (ll_nodeid (request_ll req)) (fsync_fh arg) (fsync_datasync arg)
       (request_reply req)"

definition call_statfs :: "request \<Rightarrow> fs_call" where [arm_defs]:
  "call_statfs req = fs_statfs (ll_nodeid (request_ll req)) (request_reply req)"

definition get_position :: "platform \<Rightarrow> fuse_setxattr_in \<Rightarrow> u32" where
  "get_position pf arg = (if target_os_macos pf then setxattr_position arg else 0)"

definition call_setxattr ::
  "platform \<Rightarrow> request \<Rightarrow> fuse_setxattr_in \<Rightarrow> os_str \<Rightarrow> bytes \<Rightarrow> panic + fs_call" where [arm_defs]:
  "call_setxattr pf req arg name val =
     (if length val = as_usize (setxattr_size arg)
      then Inr (fs_setxattr (ll_nodeid (request_ll req)) name val (setxattr_flags arg)
                  (get_position pf arg) (request_reply req))
      else Inl Assertion_failed)"

definition call_getxattr :: "request \<Rightarrow> fuse_getxattr_in \<Rightarrow> os_str \<Rightarrow> fs_call" where [arm_defs]:
  "call_getxattr req arg name =
     fs_getxattr (ll_nodeid (request_ll req)) name (getxattr_size arg) (request_reply req)"

definition call_listxattr :: "request \<Rightarrow> fuse_getxattr_in \<Rightarrow> fs_call" where [arm_defs]:
  "call_listxattr req arg =
     fs_listxattr (ll_nodeid (request_ll req)) (getxattr_size arg) (request_reply req)"

definition call_removexattr :: "request \<Rightarrow> os_str \<Rightarrow> fs_call" where [arm_defs]:
  "call_removexattr req name =
     fs_removexattr (ll_nodeid (request_ll req)) name (request_reply req)"

definition call_access :: "request \<Rightarrow> fuse_access_in \<Rightarrow> fs_call" where [arm_defs]:
  "call_access req arg =
     fs_access (ll_nodeid (request_ll req)) (access_mask arg) (request_reply req)"

definition call_create :: "request \<Rightarrow> fuse_create_in \<Rightarrow> os_str \<Rightarrow> fs_call" where [arm_defs]:
  "call_create req arg name =
     fs_create (ll_nodeid (request_ll req)) name (create_mode arg) (create_flags arg)
       (request_reply req)"

definition call_getlk :: "request \<Rightarrow> fuse_lk_in \<Rightarrow> fs_call" where [arm_defs]:
  "call_getlk req arg =
     fs_getlk (ll_nodeid (request_ll req)) (lk_fh arg) (lk_owner arg)
       (lock_start (lk_lk arg)) (lock_end (lk_lk arg)) (lock_typ (lk_lk arg)) (lock_pid (lk_lk arg))
       (request_reply req)"

definition call_setlk :: "request \<Rightarrow> fuse_lk_in \<Rightarrow> fs_call" where [arm_defs]:
  "call_setlk req arg =
     fs_setlk (ll_nodeid (request_ll req)) (lk_fh arg) (lk_owner arg)
       (lock_start (lk_lk arg)) (lock_end (lk_lk arg)) (lock_typ (lk_lk arg)) (lock_pid (lk_lk arg))
       False (request_reply req)"

definition call_setlkw :: "request \<Rightarrow> fuse_lk_in \<Rightarrow> fs_call" where [arm_defs]:
  "call_setlkw req arg =
     fs_setlk (ll_nodeid (request_ll req)) (lk_fh arg) (lk_owner arg)
       (lock_start (lk_lk arg)) (lock_end (lk_lk arg)) (lock_typ (lk_lk arg)) (lock_pid (lk_lk arg))
       True (request_reply req)"

definition call_bmap :: "request \<Rightarrow> fuse_bmap_in \<Rightarrow> fs_call" where [arm_defs]:
  "call_bmap req arg =
     fs_bmap (ll_nodeid (request_ll req)) (bmap_blocksize arg) (bmap_block arg) (request_reply req)"

definition call_setvolname :: "request \<Rightarrow> os_str \<Rightarrow> fs_call" where [arm_defs]:
  "call_setvolname req name = fs_setvolname name (request_reply req)"

definition call_getxtimes :: "request \<Rightarrow> fs_call" where [arm_defs]:
  "call_getxtimes req = fs_getxtimes (ll_nodeid (request_ll req)) (request_reply req)"

definition call_exchange :: "request \<Rightarrow> fuse_exchange_in \<Rightarrow> os_str \<Rightarrow> os_str \<Rightarrow> fs_call" where [arm_defs]:
  "call_exchange req arg oldname newname =
     fs_exchange (exchange_olddir arg) oldname (exchange_newdir arg) newname
       (exchange_options arg) (request_reply req)"

lemmas derived_defs = release_flush_def fsync_datasync_def get_position_def

section \<open>The reply object of each call\<close>

text \<open>Every arm but \<^verbatim>\<open>forget\<close> hands over the reply object of the request.\<close>

lemma reply_of_arm [simp]:
  "reply_of (call_lookup req name) = Some (request_reply req)"
  "reply_of (call_getattr req) = Some (request_reply req)"
  "reply_of (call_readlink req) = Some (request_reply req)"
  "reply_of (call_mknod req mknod_arg name) = Some (request_reply req)"
  "reply_of (call_mkdir req mkdir_arg name) = Some (request_reply req)"
  "reply_of (call_unlink req name) = Some (request_reply req)"
  "reply_of (call_rmdir req name) = Some (request_reply req)"
  "reply_of (call_symlink req name link) = Some (request_reply req)"
  "reply_of (call_rename req rename_arg name newname) = Some (request_reply req)"
  "reply_of (call_link req link_arg name) = Some (request_reply req)"
  "reply_of (call_open req open_arg) = Some (request_reply req)"
  "reply_of (call_read req read_arg) = Some (request_reply req)"
  "reply_of (call_flush req flush_arg) = Some (request_reply req)"
  "reply_of (call_release req release_arg) = Some (request_reply req)"
  "reply_of (call_fsync req fsync_arg) = Some (request_reply req)"
  "reply_of (call_opendir req open_arg) = Some (request_reply req)"
  "reply_of (call_readdir req read_arg) = Some (request_reply req)"
  "reply_of (call_releasedir req release_arg) = Some (request_reply req)"
  "reply_of (call_fsyncdir req fsync_arg) = Some (request_reply req)"
  "reply_of (call_statfs req) = Some (request_reply req)"
  "reply_of (call_getxattr req getxattr_arg name) = Some (request_reply req)"
  "reply_of (call_listxattr req getxattr_arg) = Some (request_reply req)"
  "reply_of (call_removexattr req name) = Some (request_reply req)"
  "reply_of (call_access req access_arg) = Some (request_reply req)"
  "reply_of (call_create req create_arg name) = Some (request_reply req)"
  "reply_of (call_getlk req lk_arg) = Some (request_reply req)"
  "reply_of (call_setlk req lk_arg) = Some (request_reply req)"
  "reply_of (call_setlkw req lk_arg) = Some (request_reply req)"
  "reply_of (call_bmap req bmap_arg) = Some (request_reply req)"
  "reply_of (call_setvolname req name) = Some (request_reply req)"
  "reply_of (call_getxtimes req) = Some (request_reply req)"
  "reply_of (call_exchange req exchange_arg oldname newname) = Some (request_reply req)"
  by (simp_all add: arm_defs request_reply_def)

lemma reply_of_call_forget [simp]: "reply_of (call_forget req arg) = None"
  by (simp add: call_forget_def)

lemma reply_of_call_write:
  "call_write req arg data = Inr c \<Longrightarrow> reply_of c = Some (request_reply req)"
  by (auto simp: call_write_def split: if_splits)

lemma reply_of_call_setxattr:
  "call_setxattr pf req arg name val = Inr c \<Longrightarrow> reply_of c = Some (request_reply req)"
  by (auto simp: call_setxattr_def split: if_splits)

lemma reply_of_call_setattr:
  "call_setattr pf req arg = Inr c \<Longrightarrow> reply_of c = Some (request_reply req)"
  by (erule call_setattr_InrE) simp

section \<open>The asserting arms\<close>

lemma call_write_eq:
  "call_write req arg data =
     (if length data = unat (write_size arg)
      then Inr (fs_write (ll_nodeid (request_ll req)) (write_fh arg) (write_offset arg) data
                  (write_write_flags arg) (request_reply req))
      else Inl Assertion_failed)"
  by (simp add: call_write_def as_usize_def as_i64_def)

lemma call_write_panics: "length data \<noteq> unat (write_size arg) \<Longrightarrow> call_write req arg data = Inl Assertion_failed"
  by (simp add: call_write_eq)

lemma call_setxattr_panics:
  "length val \<noteq> unat (setxattr_size arg) \<Longrightarrow> call_setxattr pf req arg name val = Inl Assertion_failed"
  by (simp add: call_setxattr_def as_usize_def)

section \<open>Flag bits surfaced as booleans\<close>

lemma fsync_datasync_odd: "fsync_datasync arg \<longleftrightarrow> odd (fsync_fsync_flags arg)"
  by (simp add: fsync_datasync_def flag_set_one)

lemma release_flush_odd: "release_flush arg \<longleftrightarrow> odd (release_release_flags arg)"
  by (simp add: release_flush_def FUSE_RELEASE_FLUSH_def flag_set_one)

section \<open>Properties of the arms\<close>

text \<open>
  The read-directory arm gives the filesystem a directory reply object bound
  to the request's correlation id and channel whose byte budget is the size
  the kernel asked for.  \<open>Fuse_Directory\<close> follows the object while it is
  filled.
\<close>

lemma readdir_reply_budget:
  assumes "call_readdir req arg = fs_readdir ino fh offset d"
  shows "dir_size d = unat (read_size arg) \<and> dir_size d < 2 ^ 32 \<and>
     reply_unique (dir_reply d) = request_unique req \<and> reply_ch (dir_reply d) = request_ch req"
proof -
  from assms have d: "d = ReplyDirectory_new (ll_unique (request_ll req)) (request_ch req)
      (as_usize (read_size arg))"
    by (simp add: call_readdir_def)
  have "unat (read_size arg) < 2 ^ 32"
    using unsigned_less [of "read_size arg"] by simp
  with d show ?thesis
    by (simp add: as_usize_def request_unique_def)
qed

lemma readdir_reply_budget_example:
  "call_readdir (example_request (ReadDir \<lparr>read_fh = 9, read_offset = 0, read_size = 4096\<rparr>))
       \<lparr>read_fh = 9, read_offset = 0, read_size = 4096\<rparr> =
     fs_readdir 7 9 0 (ReplyDirectory_new 42 3 4096) \<and>
   dir_size (ReplyDirectory_new 42 3 4096) = 4096"
proof -
  have c: "call_readdir (example_request (ReadDir \<lparr>read_fh = 9, read_offset = 0, read_size = 4096\<rparr>))
       \<lparr>read_fh = 9, read_offset = 0, read_size = 4096\<rparr> =
     fs_readdir 7 9 0 (ReplyDirectory_new 42 3 4096)"
    by (simp add: call_readdir_def example_request_def accessor_defs as_i64_def as_usize_def)
  from readdir_reply_budget [OF c] c show ?thesis
    by simp
qed

text \<open>
  C28.  The arms that reinterpret a word of the wire do so bit for bit.  The
  read arm passes the unsigned 64-bit offset to the filesystem as a signed
  value with the same bits: an offset below \<open>2^63\<close> arrives unchanged, a
  larger one arrives negative, lowered by \<open>2^64\<close>.  The arms that take a
  flag out of a word surface bit 0 of that word as a boolean and ignore
  every other bit of it: the synchronise arms, for files and for
  directories alike, give bit 0 of the sync flags as \<^verbatim>\<open>datasync\<close>, and the
  release arm gives the flush bit of the release flags as \<^verbatim>\<open>flush\<close> and
  passes the open flags, the file handle and the lock owner unchanged.
\<close>

theorem arms_reinterpret_words:
  assumes "call_read req rd = fs_read ino fh offset sz r"
  shows "sint offset =
       (if uint (read_offset rd) < 2 ^ 63 then uint (read_offset rd)
        else uint (read_offset rd) - 2 ^ 64) \<and>
     call_fsync req arg =
       fs_fsync (ll_nodeid (request_ll req)) (fsync_fh arg) (bit (fsync_fsync_flags arg) 0)
         (request_reply req) \<and>
     call_fsyncdir req arg =
       fs_fsyncdir (ll_nodeid (request_ll req)) (fsync_fh arg) (bit (fsync_fsync_flags arg) 0)
         (request_reply req) \<and>
     call_release req rel =
       fs_release (ll_nodeid (request_ll req)) (release_fh rel) (release_flags rel)
         (release_lock_owner rel) (bit (release_release_flags rel) 0) (request_reply req)"
proof -
  from assms have "offset = as_i64 (read_offset rd)"
    by (simp add: call_read_def)
  then show ?thesis
    by (simp add: sint_as_i64 call_fsync_def call_fsyncdir_def call_release_def
        fsync_datasync_odd release_flush_odd bit_0)
qed

theorem arms_reinterpret_words_witness:
  "call_read (example_request (Read \<lparr>read_fh = 9, read_offset = 2 ^ 63, read_size = 1\<rparr>))
       \<lparr>read_fh = 9, read_offset = 2 ^ 63, read_size = 1\<rparr> =
     fs_read 7 9 (2 ^ 63) 1 (Reply_new 42 3) \<and>
   sint (2 ^ 63 :: i64) = - (2 ^ 63) \<and>
   call_fsync (example_request (Read \<lparr>read_fh = 9, read_offset = 2 ^ 63, read_size = 1\<rparr>))
       \<lparr>fsync_fh = 9, fsync_fsync_flags = 3\<rparr> =
     fs_fsync 7 9 True (Reply_new 42 3)"
proof -
  have c: "call_read (example_request (Read \<lparr>read_fh = 9, read_offset = 2 ^ 63, read_size = 1\<rparr>))
       \<lparr>read_fh = 9, read_offset = 2 ^ 63, read_size = 1\<rparr> =
     fs_read 7 9 (2 ^ 63) 1 (Reply_new 42 3)"
    by (simp add: call_read_def example_request_def accessor_defs as_i64_def)
  from arms_reinterpret_words [OF c, of "\<lparr>fsync_fh = 9, fsync_fsync_flags = 3\<rparr>"] c
  show ?thesis
    by (simp add: example_request_def accessor_defs)
qed

end
