(* ===== verification/Fuse_Dispatch.thy ===== *)
theory Fuse_Dispatch
  imports Fuse_Handshake Fuse_Arms
begin

text \<open>
  The dispatcher, \<^verbatim>\<open>Request::dispatch\<close> of \<^verbatim>\<open>src/fuse_ll/src/fuse/request.rs\<close>:
  the two guards on the session flags, the teardown and interrupt arms, and
  the \<^verbatim>\<open>match\<close> itself as \<open>dispatch_op\<close>, one equation per arm in the order of
  the source.  The handshake arm is \<open>Fuse_Handshake.dispatch_init\<close>; the arms
  that call the filesystem are the \<open>call_X\<close> of \<open>Fuse_Arms\<close> and
  \<open>Fuse_Setattr\<close>.

  A dispatch either panics (\<open>Inl\<close>) or returns the messages it put on the
  channel, in order, and the session it leaves behind (\<open>Inr\<close>).

  The lemmas are in three layers.  First the paths of \<open>to_filesystem\<close> and of
  the three special arms, as equations under the conditions on the flags.
  Then \<open>dispatch_op_regular\<close>, which says that every arm below the interrupt
  arm is \<open>to_filesystem\<close> applied to \<open>arm_call\<close>, so that a property of all
  arms is proved once, from facts about \<open>arm_call\<close>.  Then the properties of
  the dispatcher: the guards, the three special arms, the reply discipline,
  the invariant, and the refinement of the handshake state machine
  \<open>Fuse_Session.session_step\<close>.
\<close>

type_synonym 'fs outcome = "panic + (message list \<times> 'fs session)"

section \<open>Guards, teardown, interrupt\<close>

definition before_init :: "request \<Rightarrow> 'fs session \<Rightarrow> message list \<times> 'fs session" where
  "before_init req se = ([reply_error (request_reply req) EIO], se)"

definition dispatch_destroy ::
  "'fs filesystem_ops \<Rightarrow> request \<Rightarrow> 'fs session \<Rightarrow> message list \<times> 'fs session" where
  "dispatch_destroy fs req se =
     (let fs1 = fs_destroy fs req (filesystem se);
          se1 = se\<lparr>filesystem := fs1, destroyed := True\<rparr>
      in ([reply_ok (request_reply req) No_data], se1))"

definition after_destroy :: "request \<Rightarrow> 'fs session \<Rightarrow> message list \<times> 'fs session" where
  "after_destroy req se = ([reply_error (request_reply req) EIO], se)"

definition dispatch_interrupt ::
  "platform \<Rightarrow> request \<Rightarrow> 'fs session \<Rightarrow> message list \<times> 'fs session" where
  "dispatch_interrupt pf req se = ([reply_error (request_reply req) (ENOSYS pf)], se)"

section \<open>The dispatcher\<close>

text \<open>
  \<open>invoke\<close> is the method call on the filesystem: the implementation runs
  on its state and applies one terminal operation to the reply object.
  \<open>to_filesystem\<close> is the path of every arm below the interrupt arm: the two
  guards on the session flags, then the derivation of the call (which may
  panic), then the call.
\<close>

definition invoke ::
  "'fs filesystem_ops \<Rightarrow> request \<Rightarrow> fs_call \<Rightarrow> 'fs session \<Rightarrow> message list \<times> 'fs session" where
  "invoke fs req call se =
     (let (t, fs1) = fs_handle fs req call (filesystem se)
      in (answer call t, se\<lparr>filesystem := fs1\<rparr>))"

definition to_filesystem ::
  "'fs filesystem_ops \<Rightarrow> request \<Rightarrow> 'fs session \<Rightarrow> panic + fs_call \<Rightarrow> 'fs outcome" where
  "to_filesystem fs req se derived =
     (if \<not> initialized se then Inr (before_init req se)
      else if destroyed se then Inr (after_destroy req se)
      else bind_result derived (\<lambda>call. Inr (invoke fs req call se)))"

definition on_macos :: "platform \<Rightarrow> 'fs outcome \<Rightarrow> 'fs outcome" where
  "on_macos pf result = (if target_os_macos pf then result else Inl Variant_not_compiled)"

fun dispatch_op ::
  "platform \<Rightarrow> 'fs filesystem_ops \<Rightarrow> request \<Rightarrow> 'fs session \<Rightarrow> operation \<Rightarrow> 'fs outcome" where
  "dispatch_op pf fs req se (Init arg) = Inr (dispatch_init pf fs req arg se)"
| "dispatch_op pf fs req se Destroy =
     (if \<not> initialized se then Inr (before_init req se)
      else Inr (dispatch_destroy fs req se))"
| "dispatch_op pf fs req se (Interrupt arg) =
     (if \<not> initialized se then Inr (before_init req se)
      else if destroyed se then Inr (after_destroy req se)
      else Inr (dispatch_interrupt pf req se))"
| "dispatch_op pf fs req se (Lookup name) = to_filesystem fs req se (Inr (call_lookup req name))"
| "dispatch_op pf fs req se (Forget arg) = to_filesystem fs req se (Inr (call_forget req arg))"
| "dispatch_op pf fs req se GetAttr = to_filesystem fs req se (Inr (call_getattr req))"
| "dispatch_op pf fs req se (SetAttr arg) = to_filesystem fs req se (call_setattr pf req arg)"
| "dispatch_op pf fs req se ReadLink = to_filesystem fs req se (Inr (call_readlink req))"
| "dispatch_op pf fs req se (MkNod arg name) =
     to_filesystem fs req se (Inr (call_mknod req arg name))"
| "dispatch_op pf fs req se (MkDir arg name) =
     to_filesystem fs req se (Inr (call_mkdir req arg name))"
| "dispatch_op pf fs req se (Unlink name) = to_filesystem fs req se (Inr (call_unlink req name))"
| "dispatch_op pf fs req se (RmDir name) = to_filesystem fs req se (Inr (call_rmdir req name))"
| "dispatch_op pf fs req se (SymLink name link) =
     to_filesystem fs req se (Inr (call_symlink req name link))"
| "dispatch_op pf fs req se (Rename arg name newname) =
     to_filesystem fs req se (Inr (call_rename req arg name newname))"
| "dispatch_op pf fs req se (Link arg name) =
     to_filesystem fs req se (Inr (call_link req arg name))"
| "dispatch_op pf fs req se (Open arg) = to_filesystem fs req se (Inr (call_open req arg))"
| "dispatch_op pf fs req se (Read arg) = to_filesystem fs req se (Inr (call_read req arg))"
| "dispatch_op pf fs req se (Write arg data) =
     to_filesystem fs req se (call_write req arg data)"
| "dispatch_op pf fs req se (Flush arg) = to_filesystem fs req se (Inr (call_flush req arg))"
| "dispatch_op pf fs req se (Release arg) = to_filesystem fs req se (Inr (call_release req arg))"
| "dispatch_op pf fs req se (FSync arg) = to_filesystem fs req se (Inr (call_fsync req arg))"
| "dispatch_op pf fs req se (OpenDir arg) = to_filesystem fs req se (Inr (call_opendir req arg))"
| "dispatch_op pf fs req se (ReadDir arg) = to_filesystem fs req se (Inr (call_readdir req arg))"
| "dispatch_op pf fs req se (ReleaseDir arg) =
     to_filesystem fs req se (Inr (call_releasedir req arg))"
| "dispatch_op pf fs req se (FSyncDir arg) =
     to_filesystem fs req se (Inr (call_fsyncdir req arg))"
| "dispatch_op pf fs req se StatFs = to_filesystem fs req se (Inr (call_statfs req))"
| "dispatch_op pf fs req se (SetXAttr arg name val) =
     to_filesystem fs req se (call_setxattr pf req arg name val)"
| "dispatch_op pf fs req se (GetXAttr arg name) =
     to_filesystem fs req se (Inr (call_getxattr req arg name))"
| "dispatch_op pf fs req se (ListXAttr arg) =
     to_filesystem fs req se (Inr (call_listxattr req arg))"
| "dispatch_op pf fs req se (RemoveXAttr name) =
     to_filesystem fs req se (Inr (call_removexattr req name))"
| "dispatch_op pf fs req se (Access arg) = to_filesystem fs req se (Inr (call_access req arg))"
| "dispatch_op pf fs req se (Create arg name) =
     to_filesystem fs req se (Inr (call_create req arg name))"
| "dispatch_op pf fs req se (GetLk arg) = to_filesystem fs req se (Inr (call_getlk req arg))"
| "dispatch_op pf fs req se (SetLk arg) = to_filesystem fs req se (Inr (call_setlk req arg))"
| "dispatch_op pf fs req se (SetLkW arg) = to_filesystem fs req se (Inr (call_setlkw req arg))"
| "dispatch_op pf fs req se (BMap arg) = to_filesystem fs req se (Inr (call_bmap req arg))"
| "dispatch_op pf fs req se (SetVolName name) =
     on_macos pf (to_filesystem fs req se (Inr (call_setvolname req name)))"
| "dispatch_op pf fs req se GetXTimes =
     on_macos pf (to_filesystem fs req se (Inr (call_getxtimes req)))"
| "dispatch_op pf fs req se (Exchange arg oldname newname) =
     on_macos pf (to_filesystem fs req se (Inr (call_exchange req arg oldname newname)))"

definition dispatch ::
  "platform \<Rightarrow> 'fs filesystem_ops \<Rightarrow> request \<Rightarrow> 'fs session \<Rightarrow> 'fs outcome" where
  "dispatch pf fs req se = dispatch_op pf fs req se (ll_operation (request_ll req))"


section \<open>The call of an arm\<close>

text \<open>
  The call that the arm of a regular operation derives, or the panic of the
  derivation: the argument of \<open>to_filesystem\<close> in the equation of
  \<open>dispatch_op\<close> for that operation.  The three special operations have no
  such call.
\<close>

fun arm_call :: "platform \<Rightarrow> request \<Rightarrow> operation \<Rightarrow> (panic + fs_call) option" where
  "arm_call pf req (Init arg) = None"
| "arm_call pf req Destroy = None"
| "arm_call pf req (Interrupt arg) = None"
| "arm_call pf req (Lookup name) = Some (Inr (call_lookup req name))"
| "arm_call pf req (Forget arg) = Some (Inr (call_forget req arg))"
| "arm_call pf req GetAttr = Some (Inr (call_getattr req))"
| "arm_call pf req (SetAttr arg) = Some (call_setattr pf req arg)"
| "arm_call pf req ReadLink = Some (Inr (call_readlink req))"
| "arm_call pf req (MkNod arg name) = Some (Inr (call_mknod req arg name))"
| "arm_call pf req (MkDir arg name) = Some (Inr (call_mkdir req arg name))"
| "arm_call pf req (Unlink name) = Some (Inr (call_unlink req name))"
| "arm_call pf req (RmDir name) = Some (Inr (call_rmdir req name))"
| "arm_call pf req (SymLink name link) = Some (Inr (call_symlink req name link))"
| "arm_call pf req (Rename arg name newname) = Some (Inr (call_rename req arg name newname))"
| "arm_call pf req (Link arg name) = Some (Inr (call_link req arg name))"
| "arm_call pf req (Open arg) = Some (Inr (call_open req arg))"
| "arm_call pf req (Read arg) = Some (Inr (call_read req arg))"
| "arm_call pf req (Write arg data) = Some (call_write req arg data)"
| "arm_call pf req (Flush arg) = Some (Inr (call_flush req arg))"
| "arm_call pf req (Release arg) = Some (Inr (call_release req arg))"
| "arm_call pf req (FSync arg) = Some (Inr (call_fsync req arg))"
| "arm_call pf req (OpenDir arg) = Some (Inr (call_opendir req arg))"
| "arm_call pf req (ReadDir arg) = Some (Inr (call_readdir req arg))"
| "arm_call pf req (ReleaseDir arg) = Some (Inr (call_releasedir req arg))"
| "arm_call pf req (FSyncDir arg) = Some (Inr (call_fsyncdir req arg))"
| "arm_call pf req StatFs = Some (Inr (call_statfs req))"
| "arm_call pf req (SetXAttr arg name val) = Some (call_setxattr pf req arg name val)"
| "arm_call pf req (GetXAttr arg name) = Some (Inr (call_getxattr req arg name))"
| "arm_call pf req (ListXAttr arg) = Some (Inr (call_listxattr req arg))"
| "arm_call pf req (RemoveXAttr name) = Some (Inr (call_removexattr req name))"
| "arm_call pf req (Access arg) = Some (Inr (call_access req arg))"
| "arm_call pf req (Create arg name) = Some (Inr (call_create req arg name))"
| "arm_call pf req (GetLk arg) = Some (Inr (call_getlk req arg))"
| "arm_call pf req (SetLk arg) = Some (Inr (call_setlk req arg))"
| "arm_call pf req (SetLkW arg) = Some (Inr (call_setlkw req arg))"
| "arm_call pf req (BMap arg) = Some (Inr (call_bmap req arg))"
| "arm_call pf req (SetVolName name) = Some (Inr (call_setvolname req name))"
| "arm_call pf req GetXTimes = Some (Inr (call_getxtimes req))"
| "arm_call pf req (Exchange arg oldname newname) =
     Some (Inr (call_exchange req arg oldname newname))"

fun is_forget :: "operation \<Rightarrow> bool" where
  "is_forget (Forget arg) = True"
| "is_forget other = False"

fun may_panic :: "operation \<Rightarrow> bool" where
  "may_panic (SetAttr arg) = True"
| "may_panic (Write arg data) = True"
| "may_panic (SetXAttr arg name val) = True"
| "may_panic other = False"

text \<open>
  The operations whose arguments derive without panic: the times of a
  set-attributes are in range, and the payload of a write or of a
  set-extended-attribute has the size its argument struct declares.
\<close>

fun serviceable :: "operation \<Rightarrow> bool" where
  "serviceable (SetAttr arg) = times_in_range arg"
| "serviceable (Write arg data) = (length data = as_usize (write_size arg))"
| "serviceable (SetXAttr arg name val) = (length val = as_usize (setxattr_size arg))"
| "serviceable other = True"

definition live :: "'fs session \<Rightarrow> bool" where
  "live se \<longleftrightarrow> initialized se \<and> \<not> destroyed se"

section \<open>Facts about the call of an arm\<close>

lemma arm_call_None_iff: "arm_call pf req x = None \<longleftrightarrow> class_of x \<noteq> Regular"
  by (cases x) simp_all

lemma arm_call_Regular: "class_of x = Regular \<Longrightarrow> \<exists>d. arm_call pf req x = Some d"
  using arm_call_None_iff [of pf req x] by auto

lemma arm_call_reply:
  "arm_call pf req x = Some (Inr c) \<Longrightarrow>
     reply_of c = (if is_forget x then None else Some (request_reply req))"
  by (cases x)
    (auto simp: reply_of_call_write reply_of_call_setxattr reply_of_call_setattr)

lemma arm_call_panic: "arm_call pf req x = Some (Inl p) \<Longrightarrow> may_panic x"
  by (cases x) simp_all

lemma dispatch_op_regular:
  "arm_call pf req x = Some d \<Longrightarrow> op_compiled pf x \<Longrightarrow>
     dispatch_op pf fs req se x = to_filesystem fs req se d"
  by (cases x) (auto simp: on_macos_def)

lemma dispatch_op_not_compiled:
  "\<not> op_compiled pf x \<Longrightarrow> dispatch_op pf fs req se x = Inl Variant_not_compiled"
  by (cases x) (simp_all add: on_macos_def)

section \<open>The paths of a dispatch\<close>

lemma live_simps [simp]:
  "live (se\<lparr>filesystem := fs1\<rparr>) = live se"
  "live (Session_new fs0) = False"
  by (simp_all add: live_def Session_new_def)

lemma live_state: "live se \<longleftrightarrow> state_of se = Initialized"
  by (simp add: live_def)

lemma to_filesystem_before:
  "\<not> initialized se \<Longrightarrow>
     to_filesystem fs req se d = Inr ([reply_error (request_reply req) EIO], se)"
  by (simp add: to_filesystem_def before_init_def)

lemma to_filesystem_after:
  "destroyed se \<Longrightarrow>
     to_filesystem fs req se d = Inr ([reply_error (request_reply req) EIO], se)"
  by (simp add: to_filesystem_def before_init_def after_destroy_def)

lemma to_filesystem_not_live:
  "\<not> live se \<Longrightarrow>
     to_filesystem fs req se d = Inr ([reply_error (request_reply req) EIO], se)"
  by (auto simp: live_def to_filesystem_before to_filesystem_after)

lemma to_filesystem_live:
  "live se \<Longrightarrow> to_filesystem fs req se d = bind_result d (\<lambda>call. Inr (invoke fs req call se))"
  by (simp add: to_filesystem_def live_def)

lemma invoke_eq:
  "fs_handle fs req call (filesystem se) = (t, fs1) \<Longrightarrow>
     invoke fs req call se = (answer call t, se\<lparr>filesystem := fs1\<rparr>)"
  by (simp add: invoke_def)

lemma invoke_cases:
  obtains t fs1 where "fs_handle fs req call (filesystem se) = (t, fs1)"
    and "invoke fs req call se = (answer call t, se\<lparr>filesystem := fs1\<rparr>)"
  by (cases "fs_handle fs req call (filesystem se)") (auto simp: invoke_eq)

lemma to_filesystem_call:
  assumes "live se" and "fs_handle fs req c (filesystem se) = (t, fs1)"
  shows "to_filesystem fs req se (Inr c) = Inr (answer c t, se\<lparr>filesystem := fs1\<rparr>)"
  using assms by (simp add: to_filesystem_live invoke_eq)

lemma to_filesystem_panic: "live se \<Longrightarrow> to_filesystem fs req se (Inl p) = Inl p"
  by (simp add: to_filesystem_live)

lemma dispatch_destroy_eq:
  "dispatch_destroy fs req se =
     ([reply_ok (request_reply req) No_data],
      se\<lparr>filesystem := fs_destroy fs req (filesystem se), destroyed := True\<rparr>)"
  by (simp add: dispatch_destroy_def)

lemma dispatch_op_Destroy:
  "dispatch_op pf fs req se Destroy =
     Inr (if initialized se then dispatch_destroy fs req se
          else ([reply_error (request_reply req) EIO], se))"
  by (simp add: before_init_def)

lemma dispatch_op_Interrupt:
  "dispatch_op pf fs req se (Interrupt arg) =
     Inr ([reply_error (request_reply req) (if live se then ENOSYS pf else EIO)], se)"
  by (simp add: before_init_def after_destroy_def dispatch_interrupt_def live_def)

text \<open>
  Every dispatch that returns took one of five paths.  The properties of the
  dispatcher below are case analyses over them.
\<close>

lemma dispatch_op_cases [consumes 1, case_names handshake rejected teardown interrupt call]:
  assumes "dispatch_op pf fs req se x = Inr (msgs, se')"
    and "\<And>arg. x = Init arg \<Longrightarrow> dispatch_init pf fs req arg se = (msgs, se') \<Longrightarrow> P"
    and "class_of x \<noteq> Handshake \<Longrightarrow> \<not> live se \<Longrightarrow> \<not> (x = Destroy \<and> initialized se) \<Longrightarrow>
      msgs = [reply_error (request_reply req) EIO] \<Longrightarrow> se' = se \<Longrightarrow> P"
    and "x = Destroy \<Longrightarrow> initialized se \<Longrightarrow> dispatch_destroy fs req se = (msgs, se') \<Longrightarrow> P"
    and "\<And>arg. x = Interrupt arg \<Longrightarrow> live se \<Longrightarrow>
      msgs = [reply_error (request_reply req) (ENOSYS pf)] \<Longrightarrow> se' = se \<Longrightarrow> P"
    and "\<And>c t fs1. live se \<Longrightarrow> arm_call pf req x = Some (Inr c) \<Longrightarrow>
      fs_handle fs req c (filesystem se) = (t, fs1) \<Longrightarrow>
      msgs = answer c t \<Longrightarrow> se' = se\<lparr>filesystem := fs1\<rparr> \<Longrightarrow> P"
  shows P
proof (cases "class_of x")
  case Handshake
  with assms(1) show ?thesis by (auto intro: assms(2))
next
  case Teardown
  with assms(1) show ?thesis
    by (cases "initialized se") (auto simp: before_init_def live_def intro: assms(3,4))
next
  case Cancel
  with assms(1) show ?thesis
    by (cases "live se") (auto simp: dispatch_op_Interrupt simp del: dispatch_op.simps intro: assms(3,5))
next
  case Regular
  then obtain d where d: "arm_call pf req x = Some d"
    using arm_call_Regular by blast
  have compiled: "op_compiled pf x"
    using assms(1) dispatch_op_not_compiled [of pf x fs req se] by auto
  note eq = dispatch_op_regular [OF d compiled, of fs se]
  show ?thesis
  proof (cases "live se")
    case False
    with assms(1) Regular show ?thesis
      by (auto simp: eq to_filesystem_not_live intro: assms(3))
  next
    case True
    with assms(1) obtain c where c: "d = Inr c" and i: "invoke fs req c se = (msgs, se')"
      by (cases d) (auto simp: eq to_filesystem_live)
    obtain t fs1 where h: "fs_handle fs req c (filesystem se) = (t, fs1)"
      by (cases "fs_handle fs req c (filesystem se)")
    with i have "msgs = answer c t" "se' = se\<lparr>filesystem := fs1\<rparr>"
      by (simp_all add: invoke_eq)
    with True d c h show ?thesis
      by (intro assms(6)) simp_all
  qed
qed

lemma dispatch_op_special_returns:
  "arm_call pf req x = None \<Longrightarrow> \<exists>r. dispatch_op pf fs req se x = Inr r"
  by (cases x) simp_all

lemma not_may_panic_serviceable: "\<not> may_panic x \<Longrightarrow> serviceable x"
  by (cases x) simp_all

lemma arm_call_serviceable:
  assumes "serviceable x" and "arm_call pf req x = Some d"
  shows "\<exists>c. d = Inr c"
proof (cases "may_panic x")
  case True
  with assms call_setattr_in_range [of _ pf req] show ?thesis
    by (cases x) (auto simp: call_write_def call_setxattr_def)
next
  case False
  with assms(2) arm_call_panic [of pf req x] show ?thesis
    by (cases d) auto
qed

lemma dispatch_op_serviceable:
  assumes "serviceable x" and "op_compiled pf x"
  shows "\<exists>r. dispatch_op pf fs req se x = Inr r"
proof (cases "arm_call pf req x")
  case None
  then show ?thesis by (rule dispatch_op_special_returns)
next
  case (Some d)
  with arm_call_serviceable [OF assms(1) Some] assms(2) show ?thesis
    by (auto simp: dispatch_op_regular to_filesystem_def)
qed

lemma dispatch_op_returns:
  assumes "\<not> may_panic x" and "op_compiled pf x"
  shows "\<exists>r. dispatch_op pf fs req se x = Inr r"
  using assms by (intro dispatch_op_serviceable not_may_panic_serviceable)

lemma dispatch_op_rejected:
  assumes "class_of x \<noteq> Handshake" and "op_compiled pf x" and "\<not> live se"
    and "x = Destroy \<Longrightarrow> \<not> initialized se"
  shows "dispatch_op pf fs req se x = Inr ([reply_error (request_reply req) EIO], se)"
proof (cases "class_of x")
  case Regular
  then obtain d where "arm_call pf req x = Some d"
    using arm_call_Regular by blast
  with assms(2,3) show ?thesis
    by (simp add: dispatch_op_regular to_filesystem_not_live)
qed (use assms in \<open>auto simp: dispatch_op_Interrupt before_init_def simp del: dispatch_op.simps(3)\<close>)

section \<open>What every path keeps\<close>

lemma dispatch_op_inv:
  assumes "session_inv se" and "dispatch_op pf fs req se x = Inr (msgs, se')"
  shows "session_inv se'"
  using assms(2)
proof (cases rule: dispatch_op_cases)
  case (handshake arg)
  with dispatch_init_inv [OF assms(1), of pf fs req arg] show ?thesis by simp
next
  case teardown
  then show ?thesis by (auto simp: dispatch_destroy_eq session_inv_def)
qed (use assms(1) in simp_all)

lemma dispatch_op_step:
  assumes "session_inv se" and "dispatch_op pf fs req se x = Inr (msgs, se')"
  shows "session_step (state_of se) (class_of x) (state_of se')"
  using assms(2)
proof (cases rule: dispatch_op_cases)
  case (handshake arg)
  with dispatch_init_step [OF assms(1), of pf fs req arg] show ?thesis by simp
next
  case rejected
  then show ?thesis
    by (cases "class_of x") (auto simp: live_def state_of_def intro: session_step.teardown_early)
next
  case teardown
  then show ?thesis
    by (auto simp: dispatch_destroy_eq state_of_def intro!: session_step.teardown)
next
  case (interrupt arg)
  then show ?thesis by simp
next
  case (call c t fs1)
  then have "class_of x = Regular"
    using arm_call_None_iff [of pf req x] by simp
  with call show ?thesis by (simp add: state_of_def)
qed

lemma dispatch_op_messages:
  assumes "dispatch_op pf fs req se x = Inr (msgs, se')"
  shows "if live se \<and> is_forget x then msgs = []
     else \<exists>m. msgs = [m] \<and> msg_unique m = request_unique req \<and> msg_ch m = request_ch req"
  using assms
proof (cases rule: dispatch_op_cases)
  case (handshake arg)
  with dispatch_init_one_message [of pf fs req arg se] show ?thesis by simp
next
  case (call c t fs1)
  with arm_call_reply [OF call(2)] show ?thesis
    by (auto simp: answer_def)
qed (auto simp: dispatch_destroy_eq live_def)

section \<open>Sessions for the worked instances\<close>

definition example_live :: "nat session" where
  "example_live = \<lparr>filesystem = 0, proto_major = 7, proto_minor = 31,
     initialized = True, destroyed = False\<rparr>"

definition example_dead :: "nat session" where
  "example_dead = \<lparr>filesystem = 0, proto_major = 7, proto_minor = 31,
     initialized = True, destroyed = True\<rparr>"

definition example_init_in :: fuse_init_in where
  "example_init_in = \<lparr>init_major = 7, init_minor = 31, init_max_readahead = 131072,
     init_flags = 0xFFFFFFFF\<rparr>"

definition example_old_init_in :: fuse_init_in where
  "example_old_init_in = \<lparr>init_major = 7, init_minor = 5, init_max_readahead = 131072,
     init_flags = 0\<rparr>"

lemma example_session_simps [simp]:
  "live example_live" "\<not> live example_dead"
  "initialized example_live" "initialized example_dead"
  "\<not> destroyed example_live" "destroyed example_dead"
  "session_inv example_live" "session_inv example_dead"
  "filesystem example_live = 0" "filesystem example_dead = 0"
  "\<not> initialized (Session_new fs0)" "\<not> destroyed (Session_new fs0)"
  "filesystem (Session_new fs0) = fs0"
  by (simp_all add: example_live_def example_dead_def live_def session_inv_def Session_new_def)

lemma example_init_simps [simp]:
  "\<not> abi_unsupported example_init_in" "abi_unsupported example_old_init_in"
  "unat (init_major example_init_in) = 7" "unat (init_minor example_init_in) = 31"
  "unat (init_major example_old_init_in) = 7" "unat (init_minor example_old_init_in) = 5"
  by (simp_all add: example_init_in_def example_old_init_in_def abi_unsupported_def)

lemmas dispatch_eval =
  dispatch_def request_reply_def example_request_def accessor_defs before_init_def
  after_destroy_def dispatch_interrupt_def dispatch_destroy_def Let_def to_filesystem_def
  invoke_def answer_def

section \<open>The invariant and the state machine\<close>

text \<open>
  C1.  A dispatch that returns keeps the session well formed: the session is
  never marked destroyed without being marked initialized, whatever the
  operation and whatever the filesystem does.
\<close>

theorem dispatch_preserves_session_inv:
  assumes "session_inv se" and "dispatch pf fs req se = Inr (msgs, se')"
  shows "session_inv se'"
  using assms by (auto simp: dispatch_def intro: dispatch_op_inv)

theorem dispatch_preserves_session_inv_witness:
  "dispatch example_linux counting_fs (example_request Destroy) (Session_new 0) =
     Inr ([reply_error (Reply_new 42 3) 5], Session_new 0) \<and>
   session_inv (Session_new (0::nat))"
proof -
  have d: "dispatch example_linux counting_fs (example_request Destroy) (Session_new 0) =
     Inr ([reply_error (Reply_new 42 3) 5], Session_new 0)"
    by (simp add: dispatch_eval Session_new_def EIO_def)
  from dispatch_preserves_session_inv [OF _ d] d show ?thesis
    by simp
qed

text \<open>
  C2.  The dispatcher refines the handshake state machine: on a well-formed
  session, a dispatch that returns moves the state of the session along a
  step of \<open>session_step\<close> labelled with the class of the operation.  So only
  a handshake can leave the uninitialized state, only a teardown can enter
  the destroyed state, and interrupts and regular operations never change
  the state.
\<close>

theorem dispatch_refines_session_step:
  assumes "session_inv se" and "dispatch pf fs req se = Inr (msgs, se')"
  shows "session_step (state_of se) (class_of (ll_operation (request_ll req))) (state_of se')"
  using assms by (auto simp: dispatch_def intro: dispatch_op_step)

theorem dispatch_refines_session_step_witness:
  "dispatch example_linux counting_fs (example_request Destroy) example_live =
     Inr ([reply_ok (Reply_new 42 3) No_data], example_live\<lparr>filesystem := 1, destroyed := True\<rparr>) \<and>
   session_step Initialized Teardown Destroyed"
proof -
  have d: "dispatch example_linux counting_fs (example_request Destroy) example_live =
     Inr ([reply_ok (Reply_new 42 3) No_data], example_live\<lparr>filesystem := 1, destroyed := True\<rparr>)"
    by (simp add: dispatch_eval example_live_def)
  from dispatch_refines_session_step [OF _ d] d show ?thesis
    by (simp add: state_of_def)
qed

section \<open>The reply discipline\<close>

text \<open>
  C3.  A dispatch that returns has sent exactly one message, carrying the
  correlation id of the request on the channel of the request; the one
  exception is a \<^verbatim>\<open>forget\<close> on a live session, for which nothing is sent.
\<close>

theorem dispatch_replies_exactly_once:
  assumes "dispatch pf fs req se = Inr (msgs, se')"
  shows "if live se \<and> is_forget (ll_operation (request_ll req)) then msgs = []
     else \<exists>m. msgs = [m] \<and> msg_unique m = request_unique req \<and> msg_ch m = request_ch req"
  using assms unfolding dispatch_def by (rule dispatch_op_messages)

theorem dispatch_replies_exactly_once_witness:
  "dispatch example_linux counting_fs (example_request GetAttr) (Session_new 0) =
     Inr ([reply_error (Reply_new 42 3) 5], Session_new 0) \<and>
   msg_unique (reply_error (Reply_new 42 3) 5) = 42"
proof -
  have d: "dispatch example_linux counting_fs (example_request GetAttr) (Session_new 0) =
     Inr ([reply_error (Reply_new 42 3) 5], Session_new 0)"
    by (simp add: dispatch_eval Session_new_def EIO_def)
  from dispatch_replies_exactly_once [OF d] d show ?thesis
    by simp
qed

section \<open>The guards\<close>

text \<open>
  C4.  Before the handshake has succeeded, every operation other than the
  handshake is answered with the I/O error and leaves the session, the
  filesystem included, untouched: no hook of the filesystem runs.  This
  covers teardown, interrupt and \<^verbatim>\<open>forget\<close> as well.
\<close>

theorem dispatch_before_init_rejected:
  assumes "\<not> initialized se" and "class_of (ll_operation (request_ll req)) \<noteq> Handshake"
    and "op_compiled pf (ll_operation (request_ll req))"
  shows "dispatch pf fs req se = Inr ([reply_error (request_reply req) EIO], se)"
  unfolding dispatch_def using assms
  by (intro dispatch_op_rejected) (simp_all add: live_def)

theorem dispatch_before_init_rejected_witness:
  "dispatch example_linux counting_fs (example_request (Lookup [102, 111, 111])) (Session_new 0) =
     Inr ([reply_error (Reply_new 42 3) 5], Session_new 0)"
proof -
  have d: "dispatch example_linux counting_fs (example_request (Lookup [102, 111, 111]))
       (Session_new 0) =
     Inr ([reply_error (request_reply (example_request (Lookup [102, 111, 111]))) EIO],
          Session_new 0)"
    by (simp add: dispatch_def to_filesystem_def before_init_def Session_new_def)
  from dispatch_before_init_rejected [of "Session_new 0"
      "example_request (Lookup [102, 111, 111])" example_linux counting_fs] d
  show ?thesis
    by (simp add: request_reply_def example_request_def accessor_defs EIO_def)
qed

text \<open>
  C5.  After the teardown, every operation other than handshake and teardown
  is answered with the I/O error and leaves the session untouched.
\<close>

theorem dispatch_after_destroy_rejected:
  assumes "destroyed se" and "class_of (ll_operation (request_ll req)) \<noteq> Handshake"
    and "class_of (ll_operation (request_ll req)) \<noteq> Teardown"
    and "op_compiled pf (ll_operation (request_ll req))"
  shows "dispatch pf fs req se = Inr ([reply_error (request_reply req) EIO], se)"
  unfolding dispatch_def using assms
  by (intro dispatch_op_rejected) (simp_all add: live_def)

theorem dispatch_after_destroy_rejected_witness:
  "dispatch example_linux counting_fs (example_request GetAttr) example_dead =
     Inr ([reply_error (Reply_new 42 3) 5], example_dead)"
proof -
  have d: "dispatch example_linux counting_fs (example_request GetAttr) example_dead =
     Inr ([reply_error (request_reply (example_request GetAttr)) EIO], example_dead)"
    by (simp add: dispatch_def to_filesystem_def after_destroy_def example_dead_def)
  from dispatch_after_destroy_rejected [of example_dead "example_request GetAttr"
      example_linux counting_fs] d
  show ?thesis
    by (simp add: request_reply_def example_request_def accessor_defs EIO_def)
qed

section \<open>The handshake\<close>

lemma dispatch_Init:
  "ll_operation (request_ll req) = Init arg \<Longrightarrow>
     dispatch pf fs req se = Inr (dispatch_init pf fs req arg se)"
  by (simp add: dispatch_def)

text \<open>
  C6.  A handshake that offers a protocol version below 7.6 is answered with
  the protocol error, in any state of the session; the session is left
  untouched and the filesystem's mount hook does not run.
\<close>

theorem handshake_old_abi_rejected:
  assumes "ll_operation (request_ll req) = Init arg"
    and "unat (init_major arg) < 7 \<or> (unat (init_major arg) = 7 \<and> unat (init_minor arg) < 6)"
  shows "dispatch pf fs req se = Inr ([reply_error (request_reply req) (EPROTO pf)], se)"
  using assms by (simp add: dispatch_Init dispatch_init_unsupported abi_unsupported_iff)

theorem handshake_old_abi_rejected_witness:
  "dispatch example_linux counting_fs (example_request (Init example_old_init_in)) (Session_new 0) =
     Inr ([reply_error (Reply_new 42 3) 71], Session_new 0)"
proof -
  have d: "dispatch example_linux counting_fs (example_request (Init example_old_init_in))
       (Session_new 0) =
     Inr ([reply_error (request_reply (example_request (Init example_old_init_in)))
             (EPROTO example_linux)], Session_new 0)"
    by (simp add: dispatch_def dispatch_init_def abi_unsupported_def example_old_init_in_def)
  from handshake_old_abi_rejected [of "example_request (Init example_old_init_in)"
      example_old_init_in example_linux counting_fs "Session_new 0"] d
  show ?thesis
    by (simp add: request_reply_def example_request_def accessor_defs EPROTO_def
        example_linux_def)
qed

text \<open>
  C7.  A handshake that offers version 7.6 or later, and whose mount hook
  succeeds, records the kernel's version, marks the session initialized and
  answers with the crate's version, the readahead bounded by the session
  buffer, the offered capability flags masked by the supported ones, and the
  session's maximal write size.
\<close>

theorem handshake_accepted:
  assumes "ll_operation (request_ll req) = Init arg"
    and "7 < unat (init_major arg) \<or> (unat (init_major arg) = 7 \<and> 6 \<le> unat (init_minor arg))"
    and "fs_init fs req (filesystem se) = (Inr (), fs1)"
  shows "dispatch pf fs req se =
     Inr ([reply_ok (request_reply req)
             (Init_out \<lparr>out_major = 7, out_minor = FUSE_KERNEL_MINOR_VERSION pf,
                out_max_readahead = min (as_u32 (BUFFER_SIZE pf)) (init_max_readahead arg),
                out_flags = init_flags arg AND INIT_FLAGS pf, out_unused = 0,
                out_max_write = as_u32 (MAX_WRITE_SIZE pf)\<rparr>)],
          se\<lparr>proto_major := init_major arg, proto_minor := init_minor arg, filesystem := fs1,
             initialized := True\<rparr>)"
proof -
  from assms(2) have "\<not> abi_unsupported arg"
    by (simp add: abi_supported_iff)
  from dispatch_init_accepted [OF this assms(3)] assms(1) show ?thesis
    by (simp add: dispatch_Init init_out_def negotiated_readahead_min FUSE_KERNEL_VERSION_def)
qed

theorem handshake_accepted_witness:
  "dispatch example_linux counting_fs (example_request (Init example_init_in)) (Session_new 0) =
     Inr ([reply_ok (Reply_new 42 3)
             (Init_out \<lparr>out_major = 7, out_minor = 8, out_max_readahead = 65536,
                out_flags = 1, out_unused = 0, out_max_write = 61440\<rparr>)],
          \<lparr>filesystem = 1, proto_major = 7, proto_minor = 31, initialized = True,
             destroyed = False\<rparr>)"
  using handshake_accepted [of "example_request (Init example_init_in)" example_init_in
      counting_fs "Session_new 0" 1 example_linux]
  by (simp add: request_reply_def example_request_def accessor_defs example_linux_def
      INIT_FLAGS_value Session_new_def example_init_in_def as_u32_def)

text \<open>
  C8.  When the mount hook fails, the handshake answers with the hook's error
  code and the session is not marked initialized by it; but the version the
  kernel offered has already been recorded in the session.
\<close>

theorem handshake_hook_failure:
  assumes "ll_operation (request_ll req) = Init arg"
    and "7 < unat (init_major arg) \<or> (unat (init_major arg) = 7 \<and> 6 \<le> unat (init_minor arg))"
    and "fs_init fs req (filesystem se) = (Inl err, fs1)"
  shows "dispatch pf fs req se =
     Inr ([reply_error (request_reply req) err],
          se\<lparr>proto_major := init_major arg, proto_minor := init_minor arg, filesystem := fs1\<rparr>)"
proof -
  from assms(2) have "\<not> abi_unsupported arg"
    by (simp add: abi_supported_iff)
  with assms(1,3) show ?thesis
    by (simp add: dispatch_def dispatch_init_def)
qed

theorem handshake_hook_failure_witness:
  "dispatch example_linux refusing_fs (example_request (Init example_init_in)) (Session_new 0) =
     Inr ([reply_error (Reply_new 42 3) 13],
          \<lparr>filesystem = 1, proto_major = 7, proto_minor = 31, initialized = False,
             destroyed = False\<rparr>)"
  using handshake_hook_failure [of "example_request (Init example_init_in)" example_init_in
      refusing_fs "Session_new 0" 13 1 example_linux]
  by (simp add: request_reply_def example_request_def accessor_defs Session_new_def
      example_init_in_def)

section \<open>Teardown and interrupt\<close>

text \<open>
  C9.  A teardown on an initialized session runs the filesystem's destroy
  hook, marks the session destroyed and acknowledges with an empty success
  reply.  Nothing in this depends on whether the session was destroyed
  already: a repeated teardown runs the hook again and is acknowledged again.
\<close>

theorem teardown_marks_destroyed:
  assumes "ll_operation (request_ll req) = Destroy" and "initialized se"
  shows "dispatch pf fs req se =
     Inr ([reply_ok (request_reply req) No_data],
          se\<lparr>filesystem := fs_destroy fs req (filesystem se), destroyed := True\<rparr>)"
  using assms by (simp add: dispatch_def dispatch_destroy_def)

theorem teardown_marks_destroyed_witness:
  "dispatch example_linux counting_fs (example_request Destroy) example_dead =
     Inr ([reply_ok (Reply_new 42 3) No_data], example_dead\<lparr>filesystem := 1\<rparr>)"
  using teardown_marks_destroyed [of "example_request Destroy" example_dead example_linux
      counting_fs]
  by (simp add: request_reply_def example_request_def accessor_defs example_dead_def)

text \<open>
  C10.  On a live session an interrupt is answered with the
  not-implemented error and changes nothing: the request it names is not
  cancelled.
\<close>

theorem interrupt_not_implemented:
  assumes "ll_operation (request_ll req) = Interrupt arg" and "live se"
  shows "dispatch pf fs req se = Inr ([reply_error (request_reply req) (ENOSYS pf)], se)"
  using assms by (simp add: dispatch_def dispatch_interrupt_def live_def)

theorem interrupt_not_implemented_witness:
  "dispatch example_linux counting_fs (example_request (Interrupt \<lparr>interrupt_unique = 41\<rparr>))
       example_live =
     Inr ([reply_error (Reply_new 42 3) 38], example_live)"
  using interrupt_not_implemented [of "example_request (Interrupt \<lparr>interrupt_unique = 41\<rparr>)"
      "\<lparr>interrupt_unique = 41\<rparr>" example_live example_linux counting_fs]
  by (simp add: request_reply_def example_request_def accessor_defs ENOSYS_def example_linux_def)

section \<open>Regular operations on a live session\<close>

text \<open>
  C11.  On a live session a regular operation whose arguments derive without
  panic makes exactly one call on the filesystem, the call of its arm; the
  messages sent are the filesystem's answer on the reply object of that call,
  and of the session only the filesystem's own state changes.
\<close>

theorem dispatch_live_call:
  assumes "live se" and "op_compiled pf (ll_operation (request_ll req))"
    and "arm_call pf req (ll_operation (request_ll req)) = Some (Inr c)"
    and "fs_handle fs req c (filesystem se) = (t, fs1)"
  shows "dispatch pf fs req se = Inr (answer c t, se\<lparr>filesystem := fs1\<rparr>)"
  using assms
  by (simp add: dispatch_def dispatch_op_regular to_filesystem_def invoke_def live_def)

theorem dispatch_live_call_witness:
  "dispatch example_linux refusing_fs (example_request (Unlink [97])) example_live =
     Inr ([reply_error (Reply_new 42 3) 38], example_live\<lparr>filesystem := 1\<rparr>)"
  using dispatch_live_call [of example_live example_linux "example_request (Unlink [97])"
      "fs_unlink 7 [97] (Reply_new 42 3)" refusing_fs "Term_error 38" 1]
  by (simp add: call_unlink_def request_reply_def example_request_def accessor_defs answer_def)

text \<open>
  C12.  On a live session a write is handed to the filesystem exactly when
  its payload has the length the wire struct declares; otherwise the
  dispatcher panics on its assertion, with no reply and no call.
\<close>

theorem write_size_mismatch_panics:
  assumes "ll_operation (request_ll req) = Write arg data" and "live se"
  shows "dispatch pf fs req se = Inl Assertion_failed \<longleftrightarrow> length data \<noteq> unat (write_size arg)"
  using assms
  by (auto simp: dispatch_def to_filesystem_live call_write_def as_usize_def)

theorem write_size_mismatch_panics_witness:
  "dispatch example_linux counting_fs
     (example_request (Write \<lparr>write_fh = 1, write_offset = 0, write_size = 3,
        write_write_flags = 0\<rparr> [1, 2])) example_live = Inl Assertion_failed"
  using write_size_mismatch_panics [of
      "example_request (Write \<lparr>write_fh = 1, write_offset = 0, write_size = 3,
        write_write_flags = 0\<rparr> [1, 2])"
      "\<lparr>write_fh = 1, write_offset = 0, write_size = 3, write_write_flags = 0\<rparr>" "[1, 2]"
      example_live example_linux counting_fs]
  by simp

section \<open>Where panics can come from, and what a dispatch leaves alone\<close>

text \<open>
  C32.  The dispatcher panics only on a live session, and only in the arms
  that compute times or assert payload lengths: set-attributes, write and
  set-extended-attribute.  Outside the live state no operation of the build
  can make it panic.
\<close>

theorem dispatch_panics_only_when_live:
  assumes "dispatch pf fs req se = Inl p" and "op_compiled pf (ll_operation (request_ll req))"
  shows "live se \<and> may_panic (ll_operation (request_ll req))"
proof (cases "arm_call pf req (ll_operation (request_ll req))")
  case None
  with assms(1) dispatch_op_special_returns [OF None, of fs se] show ?thesis
    by (simp add: dispatch_def)
next
  case (Some d)
  with assms have t: "to_filesystem fs req se d = Inl p"
    by (simp add: dispatch_def dispatch_op_regular)
  then have l: "live se"
    using to_filesystem_not_live [of se fs req d] by auto
  with t have "d = Inl p"
    by (cases d) (simp_all add: to_filesystem_live)
  with Some l show ?thesis
    by (simp add: arm_call_panic)
qed

theorem dispatch_panics_only_when_live_witness:
  "dispatch example_linux counting_fs
     (example_request (SetXAttr \<lparr>setxattr_size = 2, setxattr_flags = 0, setxattr_position = 0\<rparr>
        [117] [1])) example_live = Inl Assertion_failed \<and>
   live example_live"
proof -
  have d: "dispatch example_linux counting_fs
     (example_request (SetXAttr \<lparr>setxattr_size = 2, setxattr_flags = 0, setxattr_position = 0\<rparr>
        [117] [1])) example_live = Inl Assertion_failed"
    by (simp add: dispatch_def to_filesystem_live call_setxattr_panics)
  from dispatch_panics_only_when_live [OF d] d show ?thesis
    by simp
qed

text \<open>
  C33.  Only a handshake changes the recorded protocol version or the
  initialized flag, only a teardown changes the destroyed flag, and outside
  the live state only handshake and teardown reach the filesystem.
\<close>

theorem dispatch_frame:
  assumes "dispatch pf fs req se = Inr (msgs, se')"
    and "class_of (ll_operation (request_ll req)) \<noteq> Handshake"
  shows "proto_major se' = proto_major se \<and> proto_minor se' = proto_minor se \<and>
     initialized se' = initialized se \<and>
     (class_of (ll_operation (request_ll req)) \<noteq> Teardown \<longrightarrow>
        destroyed se' = destroyed se \<and> (\<not> live se \<longrightarrow> se' = se))"
  using assms(1) [unfolded dispatch_def]
proof (cases rule: dispatch_op_cases)
  case (handshake arg)
  with assms(2) show ?thesis by simp
qed (auto simp: dispatch_destroy_eq)

theorem dispatch_frame_witness:
  "dispatch example_linux counting_fs (example_request (Forget \<lparr>forget_nlookup = 2\<rparr>))
       example_live = Inr ([], example_live\<lparr>filesystem := 1\<rparr>) \<and>
   proto_minor (example_live\<lparr>filesystem := 1\<rparr>) = proto_minor example_live"
proof -
  have d: "dispatch example_linux counting_fs (example_request (Forget \<lparr>forget_nlookup = 2\<rparr>))
       example_live = Inr ([], example_live\<lparr>filesystem := 1\<rparr>)"
    by (simp add: dispatch_def to_filesystem_live invoke_eq call_forget_def)
  from dispatch_frame [OF d] d show ?thesis
    by simp
qed

text \<open>
  C34.  A \<^verbatim>\<open>forget\<close>, to which the kernel expects no answer, is silent only on
  a live session: before the handshake and after the teardown it is answered
  with the I/O error like any other operation, and the filesystem does not
  see it.
\<close>

theorem forget_answered_outside_live:
  assumes "ll_operation (request_ll req) = Forget arg"
  shows "dispatch pf fs req se =
     (if live se
      then Inr ([], se\<lparr>filesystem :=
             snd (fs_handle fs req (fs_forget (ll_nodeid (request_ll req)) (forget_nlookup arg))
                    (filesystem se))\<rparr>)
      else Inr ([reply_error (request_reply req) EIO], se))"
  using assms
  by (simp add: dispatch_def to_filesystem_not_live to_filesystem_live invoke_def
      call_forget_def split_beta)

theorem forget_answered_outside_live_witness:
  "dispatch example_linux counting_fs (example_request (Forget \<lparr>forget_nlookup = 2\<rparr>))
       example_dead = Inr ([reply_error (Reply_new 42 3) 5], example_dead)"
  using forget_answered_outside_live [of "example_request (Forget \<lparr>forget_nlookup = 2\<rparr>)"
      "\<lparr>forget_nlookup = 2\<rparr>" example_linux counting_fs example_dead]
  by (simp add: request_reply_def example_request_def accessor_defs EIO_def)

text \<open>
  A handshake on a session that is initialized already is a fresh
  negotiation: the mount hook runs again and the recorded protocol version
  is replaced by the one now offered, while the state of the session
  (initialized, or destroyed) stays what it was.
\<close>

lemma handshake_renegotiates:
  assumes "ll_operation (request_ll req) = Init arg" and "initialized se"
    and "7 < unat (init_major arg) \<or> (unat (init_major arg) = 7 \<and> 6 \<le> unat (init_minor arg))"
    and "fs_init fs req (filesystem se) = (Inr (), fs1)"
    and "dispatch pf fs req se = Inr (msgs, se')"
  shows "proto_major se' = init_major arg \<and> proto_minor se' = init_minor arg \<and>
     filesystem se' = fs1 \<and> state_of se' = state_of se"
proof -
  from assms(3) have "\<not> abi_unsupported arg"
    by (simp add: abi_supported_iff)
  from dispatch_init_accepted [OF this assms(4), of pf] assms(1,2,5) show ?thesis
    by (auto simp: dispatch_Init state_of_def)
qed

lemma handshake_renegotiates_example:
  "dispatch example_linux counting_fs
       (example_request (Init (example_init_in\<lparr>init_minor := 12\<rparr>))) example_live =
     Inr ([reply_ok (Reply_new 42 3)
             (Init_out \<lparr>out_major = 7, out_minor = 8, out_max_readahead = 65536,
                out_flags = 1, out_unused = 0, out_max_write = 61440\<rparr>)],
          example_live\<lparr>proto_minor := 12, filesystem := 1\<rparr>) \<and>
   proto_minor (example_live\<lparr>proto_minor := 12, filesystem := 1\<rparr>) = 12"
proof -
  have d: "dispatch example_linux counting_fs
       (example_request (Init (example_init_in\<lparr>init_minor := 12\<rparr>))) example_live =
     Inr ([reply_ok (Reply_new 42 3)
             (Init_out \<lparr>out_major = 7, out_minor = 8, out_max_readahead = 65536,
                out_flags = 1, out_unused = 0, out_max_write = 61440\<rparr>)],
          example_live\<lparr>proto_minor := 12, filesystem := 1\<rparr>)"
    by (simp add: dispatch_eval dispatch_init_def init_out_def negotiated_readahead_def
        INIT_FLAGS_value example_linux_def example_init_in_def abi_unsupported_def
        example_live_def as_u32_def abi_defs)
  from handshake_renegotiates [OF _ _ _ _ d, of "example_init_in\<lparr>init_minor := 12\<rparr>" 1] d
  show ?thesis
    by (simp add: example_init_in_def)
qed

end
