(* ===== verification/Fuse_Wire.thy ===== *)
theory Fuse_Wire
  imports Fuse_Request
begin

text \<open>
  The wire format at the two ends of a dispatch, as far as the specification
  fixes it: the request header at the front of every buffer the kernel
  sends, and the header and payload of the messages sent back.  The modules
  that implement it (\<^verbatim>\<open>ll_request\<close>, \<^verbatim>\<open>reply\<close>, \<^verbatim>\<open>abi\<close>) are not among the
  sources; the layouts are those of the specification's section on external
  interfaces, with integers in little-endian byte order as on the platforms
  the crate builds for.

  \<^item> \<open>le_encode\<close> and \<open>le_decode\<close> convert between natural numbers and
    little-endian byte strings; \<open>u32_bytes\<close>, \<open>u64_bytes\<close>, \<open>get_u32\<close>,
    \<open>get_u64\<close> are their instances at the two widths, with round trips.
  \<^item> \<open>parse_header\<close> reads the 40 bytes of the request header and rejects
    a buffer that is shorter or whose length field is not its length;
    \<open>header_bytes\<close> is the inverse.
  \<^item> \<open>try_from\<close> is the decoder \<^verbatim>\<open>ll_request::Request::try_from\<close>: the header,
    then the operation.  The decoding of the operation from the opcode and
    the bytes after the header is a parameter \<open>decode_op\<close> of it, so that
    the lemmas on framing hold for every decoder; \<open>Fuse_Decode\<close> gives the
    one of the crate.
  \<^item> \<open>message_bytes\<close> is what a message puts on the channel: the reply
    header (length, negated error number, correlation id) and the payload.
\<close>

section \<open>Little-endian integers\<close>

fun le_encode :: "nat \<Rightarrow> nat \<Rightarrow> bytes" where
  "le_encode 0 n = []"
| "le_encode (Suc k) n = of_nat (n mod 256) # le_encode k (n div 256)"

fun le_decode :: "bytes \<Rightarrow> nat" where
  "le_decode [] = 0"
| "le_decode (b # bs) = unat b + 256 * le_decode bs"

definition u32_bytes :: "u32 \<Rightarrow> bytes" where
  "u32_bytes w = le_encode 4 (unat w)"

definition u64_bytes :: "u64 \<Rightarrow> bytes" where
  "u64_bytes w = le_encode 8 (unat w)"

definition get_u32 :: "bytes \<Rightarrow> u32" where
  "get_u32 bs = of_nat (le_decode (take 4 bs))"

definition get_u64 :: "bytes \<Rightarrow> u64" where
  "get_u64 bs = of_nat (le_decode (take 8 bs))"

lemma length_le_encode [simp]: "length (le_encode k n) = k"
  by (induction k arbitrary: n) simp_all

lemma unat_byte_of_nat: "unat (of_nat (n mod 256) :: u8) = n mod 256"
  by (simp add: unat_of_nat)

lemma le_decode_encode: "le_decode (le_encode k n) = n mod 256 ^ k"
proof (induction k arbitrary: n)
  case (Suc k)
  have "n mod 256 + 256 * (n div 256 mod 256 ^ k) = n mod (256 * 256 ^ k)"
    by (simp add: mod_mult2_eq)
  with Suc show ?case by (simp add: unat_byte_of_nat)
qed simp

lemma le_decode_less: "le_decode bs < 256 ^ length bs"
proof (induction bs)
  case (Cons b bs)
  have "unat b < 256"
    using unsigned_less [of b] by simp
  with Cons show ?case by simp
qed simp

lemma le_encode_decode: "le_encode (length bs) (le_decode bs) = bs"
proof (induction bs)
  case (Cons b bs)
  have b: "unat b < 256"
    using unsigned_less [of b] by simp
  then have "(unat b + 256 * le_decode bs) mod 256 = unat b"
    "(unat b + 256 * le_decode bs) div 256 = le_decode bs"
    by simp_all
  with Cons show ?case by simp
qed simp

lemma length_word_bytes [simp]: "length (u32_bytes w) = 4" "length (u64_bytes v) = 8"
  by (simp_all add: u32_bytes_def u64_bytes_def)

lemma get_u32_bytes [simp]: "get_u32 (u32_bytes w @ rest) = w"
proof -
  have "unat w < 256 ^ 4"
    using unsigned_less [of w] by simp
  then have "unat w mod 256 ^ 4 = unat w"
    by (rule mod_less)
  then show ?thesis
    by (simp add: get_u32_def u32_bytes_def le_decode_encode)
qed

lemma get_u64_bytes [simp]: "get_u64 (u64_bytes w @ rest) = w"
proof -
  have "unat w < 256 ^ 8"
    using unsigned_less [of w] by simp
  then have "unat w mod 256 ^ 8 = unat w"
    by (rule mod_less)
  then show ?thesis
    by (simp add: get_u64_def u64_bytes_def le_decode_encode)
qed

lemma u32_bytes_get:
  assumes "4 \<le> length bs"
  shows "u32_bytes (get_u32 bs) = take 4 bs"
proof -
  from assms have l: "length (take 4 bs) = 4" by simp
  have "le_decode (take 4 bs) < 256 ^ 4"
    using le_decode_less [of "take 4 bs"] l by simp
  then have "unat (of_nat (le_decode (take 4 bs)) :: u32) = le_decode (take 4 bs)"
    by (simp add: unat_of_nat)
  then show ?thesis
    using le_encode_decode [of "take 4 bs"] l by (simp add: u32_bytes_def get_u32_def)
qed

lemma u64_bytes_get:
  assumes "8 \<le> length bs"
  shows "u64_bytes (get_u64 bs) = take 8 bs"
proof -
  from assms have l: "length (take 8 bs) = 8" by simp
  have "le_decode (take 8 bs) < 256 ^ 8"
    using le_decode_less [of "take 8 bs"] l by simp
  then have "unat (of_nat (le_decode (take 8 bs)) :: u64) = le_decode (take 8 bs)"
    by (simp add: unat_of_nat)
  then show ?thesis
    using le_encode_decode [of "take 8 bs"] l by (simp add: u64_bytes_def get_u64_def)
qed

section \<open>The request header\<close>

text \<open>
  Forty bytes: total length and opcode (32 bits each), correlation id and
  node id (64 bits each), uid, gid, pid and padding (32 bits each).
\<close>

definition HEADER_SIZE :: nat where
  "HEADER_SIZE = 40"

definition header_bytes :: "fuse_in_header \<Rightarrow> bytes" where
  "header_bytes h =
     u32_bytes (hdr_len h) @ u32_bytes (hdr_opcode h) @ u64_bytes (hdr_unique h) @
     u64_bytes (hdr_nodeid h) @ u32_bytes (hdr_uid h) @ u32_bytes (hdr_gid h) @
     u32_bytes (hdr_pid h) @ u32_bytes (hdr_padding h)"

definition parse_fields :: "bytes \<Rightarrow> fuse_in_header" where
  "parse_fields data =
     \<lparr>hdr_len = get_u32 data, hdr_opcode = get_u32 (drop 4 data),
      hdr_unique = get_u64 (drop 8 data), hdr_nodeid = get_u64 (drop 16 data),
      hdr_uid = get_u32 (drop 24 data), hdr_gid = get_u32 (drop 28 data),
      hdr_pid = get_u32 (drop 32 data), hdr_padding = get_u32 (drop 36 data)\<rparr>"

datatype decode_error = Short_header | Length_mismatch | Bad_operation

definition parse_header :: "bytes \<Rightarrow> decode_error + (fuse_in_header \<times> bytes)" where
  "parse_header data =
     (if length data < HEADER_SIZE then Inl Short_header
      else let h = parse_fields data in
        if unat (hdr_len h) \<noteq> length data then Inl Length_mismatch
        else Inr (h, drop HEADER_SIZE data))"

definition try_from ::
  "(fuse_in_header \<Rightarrow> bytes \<Rightarrow> operation option) \<Rightarrow> bytes \<Rightarrow> decode_error + ll_request" where
  "try_from decode_op data =
     bind_result (parse_header data) (\<lambda>(h, rest).
       case decode_op h rest of
         None \<Rightarrow> Inl Bad_operation
       | Some x \<Rightarrow> Inr \<lparr>ll_header = h, ll_operation = x\<rparr>)"

lemma length_header_bytes [simp]: "length (header_bytes h) = 40"
  by (simp add: header_bytes_def)

lemma parse_fields_header_bytes [simp]: "parse_fields (header_bytes h @ rest) = h"
  by (simp add: parse_fields_def header_bytes_def)

lemma take_drop_chain: "take a (drop n xs) @ take b (drop (n + a) xs) = take (a + b) (drop n xs)"
  by (simp add: take_add add.commute)

lemma header_bytes_parse_fields:
  assumes "40 \<le> length data"
  shows "header_bytes (parse_fields data) = take 40 data"
proof -
  have "header_bytes (parse_fields data) =
      take 4 (drop 0 data) @ take 4 (drop 4 data) @ take 8 (drop 8 data) @
      take 8 (drop 16 data) @ take 4 (drop 24 data) @ take 4 (drop 28 data) @
      take 4 (drop 32 data) @ take 4 (drop 36 data)"
    using assms by (simp add: header_bytes_def parse_fields_def u32_bytes_get u64_bytes_get)
  also have "\<dots> = take 40 (drop 0 data)"
    using take_drop_chain [of 4 32 data 4] take_drop_chain [of 4 28 data 8]
      take_drop_chain [of 4 24 data 12] take_drop_chain [of 8 16 data 16]
      take_drop_chain [of 8 8 data 24] take_drop_chain [of 4 4 data 32]
      take_drop_chain [of 4 0 data 36]
    by simp
  finally show ?thesis by simp
qed

lemma parse_header_Inr_iff:
  "parse_header data = Inr (h, rest) \<longleftrightarrow>
     40 \<le> length data \<and> unat (get_u32 data) = length data \<and>
     h = parse_fields data \<and> rest = drop 40 data"
  by (auto simp: parse_header_def HEADER_SIZE_def Let_def parse_fields_def)

lemma parse_header_bytes:
  "unat (hdr_len h) = 40 + length rest \<Longrightarrow> parse_header (header_bytes h @ rest) = Inr (h, rest)"
  by (simp add: parse_header_def HEADER_SIZE_def)

lemma parse_header_reencode:
  "parse_header data = Inr (h, rest) \<Longrightarrow> header_bytes h @ rest = data"
  by (simp add: parse_header_Inr_iff header_bytes_parse_fields)

lemma try_from_Inr_iff:
  "try_from decode_op data = Inr r \<longleftrightarrow>
     40 \<le> length data \<and> unat (get_u32 data) = length data \<and>
     ll_header r = parse_fields data \<and>
     decode_op (parse_fields data) (drop 40 data) = Some (ll_operation r)"
  by (cases r)
    (auto simp: try_from_def bind_result_eq_Inr parse_header_Inr_iff split: option.splits)

lemma try_from_bytes:
  "unat (hdr_len h) = 40 + length rest \<Longrightarrow>
     try_from decode_op (header_bytes h @ rest) =
       (case decode_op h rest of
          None \<Rightarrow> Inl Bad_operation
        | Some x \<Rightarrow> Inr \<lparr>ll_header = h, ll_operation = x\<rparr>)"
  by (simp add: try_from_def parse_header_bytes)

lemma try_from_Inl_iff:
  "(\<exists>err. try_from decode_op data = Inl err) \<longleftrightarrow>
     length data < 40 \<or> unat (get_u32 data) \<noteq> length data \<or>
     decode_op (parse_fields data) (drop 40 data) = None"
  by (auto simp: try_from_def parse_header_def HEADER_SIZE_def Let_def parse_fields_def
      split: option.splits)

lemma request_new_rejects:
  "Request_new (try_from decode_op) ch data = None \<longleftrightarrow>
     length data < 40 \<or> unat (get_u32 data) \<noteq> length data \<or>
     decode_op (parse_fields data) (drop 40 data) = None"
  unfolding Request_new_None_iff by (rule try_from_Inl_iff)

lemma Request_new_short:
  "length data < 40 \<Longrightarrow> Request_new (try_from decode_op) ch data = None"
  by (simp add: request_new_rejects)

lemma Request_new_bytes:
  assumes "unat (hdr_len h) = 40 + length rest" and "decode_op h rest = Some x"
  shows "Request_new (try_from decode_op) ch (header_bytes h @ rest) =
     Some \<lparr>request_ch = ch, request_data = header_bytes h @ rest,
            request_ll = \<lparr>ll_header = h, ll_operation = x\<rparr>\<rparr>"
  using assms by (simp add: Request_new_def try_from_bytes)

section \<open>Messages on the channel\<close>

text \<open>
  Sixteen bytes of reply header (total length, the error number negated as
  the kernel expects it, the correlation id), then the payload.  The
  handshake reply is six words of 32 bits.
\<close>

definition init_out_bytes :: "fuse_init_out \<Rightarrow> bytes" where
  "init_out_bytes out =
     u32_bytes (out_major out) @ u32_bytes (out_minor out) @
     u32_bytes (out_max_readahead out) @ u32_bytes (out_flags out) @
     u32_bytes (out_unused out) @ u32_bytes (out_max_write out)"

fun payload_bytes :: "payload \<Rightarrow> bytes" where
  "payload_bytes No_data = []"
| "payload_bytes (Init_out out) = init_out_bytes out"
| "payload_bytes (Data bs) = bs"

definition message_bytes :: "message \<Rightarrow> bytes" where
  "message_bytes m =
     u32_bytes (as_u32 (16 + length (payload_bytes (msg_data m)))) @
     u32_bytes (- msg_error m) @ u64_bytes (msg_unique m) @ payload_bytes (msg_data m)"

lemma length_init_out_bytes [simp]: "length (init_out_bytes out) = 24"
  by (simp add: init_out_bytes_def)

lemma length_message_bytes [simp]:
  "length (message_bytes m) = 16 + length (payload_bytes (msg_data m))"
  by (simp add: message_bytes_def)

lemma message_bytes_unique [simp]: "get_u64 (drop 8 (message_bytes m)) = msg_unique m"
  by (simp add: message_bytes_def)

lemma message_bytes_error: "get_u32 (drop 4 (message_bytes m)) = - msg_error m"
  by (simp add: message_bytes_def)

lemma message_bytes_len:
  "length (message_bytes m) < 2 ^ 32 \<Longrightarrow> unat (get_u32 (message_bytes m)) = length (message_bytes m)"
  by (simp add: message_bytes_def)

lemma message_unique_bytes: "take 8 (drop 8 (message_bytes m)) = u64_bytes (msg_unique m)"
  by (simp add: message_bytes_def)

lemma header_unique_bytes:
  "16 \<le> length data \<Longrightarrow> take 8 (drop 8 data) = u64_bytes (hdr_unique (parse_fields data))"
  by (simp add: parse_fields_def u64_bytes_get)

section \<open>A buffer for the worked instances\<close>

definition example_header :: fuse_in_header where
  "example_header = \<lparr>hdr_len = 40, hdr_opcode = 3, hdr_unique = 42, hdr_nodeid = 7,
     hdr_uid = 1000, hdr_gid = 1000, hdr_pid = 77, hdr_padding = 0\<rparr>"

definition example_decode_op :: "fuse_in_header \<Rightarrow> bytes \<Rightarrow> operation option" where
  "example_decode_op h rest = (if hdr_opcode h = 3 \<and> rest = [] then Some GetAttr else None)"

lemma example_header_simps [simp]:
  "unat (hdr_len example_header) = 40" "hdr_opcode example_header = 3"
  "hdr_unique example_header = 42"
  by (simp_all add: example_header_def)

lemma try_from_example:
  "try_from example_decode_op (header_bytes example_header) =
     Inr \<lparr>ll_header = example_header, ll_operation = GetAttr\<rparr>"
  using parse_header_bytes [of example_header "[]"]
  by (simp add: try_from_def example_decode_op_def)

lemma Request_new_example:
  "Request_new (try_from example_decode_op) ch (header_bytes example_header) =
     Some \<lparr>request_ch = ch, request_data = header_bytes example_header,
            request_ll = \<lparr>ll_header = example_header, ll_operation = GetAttr\<rparr>\<rparr>"
  by (simp add: Request_new_def try_from_example)

section \<open>Properties of the constructor of requests\<close>

text \<open>
  C38.  A request is constructed only from a buffer that holds a whole
  header whose length field is the length of the buffer, and decoding loses
  nothing: the header of the request, encoded again, is the first forty
  bytes of the buffer, the operation is what the operation decoder makes of
  the header and the remaining bytes, and the request keeps the channel and
  the buffer it was made from.
\<close>

theorem request_new_reads_header:
  assumes "Request_new (try_from decode_op) ch data = Some req"
  shows "header_bytes (ll_header (request_ll req)) = take 40 data \<and>
     unat (hdr_len (ll_header (request_ll req))) = length data \<and>
     decode_op (ll_header (request_ll req)) (drop 40 data) = Some (ll_operation (request_ll req)) \<and>
     request_ch req = ch \<and> request_data req = data"
proof -
  from assms obtain r where r: "try_from decode_op data = Inr r"
    and req: "req = \<lparr>request_ch = ch, request_data = data, request_ll = r\<rparr>"
    by (auto simp: Request_new_Some_iff)
  from r have "40 \<le> length data" "unat (get_u32 data) = length data"
    "ll_header r = parse_fields data"
    "decode_op (parse_fields data) (drop 40 data) = Some (ll_operation r)"
    by (simp_all add: try_from_Inr_iff)
  with req show ?thesis
    by (simp add: header_bytes_parse_fields) (simp add: parse_fields_def)
qed

theorem request_new_reads_header_witness:
  "Request_new (try_from example_decode_op) 3 (header_bytes example_header) =
     Some \<lparr>request_ch = 3, request_data = header_bytes example_header,
            request_ll = \<lparr>ll_header = example_header, ll_operation = GetAttr\<rparr>\<rparr> \<and>
   header_bytes example_header = take 40 (header_bytes example_header)"
proof -
  have n: "Request_new (try_from example_decode_op) 3 (header_bytes example_header) =
     Some \<lparr>request_ch = 3, request_data = header_bytes example_header,
            request_ll = \<lparr>ll_header = example_header, ll_operation = GetAttr\<rparr>\<rparr>"
    by (rule Request_new_example)
  from request_new_reads_header [OF n] n show ?thesis
    by simp
qed

end
