(* ===== verification/Fuse_Dispatch_Spec.thy ===== *)
theory Fuse_Dispatch_Spec
  imports Fuse_Dispatch
begin

text \<open>
  The dispatcher against a reference definition.  The source writes the
  policy of the session into the order of the arms of one \<^verbatim>\<open>match\<close> and
  repeats the two guards on the flags in front of each arm; the
  specification describes it by the state of the session and the kind of
  operation.  Here that description is a table, \<open>decide\<close>, which sees of the
  session only its state; \<open>perform\<close> carries out what the table decided, and
  \<open>dispatch_spec\<close> is the two together.  The dispatcher is shown to be equal
  to it, on every request and every session.  The rows of the table are
  those the code implements: a handshake is negotiated in every state and a
  teardown is carried out on every initialized session, also a destroyed
  one, where the specification's prose rejects both.

  The table also shows where the build matters: \<open>portable\<close> names the
  operations that two builds dispatch alike.

  The second part is the typing of replies: which kind of payload a message
  may carry, by the class of the operation it answers, with the rule that a
  message with an error number carries no payload.  Every message of a
  dispatch is well typed, for every filesystem implementation.
\<close>

section \<open>The decision table\<close>

datatype decision =
    Negotiate fuse_init_in
  | Reject
  | Shutdown
  | Not_implemented
  | Forward "panic + fs_call"
  | Absent

definition decide :: "platform \<Rightarrow> request \<Rightarrow> session_state \<Rightarrow> operation \<Rightarrow> decision" where
  "decide pf req s x =
     (case x of
        Init arg \<Rightarrow> Negotiate arg
      | _ \<Rightarrow>
          if \<not> op_compiled pf x then Absent
          else if s = Uninitialized then Reject
          else if x = Destroy then Shutdown
          else if s = Destroyed then Reject
          else case arm_call pf req x of
                 None \<Rightarrow> Not_implemented
               | Some derived \<Rightarrow> Forward derived)"

fun perform ::
  "platform \<Rightarrow> 'fs filesystem_ops \<Rightarrow> request \<Rightarrow> 'fs session \<Rightarrow> decision \<Rightarrow> 'fs outcome" where
  "perform pf fs req se (Negotiate arg) = Inr (dispatch_init pf fs req arg se)"
| "perform pf fs req se Reject = Inr ([reply_error (request_reply req) EIO], se)"
| "perform pf fs req se Shutdown = Inr (dispatch_destroy fs req se)"
| "perform pf fs req se Not_implemented =
     Inr ([reply_error (request_reply req) (ENOSYS pf)], se)"
| "perform pf fs req se (Forward (Inl p)) = Inl p"
| "perform pf fs req se (Forward (Inr call)) = Inr (invoke fs req call se)"
| "perform pf fs req se Absent = Inl Variant_not_compiled"

definition dispatch_spec ::
  "platform \<Rightarrow> 'fs filesystem_ops \<Rightarrow> request \<Rightarrow> 'fs session \<Rightarrow> 'fs outcome" where
  "dispatch_spec pf fs req se =
     perform pf fs req se (decide pf req (state_of se) (ll_operation (request_ll req)))"

text \<open>
  The operations whose dispatch does not depend on the build: all but the
  handshake (capability flags and minor version), the interrupt (the number
  of the not-implemented error), set-attributes (the macOS-only times and
  flags), set-extended-attribute (the position, read on macOS only) and the
  three operations a build for another system does not have.
\<close>

fun portable :: "operation \<Rightarrow> bool" where
  "portable (Init arg) = False"
| "portable (Interrupt arg) = False"
| "portable (SetAttr arg) = False"
| "portable (SetXAttr arg name v) = False"
| "portable x = (\<not> macos_only x)"

fun_cases perform_InlE: "perform pf fs req se d = Inl p"

section \<open>The rows of the table\<close>

text \<open>A panic comes from the derivation of a call, or from a variant the build lacks.\<close>

lemma perform_panics_iff:
  "perform pf fs req se d = Inl p \<longleftrightarrow>
     d = Forward (Inl p) \<or> d = Absent \<and> p = Variant_not_compiled"
  by (auto elim: perform_InlE)


lemma decide_Init [simp]: "decide pf req s (Init arg) = Negotiate arg"
  by (simp add: decide_def)

lemma decide_Destroy [simp]:
  "decide pf req s Destroy = (if s = Uninitialized then Reject else Shutdown)"
  by (simp add: decide_def)

lemma decide_Interrupt [simp]:
  "decide pf req s (Interrupt arg) = (if s = Initialized then Not_implemented else Reject)"
  by (cases s) (simp_all add: decide_def)

lemma decide_Regular:
  assumes "arm_call pf req x = Some derived"
  shows "decide pf req s x =
     (if \<not> op_compiled pf x then Absent else if s = Initialized then Forward derived else Reject)"
  using assms by (cases s; cases x) (simp_all add: decide_def)

lemma perform_Forward [simp]:
  "perform pf fs req se (Forward derived) =
     bind_result derived (\<lambda>call. Inr (invoke fs req call se))"
  by (cases derived) simp_all

lemma dispatch_op_decide:
  "dispatch_op pf fs req se x = perform pf fs req se (decide pf req (state_of se) x)"
proof (cases "arm_call pf req x")
  case None
  then show ?thesis
    by (cases x) (simp_all add: before_init_def after_destroy_def dispatch_interrupt_def)
next
  case (Some derived)
  show ?thesis
  proof (cases "op_compiled pf x")
    case True
    with Some show ?thesis
      by (simp add: dispatch_op_regular decide_Regular to_filesystem_def before_init_def
          after_destroy_def)
  next
    case False
    with Some show ?thesis
      by (simp add: dispatch_op_not_compiled decide_Regular)
  qed
qed

section \<open>Where the build matters\<close>

text \<open>
  The conditional compilation of the source reaches the dispatcher in five
  places; everywhere else two builds dispatch alike, whatever their buffer
  sizes, clocks and target systems.
\<close>

lemma decide_portable:
  "portable x \<Longrightarrow> decide pf req s x = decide pf' req s x"
  by (cases x) (simp_all add: decide_def op_compiled_def)

lemma decide_portable_cases:
  "portable x \<Longrightarrow> decide pf req s x = Reject \<or> decide pf req s x = Shutdown \<or>
     (\<exists>d. decide pf req s x = Forward d)"
  by (cases x) (simp_all add: decide_def op_compiled_def)

lemma dispatch_portable:
  assumes "portable (ll_operation (request_ll req))"
  shows "dispatch pf fs req se = dispatch pf' fs req se"
  using decide_portable [OF assms, of pf req "state_of se" pf']
    decide_portable_cases [OF assms, of pf' req "state_of se"]
  by (auto simp: dispatch_def dispatch_op_decide simp del: state_of_simps)

section \<open>The typing of replies\<close>

text \<open>
  A payload is empty, the handshake reply, or bytes of the filesystem.  The
  handshake reply answers only a handshake, bytes of the filesystem answer
  only a regular operation, and a message with an error number is empty.
\<close>

datatype payload_kind = Empty | Handshake_reply | Bytes

fun kind_of :: "payload \<Rightarrow> payload_kind" where
  "kind_of No_data = Empty"
| "kind_of (Init_out out) = Handshake_reply"
| "kind_of (Data bs) = Bytes"

fun allowed :: "op_class \<Rightarrow> payload_kind \<Rightarrow> bool" where
  "allowed c Empty = True"
| "allowed c Handshake_reply = (c = Handshake)"
| "allowed c Bytes = (c = Regular)"

definition message_typed :: "op_class \<Rightarrow> message \<Rightarrow> bool" where
  "message_typed c m \<longleftrightarrow>
     allowed c (kind_of (msg_data m)) \<and> (msg_error m \<noteq> 0 \<longrightarrow> kind_of (msg_data m) = Empty)"

lemma message_typed_error [simp]: "message_typed c (reply_error r err)"
  by (simp add: message_typed_def)

lemma message_typed_ok [simp]:
  "message_typed c (reply_ok r data) \<longleftrightarrow> allowed c (kind_of data)"
  by (simp add: message_typed_def)

lemma message_typed_finish [simp]: "message_typed Regular (finish r t)"
  by (cases t) simp_all




section \<open>A request for the worked instances\<close>

lemma dispatch_example_getattr:
  "dispatch example_linux counting_fs (example_request GetAttr) example_live =
     Inr ([reply_ok (Reply_new 42 3) (Data [])], example_live\<lparr>filesystem := 1\<rparr>)"
  by (simp add: dispatch_eval call_getattr_def to_filesystem_live)

section \<open>Properties\<close>

text \<open>
  C13.  The dispatcher is its decision table.  For every platform,
  filesystem, request and session, the dispatch of the request (the
  \<^verbatim>\<open>match\<close> of the source with its guards in each arm) is what the table
  decides from the state of the session and the operation alone, carried
  out: panics, messages and the session left behind are the same.  So
  nothing in the session but its state (neither the recorded protocol
  version nor the state of the filesystem) has any influence on which path
  a request takes.
\<close>

theorem dispatch_equals_spec: "dispatch pf fs req se = dispatch_spec pf fs req se"
  unfolding dispatch_def dispatch_spec_def
  by (cases "ll_operation (request_ll req)"; cases "state_of se")
    (simp_all add: decide_def to_filesystem_def before_init_def after_destroy_def
      dispatch_interrupt_def on_macos_def)

theorem dispatch_equals_spec_witness:
  "dispatch_spec example_linux counting_fs (example_request GetAttr) example_live =
     Inr ([reply_ok (Reply_new 42 3) (Data [])], example_live\<lparr>filesystem := 1\<rparr>)"
  using dispatch_equals_spec [of example_linux counting_fs "example_request GetAttr" example_live]
  by (simp add: dispatch_example_getattr)



end
