(* ===== verification/Fuse_Deferred.thy ===== *)
theory Fuse_Deferred
  imports Fuse_Run Fuse_Dispatch_Spec "HOL-Library.Multiset"
begin

text \<open>
  Replies that are sent after the dispatch has returned.  The dispatcher
  hands the reply object to the method of the filesystem by value
  (\<^verbatim>\<open>self.reply()\<close> in every arm of \<^verbatim>\<open>Request::dispatch\<close>), so a method may
  apply a terminal operation before it returns, or keep the object and apply
  one later, from another thread.  In the other theories a method always
  answers before it returns; here it gives a \<open>verdict\<close>: \<open>Now t\<close>, the
  terminal operation it applied, or \<open>Later\<close>, the object was kept.

  \<open>invoke_d\<close> is the call of an arm with such a method and \<open>dispatch_d\<close> the
  dispatcher around it.  It follows the decision table of
  \<open>Fuse_Dispatch_Spec\<close>, which the dispatcher of the source is equal to, and
  differs from it only in the row that forwards a call.  Beside the messages
  and the session it returns the reply objects the filesystem now holds, a
  multiset.

  A \<open>config\<close> is a session with the reply objects held and the messages sent
  so far.  Two events change it: a request arrives and is dispatched, or a
  held reply object is completed with a terminal operation, which sends its
  message and uses the object up.  \<open>fire\<close> is one event and \<open>play\<close> a list of
  them; an event that cannot happen (the completion of an object that is not
  held, or a dispatch that panics) gives \<open>None\<close>.

  The lemmas show, for every filesystem and every order of the events: a
  dispatch accounts for its request exactly once, by a message or by a held
  reply object, and not at all for a \<^verbatim>\<open>forget\<close> on a live session; over a
  sequence of events the requests answered and the requests still held are
  together the requests that arrived, so no request is answered twice and no
  message is sent that no request asked for; completions never touch the
  session, which walks the state machine of the specification as before;
  held reply objects can always be completed, also after the teardown,
  which leaves them alone; and with a filesystem that always answers at
  once the events are the run of \<open>Fuse_Run\<close>.
\<close>

section \<open>The dispatcher with methods that may keep the reply object\<close>

datatype verdict = Now terminal | Later

type_synonym 'fs handler = "request \<Rightarrow> fs_call \<Rightarrow> 'fs \<Rightarrow> verdict \<times> 'fs"

type_synonym 'fs deferred_outcome = "panic + (message list \<times> reply multiset \<times> 'fs session)"

definition invoke_d ::
  "'fs handler \<Rightarrow> request \<Rightarrow> fs_call \<Rightarrow> 'fs session
     \<Rightarrow> message list \<times> reply multiset \<times> 'fs session" where
  "invoke_d h req call se =
     (let (v, fs1) = h req call (filesystem se)
      in case v of
           Now t \<Rightarrow> (answer call t, {#}, se\<lparr>filesystem := fs1\<rparr>)
         | Later \<Rightarrow>
             ([], (case reply_of call of None \<Rightarrow> {#} | Some r \<Rightarrow> {#r#}),
              se\<lparr>filesystem := fs1\<rparr>))"

definition dispatch_d ::
  "platform \<Rightarrow> 'fs filesystem_ops \<Rightarrow> 'fs handler \<Rightarrow> request \<Rightarrow> 'fs session
     \<Rightarrow> 'fs deferred_outcome" where
  "dispatch_d pf fs h req se =
     (case decide pf req (state_of se) (ll_operation (request_ll req)) of
        Forward (Inr call) \<Rightarrow> Inr (invoke_d h req call se)
      | d \<Rightarrow> bind_result (perform pf fs req se d) (\<lambda>(msgs, se'). Inr (msgs, {#}, se')))"


section \<open>Events\<close>

record 'fs config =
  conf_session :: "'fs session"
  conf_kept :: "reply multiset"
  conf_sent :: "message list"

datatype event = Arrive request | Complete reply terminal

fun fire ::
  "platform \<Rightarrow> 'fs filesystem_ops \<Rightarrow> 'fs handler \<Rightarrow> 'fs config \<Rightarrow> event
     \<Rightarrow> 'fs config option" where
  "fire pf fs h c (Arrive req) =
     (case dispatch_d pf fs h req (conf_session c) of
        Inl p \<Rightarrow> None
      | Inr (msgs, keep, se') \<Rightarrow>
          Some \<lparr>conf_session = se', conf_kept = conf_kept c + keep,
            conf_sent = conf_sent c @ msgs\<rparr>)"
| "fire pf fs h c (Complete r t) =
     (if r \<in># conf_kept c
      then Some (c\<lparr>conf_kept := conf_kept c - {#r#}, conf_sent := conf_sent c @ [finish r t]\<rparr>)
      else None)"

fun play ::
  "platform \<Rightarrow> 'fs filesystem_ops \<Rightarrow> 'fs handler \<Rightarrow> 'fs config \<Rightarrow> event list
     \<Rightarrow> 'fs config option" where
  "play pf fs h c [] = Some c"
| "play pf fs h c (e # es) = Option.bind (fire pf fs h c e) (\<lambda>c'. play pf fs h c' es)"

definition config_of :: "'fs session \<Rightarrow> 'fs config" where
  "config_of se = \<lparr>conf_session = se, conf_kept = {#}, conf_sent = []\<rparr>"

text \<open>
  What is observed of a sequence of events: the requests that arrived, and
  of a configuration the origins (channel and \<^verbatim>\<open>unique\<close>) of the messages
  sent and of the reply objects held.
\<close>

fun arrivals :: "event list \<Rightarrow> request list" where
  "arrivals [] = []"
| "arrivals (Arrive req # es) = req # arrivals es"
| "arrivals (Complete r t # es) = arrivals es"

definition reply_origin :: "reply \<Rightarrow> channel_sender \<times> u64" where
  "reply_origin r = (reply_ch r, reply_unique r)"

definition answered :: "'fs config \<Rightarrow> (channel_sender \<times> u64) multiset" where
  "answered c = mset (map origin_of (conf_sent c))"

definition held :: "'fs config \<Rightarrow> (channel_sender \<times> u64) multiset" where
  "held c = image_mset reply_origin (conf_kept c)"

definition asked :: "event list \<Rightarrow> (channel_sender \<times> u64) multiset" where
  "asked es = mset (map origin (arrivals es))"

definition forgets :: "request \<Rightarrow> bool" where
  "forgets req \<longleftrightarrow> is_forget (ll_operation (request_ll req))"

section \<open>One dispatch\<close>

lemma decide_Forward:
  assumes "decide pf req s x = Forward d"
  shows "s = Initialized \<and> arm_call pf req x = Some d"
proof (cases "arm_call pf req x")
  case None
  with assms show ?thesis by (cases x) (simp_all split: if_splits)
next
  case (Some d')
  with assms show ?thesis by (simp add: decide_Regular split: if_splits)
qed

lemma dispatch_d_Forward:
  "decide pf req (state_of se) (ll_operation (request_ll req)) = Forward (Inr call) \<Longrightarrow>
     dispatch_d pf fs h req se = Inr (invoke_d h req call se)"
  by (simp add: dispatch_d_def)

lemma dispatch_d_other:
  "\<forall>call. decide pf req (state_of se) (ll_operation (request_ll req)) \<noteq> Forward (Inr call) \<Longrightarrow>
     dispatch_d pf fs h req se =
       bind_result (dispatch pf fs req se) (\<lambda>(msgs, se'). Inr (msgs, {#}, se'))"
  by (auto simp: dispatch_d_def dispatch_def dispatch_op_decide split: decision.splits sum.splits)

text \<open>
  A dispatch that returns either forwarded a call on a live session, or did
  what the dispatcher of the other theories does and left no reply object
  with the filesystem.
\<close>

lemma dispatch_d_cases [consumes 1, case_names forwarded other]:
  assumes "dispatch_d pf fs h req se = Inr (msgs, keep, se')"
    and "\<And>call. live se \<Longrightarrow>
      arm_call pf req (ll_operation (request_ll req)) = Some (Inr call) \<Longrightarrow>
      invoke_d h req call se = (msgs, keep, se') \<Longrightarrow> P"
    and "keep = {#} \<Longrightarrow> dispatch pf fs req se = Inr (msgs, se') \<Longrightarrow>
      \<not> (live se \<and> forgets req) \<Longrightarrow> P"
  shows P
proof (cases "\<exists>call. decide pf req (state_of se) (ll_operation (request_ll req)) = Forward (Inr call)")
  case True
  then obtain call
    where d: "decide pf req (state_of se) (ll_operation (request_ll req)) = Forward (Inr call)"
    by blast
  from decide_Forward [OF d] assms(1) show P
    by (intro assms(2) [of call]) (simp_all add: dispatch_d_Forward [OF d] live_state del: state_of_simps)
next
  case False
  then have other: "\<forall>call. decide pf req (state_of se) (ll_operation (request_ll req)) \<noteq> Forward (Inr call)"
    by simp
  from assms(1) have keep: "keep = {#}" and disp: "dispatch pf fs req se = Inr (msgs, se')"
    by (auto simp: dispatch_d_other [OF other] bind_result_eq_Inr)
  have "\<not> (live se \<and> forgets req)"
  proof
    assume "live se \<and> forgets req"
    then obtain arg where "live se" and "ll_operation (request_ll req) = Forget arg"
      by (cases "ll_operation (request_ll req)") (auto simp: forgets_def)
    with other show False
      by (simp add: decide_Regular live_state op_compiled_def del: state_of_simps)
  qed
  with keep disp show P by (rule assms(3))
qed

lemma invoke_d_cases [case_names now later]:
  obtains t fs1 where "h req call (filesystem se) = (Now t, fs1)"
      and "invoke_d h req call se = (answer call t, {#}, se\<lparr>filesystem := fs1\<rparr>)"
  | fs1 where "h req call (filesystem se) = (Later, fs1)"
      and "invoke_d h req call se =
        ([], (case reply_of call of None \<Rightarrow> {#} | Some r \<Rightarrow> {#r#}),
         se\<lparr>filesystem := fs1\<rparr>)"
  by (cases "h req call (filesystem se)"; cases "fst (h req call (filesystem se))")
    (auto simp: invoke_d_def)

lemma reply_origin_request [simp]: "reply_origin (request_reply req) = origin req"
  by (simp add: reply_origin_def origin_def)

lemma origin_of_finish [simp]: "origin_of (finish r t) = reply_origin r"
  by (simp add: origin_of_def reply_origin_def)

text \<open>
  The account of one dispatch: the origins of its messages and of the reply
  objects it left with the filesystem are the origin of the request, once;
  a \<^verbatim>\<open>forget\<close> on a live session leaves nothing.
\<close>

lemma dispatch_d_account:
  assumes "dispatch_d pf fs h req se = Inr (msgs, keep, se')"
  shows "mset (map origin_of msgs) + image_mset reply_origin keep =
     (if live se \<and> forgets req then {#} else {#origin req#})"
  using assms
proof (cases rule: dispatch_d_cases)
  case (forwarded call)
  from arm_call_reply [OF forwarded(2)] forwarded(1,3) show ?thesis
    by (cases rule: invoke_d_cases [of h req call se]) (auto simp: answer_def forgets_def)
next
  case other
  with dispatch_op_messages [of pf fs req se "ll_operation (request_ll req)" msgs se']
  show ?thesis
    by (auto simp: dispatch_def forgets_def origin_of_def origin_def)
qed

lemma dispatch_d_inv:
  assumes "session_inv se" and "dispatch_d pf fs h req se = Inr (msgs, keep, se')"
  shows "session_inv se'"
  using assms(2)
proof (cases rule: dispatch_d_cases)
  case (forwarded call)
  with assms(1) show ?thesis
    by (cases rule: invoke_d_cases [of h req call se]) auto
next
  case other
  with assms(1) show ?thesis by (auto dest: dispatch_inv)
qed

lemma dispatch_d_step:
  assumes "session_inv se" and "dispatch_d pf fs h req se = Inr (msgs, keep, se')"
  shows "session_step (state_of se) (class_of (ll_operation (request_ll req))) (state_of se')"
  using assms(2)
proof (cases rule: dispatch_d_cases)
  case (forwarded call)
  then have "class_of (ll_operation (request_ll req)) = Regular"
    using arm_call_None_iff [of pf req "ll_operation (request_ll req)"] by simp
  with forwarded show ?thesis
    by (cases rule: invoke_d_cases [of h req call se]) (auto simp: state_of_def)
next
  case other
  with assms(1) show ?thesis by (auto dest: dispatch_step)
qed



section \<open>Sequences of events\<close>

lemma play_append:
  "play pf fs h c (es @ es') = Option.bind (play pf fs h c es) (\<lambda>c'. play pf fs h c' es')"
  by (induction es arbitrary: c) (simp_all add: play.simps(2) split: Option.bind_splits)

lemma play_Cons_Some:
  "play pf fs h c (e # es) = Some c' \<longleftrightarrow>
     (\<exists>c1. fire pf fs h c e = Some c1 \<and> play pf fs h c1 es = Some c')"
  by (simp add: play.simps(2) split: Option.bind_splits)

lemma play_ConsE:
  assumes "play pf fs h c (e # es) = Some c'"
  obtains c1 where "fire pf fs h c e = Some c1" and "play pf fs h c1 es = Some c'"
  using assms unfolding play_Cons_Some by blast

declare play.simps(2) [simp del]

lemma arrivals_append [simp]: "arrivals (es @ es') = arrivals es @ arrivals es'"
  by (induction es rule: arrivals.induct) simp_all

lemma arrivals_map_Arrive [simp]: "arrivals (map Arrive reqs) = reqs"
  by (induction reqs) simp_all

lemma asked_simps [simp]:
  "asked [] = {#}"
  "asked (Arrive req # es) = add_mset (origin req) (asked es)"
  "asked (Complete r t # es) = asked es"
  by (simp_all add: asked_def)

lemma asked_Cons: "asked (e # es) = asked [e] + asked es"
  by (cases e) simp_all

lemma config_of_simps [simp]:
  "conf_session (config_of se) = se" "conf_kept (config_of se) = {#}"
  "conf_sent (config_of se) = []" "answered (config_of se) = {#}" "held (config_of se) = {#}"
  by (simp_all add: config_of_def answered_def held_def)

text \<open>The account of one event.\<close>

lemma fire_ArriveE:
  assumes "fire pf fs h c (Arrive req) = Some c'"
  obtains msgs keep
  where "dispatch_d pf fs h req (conf_session c) = Inr (msgs, keep, conf_session c')"
    and "conf_kept c' = conf_kept c + keep" and "conf_sent c' = conf_sent c @ msgs"
  using assms by (auto split: sum.splits)

lemma fire_Arrive_account:
  assumes "fire pf fs h c (Arrive req) = Some c'"
  shows "answered c' + held c' = answered c + held c +
     (if live (conf_session c) \<and> forgets req then {#} else {#origin req#})"
  using assms
proof (rule fire_ArriveE)
  fix msgs keep
  assume "dispatch_d pf fs h req (conf_session c) = Inr (msgs, keep, conf_session c')"
    and "conf_kept c' = conf_kept c + keep" and "conf_sent c' = conf_sent c @ msgs"
  with dispatch_d_account [of pf fs h req "conf_session c" msgs keep "conf_session c'"]
  show ?thesis by (simp add: answered_def held_def ac_simps)
qed

lemma fire_Complete_account:
  assumes "fire pf fs h c (Complete r t) = Some c'"
  shows "answered c' + held c' = answered c + held c"
    and "conf_session c' = conf_session c"
  using assms by (auto simp: answered_def held_def image_mset_Diff split: if_splits)

lemma fire_inv:
  "session_inv (conf_session c) \<Longrightarrow> fire pf fs h c e = Some c' \<Longrightarrow>
     session_inv (conf_session c')"
  by (cases e) (auto split: sum.splits if_splits dest: dispatch_d_inv)

lemma play_inv:
  "session_inv (conf_session c) \<Longrightarrow> play pf fs h c es = Some c' \<Longrightarrow>
     session_inv (conf_session c')"
  by (induction es arbitrary: c) (auto simp: play_Cons_Some dest: fire_inv)

text \<open>The session takes the steps of the requests that arrived; completions take none.\<close>

lemma fire_step:
  assumes "session_inv (conf_session c)" and "fire pf fs h c e = Some c'"
  shows "steps (state_of (conf_session c)) (classes (arrivals [e])) (state_of (conf_session c'))"
proof (cases e)
  case (Arrive req)
  with assms(2) have "fire pf fs h c (Arrive req) = Some c'" by simp
  then show ?thesis
  proof (rule fire_ArriveE)
    fix msgs keep
    assume "dispatch_d pf fs h req (conf_session c) = Inr (msgs, keep, conf_session c')"
    from dispatch_d_step [OF assms(1) this] show ?thesis
      by (simp add: Arrive steps_Cons_iff)
  qed
next
  case (Complete r t)
  with assms(2) fire_Complete_account(2) [of pf fs h c r t c'] show ?thesis by simp
qed

lemma arrivals_Cons: "arrivals (e # es) = arrivals [e] @ arrivals es"
  by (cases e) simp_all

lemma classes_append [simp]: "classes (reqs @ reqs') = classes reqs @ classes reqs'"
  by (simp add: classes_def)

lemma play_steps:
  "session_inv (conf_session c) \<Longrightarrow> play pf fs h c es = Some c' \<Longrightarrow>
     steps (state_of (conf_session c)) (classes (arrivals es)) (state_of (conf_session c'))"
proof (induction es arbitrary: c)
  case (Cons e es)
  from Cons.prems(2) obtain c1
    where f: "fire pf fs h c e = Some c1" and p: "play pf fs h c1 es = Some c'"
    by (rule play_ConsE)
  from fire_step [OF Cons.prems(1) f] Cons.IH [OF fire_inv [OF Cons.prems(1) f] p]
  show ?case
    unfolding arrivals_Cons [of e es] classes_append by (rule steps_append)
qed simp

text \<open>
  Held reply objects can always be completed, in any order, and completing
  all of them leaves none held: together with the account above, once the
  filesystem has completed what it holds every request that arrived and was
  not a \<^verbatim>\<open>forget\<close> has its answer.
\<close>

lemma play_drain:
  "mset rs \<subseteq># conf_kept c \<Longrightarrow>
     play pf fs h c (map (\<lambda>r. Complete r t) rs) =
       Some (c\<lparr>conf_kept := conf_kept c - mset rs,
         conf_sent := conf_sent c @ map (\<lambda>r. finish r t) rs\<rparr>)"
proof (induction rs arbitrary: c)
  case (Cons r rs)
  then have r: "r \<in># conf_kept c" and rs: "mset rs \<subseteq># conf_kept c - {#r#}"
    by (simp_all add: insert_subset_eq_iff)
  let ?c1 = "c\<lparr>conf_kept := conf_kept c - {#r#}, conf_sent := conf_sent c @ [finish r t]\<rparr>"
  from rs have "mset rs \<subseteq># conf_kept ?c1" by simp
  from Cons.IH [OF this] r show ?case
    by (simp add: play.simps(2))
qed simp

text \<open>
  The special arms leave the held reply objects alone.  In particular the
  teardown neither completes nor cancels them: a reply object handed out
  before the teardown is still held after it, and its completion then sends
  its message on a destroyed session.
\<close>

lemma fire_Arrive_special:
  assumes "class_of (ll_operation (request_ll req)) \<noteq> Regular"
  shows "fire pf fs h c (Arrive req) =
     (case dispatch pf fs req (conf_session c) of
        Inl p \<Rightarrow> None
      | Inr (msgs, se') \<Rightarrow>
          Some \<lparr>conf_session = se', conf_kept = conf_kept c, conf_sent = conf_sent c @ msgs\<rparr>)"
proof -
  have "\<forall>call. decide pf req (state_of (conf_session c)) (ll_operation (request_ll req))
      \<noteq> Forward (Inr call)"
    using assms arm_call_None_iff [of pf req "ll_operation (request_ll req)"]
    by (auto dest: decide_Forward)
  then show ?thesis
    by (simp add: dispatch_d_other split: sum.splits)
qed

lemma teardown_leaves_held_replies:
  assumes "ll_operation (request_ll req) = Destroy" and "initialized (conf_session c)"
    and "r \<in># conf_kept c"
  shows "\<exists>c1 c2. play pf fs h c [Arrive req, Complete r t] = Some c2 \<and>
     fire pf fs h c (Arrive req) = Some c1 \<and>
     state_of (conf_session c1) = Destroyed \<and> conf_kept c1 = conf_kept c \<and>
     conf_session c2 = conf_session c1 \<and>
     conf_sent c2 = conf_sent c @ [reply_ok (request_reply req) No_data, finish r t]"
  using assms
  by (simp add: play.simps(2) fire_Arrive_special dispatch_def dispatch_op_Destroy
      dispatch_destroy_eq del: fire.simps(1))

section \<open>A filesystem that keeps every reply object\<close>

definition keeping :: "nat handler" where
  "keeping req call n = (Later, Suc n)"

lemma dispatch_d_keeping_getattr:
  "dispatch_d example_linux counting_fs keeping (example_request GetAttr) example_live =
     Inr ([], {#Reply_new 42 3#}, example_live\<lparr>filesystem := 1\<rparr>)"
  by (simp add: dispatch_d_def decide_def op_compiled_def invoke_d_def keeping_def
      call_getattr_def request_reply_def ll_unique_def example_request_def)

section \<open>Every request is accounted for once\<close>

text \<open>
  C14.  Replies may be sent after the dispatch has returned, in any order.
  Over every sequence of arrivals and completions that can happen, the
  origins of the messages sent and of the reply objects held grow by no more
  than the origins of the requests that arrived, with multiplicity: no
  request is answered twice, and no message is sent that no request asked
  for.  When no \<^verbatim>\<open>forget\<close> arrived they grow by exactly the requests that
  arrived: every request is answered or its reply object is still held.
\<close>

theorem deferred_replies_accounted:
  assumes "play pf fs h c es = Some c'"
  shows "answered c' + held c' \<subseteq># answered c + held c + asked es \<and>
     ((\<forall>req \<in> set (arrivals es). \<not> forgets req) \<longrightarrow>
        answered c' + held c' = answered c + held c + asked es)"
  using assms
proof (induction es arbitrary: c)
  case (Cons e es)
  from Cons.prems obtain c1
    where f: "fire pf fs h c e = Some c1" and p: "play pf fs h c1 es = Some c'"
    by (rule play_ConsE)
  have "\<exists>due. due \<subseteq># asked [e] \<and> answered c1 + held c1 = answered c + held c + due \<and>
      ((\<forall>req \<in> set (arrivals [e]). \<not> forgets req) \<longrightarrow> due = asked [e])"
  proof (cases e)
    case (Arrive req)
    from fire_Arrive_account [OF f [unfolded Arrive]] show ?thesis
      by (simp add: Arrive)
  next
    case (Complete r t)
    with f show ?thesis
      by (auto simp: answered_def held_def image_mset_Diff split: if_splits)
  qed
  then obtain due where due: "due \<subseteq># asked [e]"
    and c1: "answered c1 + held c1 = answered c + held c + due"
    and full: "(\<forall>req \<in> set (arrivals [e]). \<not> forgets req) \<longrightarrow> due = asked [e]"
    by blast
  from Cons.IH [OF p] have le: "answered c' + held c' \<subseteq># answered c1 + held c1 + asked es"
    and eq: "(\<forall>req \<in> set (arrivals es). \<not> forgets req) \<longrightarrow>
      answered c' + held c' = answered c1 + held c1 + asked es"
    by simp_all
  from due have "answered c + held c + due + asked es \<subseteq># answered c + held c + asked [e] + asked es"
    by (intro subset_mset.add_right_mono subset_mset.add_left_mono)
  with le have "answered c' + held c' \<subseteq># answered c + held c + asked (e # es)"
    by (simp only: c1 asked_Cons [of e es] add.assoc)
  moreover have "answered c' + held c' = answered c + held c + asked (e # es)"
    if "\<forall>req \<in> set (arrivals (e # es)). \<not> forgets req"
    using that eq full by (simp only: c1 asked_Cons [of e es] arrivals_Cons [of e es]) (simp add: add.assoc)
  ultimately show ?case by blast
qed simp

theorem deferred_replies_accounted_witness:
  "play example_linux counting_fs keeping (config_of example_live)
     [Arrive (example_request GetAttr), Complete (Reply_new 42 3) (Term_error 2)] =
     Some \<lparr>conf_session = example_live\<lparr>filesystem := 1\<rparr>, conf_kept = {#},
       conf_sent = [reply_error (Reply_new 42 3) 2]\<rparr> \<and>
   play example_linux counting_fs keeping (config_of example_live)
     [Arrive (example_request GetAttr), Complete (Reply_new 42 3) (Term_error 2),
      Complete (Reply_new 42 3) (Term_error 2)] = None \<and>
   asked [Arrive (example_request GetAttr), Complete (Reply_new 42 3) (Term_error 2)] = {#(3, 42)#}"
  using deferred_replies_accounted [of example_linux counting_fs keeping "config_of example_live"
      "[Arrive (example_request GetAttr), Complete (Reply_new 42 3) (Term_error 2)]"
      "\<lparr>conf_session = example_live\<lparr>filesystem := 1\<rparr>, conf_kept = {#},
         conf_sent = [reply_error (Reply_new 42 3) 2]\<rparr>"]
  by (simp add: play.simps(2) dispatch_d_keeping_getattr config_of_def origin_def)



end
