(* ===== verification/Fuse_Schedule.thy ===== *)
theory Fuse_Schedule
  imports Fuse_Deferred
begin

text \<open>
  The order of events.  The dispatcher takes the session by exclusive
  reference, so the requests of one session are dispatched one after the
  other, in the order the transport hands them over; what is free is when
  the filesystem completes the reply objects it holds.  A schedule is a
  list of events of \<open>Fuse_Deferred\<close>; the schedules of the same arrivals and
  the same completions are the shuffles of the two lists.

  Two configurations are \<open>similar\<close> when they have the same session, hold
  the same reply objects and have sent the same messages, in any order.
  The lemmas show that events respect similarity, that a completion can be
  delayed past an arrival (never the other way round: the arrival may be
  what hands the reply object out), and from these that every schedule that
  can happen ends in a configuration similar to that of the schedule which
  dispatches all requests first and completes afterwards.  So the session,
  the calls the filesystem receives and the replies the kernel gets do not
  depend on when the replies are completed.
\<close>

section \<open>Schedules\<close>

fun completions :: "event list \<Rightarrow> event list" where
  "completions [] = []"
| "completions (Arrive req # es) = completions es"
| "completions (Complete r t # es) = Complete r t # completions es"

definition arrivals_first :: "event list \<Rightarrow> event list" where
  "arrivals_first es = map Arrive (arrivals es) @ completions es"

definition similar :: "'fs config \<Rightarrow> 'fs config \<Rightarrow> bool" where
  "similar c d \<longleftrightarrow>
     conf_session c = conf_session d \<and> conf_kept c = conf_kept d \<and>
     mset (conf_sent c) = mset (conf_sent d)"

lemma completions_append [simp]: "completions (es @ es') = completions es @ completions es'"
  by (induction es rule: completions.induct) simp_all

lemma completions_map_Arrive [simp]: "completions (map Arrive reqs) = []"
  by (induction reqs) simp_all

lemma arrivals_completions [simp]: "arrivals (completions es) = []"
  by (induction es rule: completions.induct) simp_all

lemma completions_idem [simp]: "completions (completions es) = completions es"
  by (induction es rule: completions.induct) simp_all

lemma completions_id: "arrivals es = [] \<Longrightarrow> completions es = es"
  by (induction es rule: completions.induct) simp_all

lemma arrivals_first_simps [simp]:
  "arrivals_first [] = []"
  "arrivals_first (Arrive req # es) = Arrive req # arrivals_first es"
  "arrivals (arrivals_first es) = arrivals es"
  "completions (arrivals_first es) = completions es"
  by (simp_all add: arrivals_first_def)

lemma arrivals_first_Complete:
  "arrivals_first (Complete r t # es) =
     (map Arrive (arrivals es) @ [Complete r t]) @ completions es"
  by (simp add: arrivals_first_def)

lemma play_append_Some:
  "play pf fs h c es = Some m \<Longrightarrow> play pf fs h m es' = Some d \<Longrightarrow>
     play pf fs h c (es @ es') = Some d"
  by (simp add: play_append)

lemma play_appendE:
  assumes "play pf fs h c (es @ es') = Some d"
  obtains m where "play pf fs h c es = Some m" and "play pf fs h m es' = Some d"
  using assms by (cases "play pf fs h c es") (simp_all add: play_append)

text \<open>A schedule is a shuffle of its arrivals and its completions.\<close>

lemma schedule_shuffles: "es \<in> shuffles (map Arrive (arrivals es)) (completions es)"
  by (induction es rule: completions.induct) (simp_all add: Cons_in_shuffles_iff)

lemma shuffles_arrivals:
  assumes "es \<in> shuffles (map Arrive reqs) cs" and "arrivals cs = []"
  shows "arrivals es = reqs"
  using assms
proof (induction "map Arrive reqs" cs arbitrary: reqs es rule: shuffles.induct)
  case (3 x xs y ys)
  then obtain req reqs' where reqs: "reqs = req # reqs'" "x = Arrive req" "xs = map Arrive reqs'"
    by (cases reqs) auto
  from "3.prems"(2) obtain r t where y: "y = Complete r t" and ys: "arrivals ys = []"
    by (cases y) simp_all
  from "3.prems"(1) "3.hyps"(3) show ?case
    using "3.hyps"(1) [of reqs'] "3.hyps"(2) [of reqs] "3.prems"(2) reqs y ys
    by (auto simp: Cons_in_shuffles_iff)
qed simp_all

lemma shuffles_completions:
  assumes "es \<in> shuffles (map Arrive reqs) cs" and "arrivals cs = []"
  shows "completions es = cs"
  using assms
proof (induction "map Arrive reqs" cs arbitrary: reqs es rule: shuffles.induct)
  case (2 xs)
  then show ?case by (cases reqs) simp_all
next
  case (3 x xs y ys)
  then obtain req reqs' where reqs: "reqs = req # reqs'" "x = Arrive req" "xs = map Arrive reqs'"
    by (cases reqs) auto
  from "3.prems"(2) obtain r t where y: "y = Complete r t" and ys: "arrivals ys = []"
    by (cases y) simp_all
  from "3.prems"(1) "3.hyps"(3) show ?case
    using "3.hyps"(1) [of reqs'] "3.hyps"(2) [of reqs] "3.prems"(2) reqs y ys
    by (auto simp: Cons_in_shuffles_iff)
next
  case (1 ys)
  then show ?case by (simp add: completions_id)
qed

section \<open>Similar configurations\<close>

lemma similar_refl [simp]: "similar c c"
  by (simp add: similar_def)

lemma similar_sym: "similar c d \<Longrightarrow> similar d c"
  by (simp add: similar_def)

lemma similar_trans: "similar c d \<Longrightarrow> similar d e \<Longrightarrow> similar c e"
  by (simp add: similar_def)

text \<open>
  An event can happen in a configuration exactly when it can happen in a
  similar one, and the results are similar: the relation \<open>rel_option\<close> of the
  library says both.
\<close>

lemma fire_similar:
  assumes "similar c d"
  shows "rel_option similar (fire pf fs h c e) (fire pf fs h d e)"
proof (cases e)
  case (Arrive req)
  with assms show ?thesis
    by (cases "dispatch_d pf fs h req (conf_session d)") (auto simp: similar_def)
next
  case (Complete r t)
  with assms show ?thesis by (simp add: similar_def)
qed

lemma play_similar:
  "similar c d \<Longrightarrow> rel_option similar (play pf fs h c es) (play pf fs h d es)"
proof (induction es arbitrary: c d)
  case (Cons e es)
  from fire_similar [OF Cons.prems, of pf fs h e] show ?case
    by (cases "fire pf fs h c e"; cases "fire pf fs h d e") (simp_all add: play.simps(2) Cons.IH)
qed simp

lemma play_similarE:
  assumes "similar c d" and "play pf fs h c es = Some c'"
  obtains d' where "play pf fs h d es = Some d'" and "similar c' d'"
  using play_similar [OF assms(1), of pf fs h es] assms(2)
  by (cases "play pf fs h d es") simp_all

section \<open>Delaying a completion\<close>

text \<open>
  A completion followed by an arrival can be swapped: the dispatch does not
  look at the reply objects held, and the object that was completed is
  still held after the arrival.
\<close>

lemma complete_arrive_swap:
  assumes "fire pf fs h c (Complete r t) = Some c1" and "fire pf fs h c1 (Arrive req) = Some c2"
  obtains d1 d2 where "fire pf fs h c (Arrive req) = Some d1"
    and "fire pf fs h d1 (Complete r t) = Some d2" and "similar c2 d2"
proof -
  from assms(1) have r: "r \<in># conf_kept c"
    and c1: "c1 = c\<lparr>conf_kept := conf_kept c - {#r#}, conf_sent := conf_sent c @ [finish r t]\<rparr>"
    by (simp_all split: if_splits)
  from assms(2) obtain msgs keep
    where d: "dispatch_d pf fs h req (conf_session c1) = Inr (msgs, keep, conf_session c2)"
      and k: "conf_kept c2 = conf_kept c1 + keep" and s: "conf_sent c2 = conf_sent c1 @ msgs"
    by (rule fire_ArriveE)
  let ?d1 = "\<lparr>conf_session = conf_session c2, conf_kept = conf_kept c + keep,
    conf_sent = conf_sent c @ msgs\<rparr>"
  let ?d2 = "?d1\<lparr>conf_kept := conf_kept ?d1 - {#r#}, conf_sent := conf_sent ?d1 @ [finish r t]\<rparr>"
  from d c1 have "fire pf fs h c (Arrive req) = Some ?d1" by simp
  moreover from r have "fire pf fs h ?d1 (Complete r t) = Some ?d2" by simp
  moreover from r k s c1 have "similar c2 ?d2" by (simp add: similar_def)
  ultimately show thesis by (rule that)
qed

text \<open>So a completion can be delayed past any number of arrivals.\<close>

lemma complete_delay:
  "play pf fs h c (Complete r t # map Arrive reqs) = Some c' \<Longrightarrow>
     \<exists>d. play pf fs h c (map Arrive reqs @ [Complete r t]) = Some d \<and> similar c' d"
proof (induction reqs arbitrary: c c')
  case (Cons req reqs)
  from Cons.prems obtain c1 c2
    where f1: "fire pf fs h c (Complete r t) = Some c1"
      and f2: "fire pf fs h c1 (Arrive req) = Some c2"
      and p: "play pf fs h c2 (map Arrive reqs) = Some c'"
    by (auto elim!: play_ConsE)
  from f1 f2 obtain d1 d2 where g1: "fire pf fs h c (Arrive req) = Some d1"
    and g2: "fire pf fs h d1 (Complete r t) = Some d2" and sim: "similar c2 d2"
    by (rule complete_arrive_swap)
  from sim p obtain d' where p': "play pf fs h d2 (map Arrive reqs) = Some d'"
    and sim': "similar c' d'"
    by (rule play_similarE)
  from g2 p' have "play pf fs h d1 (Complete r t # map Arrive reqs) = Some d'"
    by (simp add: play_Cons_Some)
  from Cons.IH [OF this] obtain d
    where q: "play pf fs h d1 (map Arrive reqs @ [Complete r t]) = Some d"
      and sim'': "similar d' d"
    by blast
  from g1 q have "play pf fs h c (map Arrive (req # reqs) @ [Complete r t]) = Some d"
    by (simp add: play_Cons_Some)
  with similar_trans [OF sim' sim''] show ?case by blast
qed simp

text \<open>
  Every schedule that can happen is similar to the one that dispatches all
  its requests first and completes the reply objects afterwards.
\<close>

lemma play_arrivals_first:
  "play pf fs h c es = Some c' \<Longrightarrow>
     \<exists>d. play pf fs h c (arrivals_first es) = Some d \<and> similar c' d"
proof (induction es arbitrary: c rule: completions.induct)
  case (2 req es)
  from "2.prems" obtain c1 where f: "fire pf fs h c (Arrive req) = Some c1"
    and p: "play pf fs h c1 es = Some c'"
    by (rule play_ConsE)
  from "2.IH" [OF p] f show ?case
    by (auto simp: play_Cons_Some)
next
  case (3 r t es)
  from "3.prems" obtain c1 where f: "fire pf fs h c (Complete r t) = Some c1"
    and p: "play pf fs h c1 es = Some c'"
    by (rule play_ConsE)
  from "3.IH" [OF p] obtain d
    where q: "play pf fs h c1 (map Arrive (arrivals es) @ completions es) = Some d"
      and sim: "similar c' d"
    by (auto simp: arrivals_first_def)
  from q obtain m where m: "play pf fs h c1 (map Arrive (arrivals es)) = Some m"
    and rest: "play pf fs h m (completions es) = Some d"
    by (rule play_appendE)
  from f m have "play pf fs h c (Complete r t # map Arrive (arrivals es)) = Some m"
    by (simp add: play_Cons_Some)
  from complete_delay [OF this] obtain m'
    where m': "play pf fs h c (map Arrive (arrivals es) @ [Complete r t]) = Some m'"
      and sim': "similar m m'"
    by blast
  from sim' rest obtain d' where rest': "play pf fs h m' (completions es) = Some d'"
    and sim'': "similar d d'"
    by (rule play_similarE)
  from m' rest' have "play pf fs h c (arrivals_first (Complete r t # es)) = Some d'"
    unfolding arrivals_first_Complete by (rule play_append_Some)
  with similar_trans [OF sim sim''] show ?case by blast
qed simp

text \<open>Two schedules of the same arrivals and the same completions agree.\<close>

lemma schedules_agree:
  assumes "es \<in> shuffles (map Arrive reqs) cs" and "es' \<in> shuffles (map Arrive reqs) cs"
    and "arrivals cs = []"
    and "play pf fs h c es = Some d" and "play pf fs h c es' = Some d'"
  shows "similar d d'"
proof -
  from assms(1-3) have "arrivals_first es = arrivals_first es'"
    by (simp add: arrivals_first_def shuffles_arrivals shuffles_completions)
  with play_arrivals_first [OF assms(4)] play_arrivals_first [OF assms(5)] show ?thesis
    by (auto intro: similar_trans similar_sym)
qed

section \<open>A schedule for the worked instance\<close>


text \<open>
  The other direction fails: a completion cannot be moved before the arrival
  that handed its reply object out.
\<close>

lemma complete_not_advanced:
  "play example_linux counting_fs keeping (config_of example_live)
     [Arrive (example_request GetAttr), Complete (Reply_new 42 3) (Term_error 2)] \<noteq> None \<and>
   play example_linux counting_fs keeping (config_of example_live)
     [Complete (Reply_new 42 3) (Term_error 2), Arrive (example_request GetAttr)] = None"
  by (simp add: play.simps(2) config_of_def dispatch_d_keeping_getattr)

section \<open>The outcome does not depend on the schedule\<close>



end
