(* ===== verification/Fuse_Decode.thy ===== *)
theory Fuse_Decode
  imports Fuse_Wire
begin

text \<open>
  The decoding of an operation from the opcode of the header and the bytes
  that follow the header: the part of \<^verbatim>\<open>ll_request::Request::try_from\<close> that
  \<open>Fuse_Wire.try_from\<close> takes as its parameter.  The module is not among the
  sources.  The rules are those of the specification's operation decoder: a
  fixed argument struct is read from the front of the bytes and needs at
  least its size; a name is read up to its terminating zero byte, which must
  be there; a payload is all the bytes that remain.  The opcode numbers and
  the layouts of the argument structs are those of the kernel interface 7.8
  (with the macOS extensions in a macOS build); the specification leaves
  them to the ABI layer.

  \<^item> \<open>fetch_words\<close>, \<open>fetch_str\<close>, \<open>fetch_names\<close> are the three ways of reading;
    \<open>put_words\<close> and \<open>put_names\<close> write what they read.  The scan for the
    terminator, \<open>scan_terminator\<close>, walks an index through the bytes and is
    the one recursion here that is not structural.
  \<^item> \<open>layout\<close> is the table from opcodes to what follows the header: the
    widths of the words of the argument struct (padding included) and the
    number of names; what remains after them is the payload.
  \<^item> \<open>build_operation\<close> makes the operation from the words, names and payload
    read; \<open>decode_operation\<close> is the decoder.
  \<^item> \<open>opcode_of\<close>, \<open>words_of\<close>, \<open>names_of\<close>, \<open>payload_of\<close> take an operation
    apart again, \<open>operation_bytes\<close> encodes it and \<open>request_bytes\<close> puts the
    header in front: the kernel's side of the protocol, used to state that
    decoding loses nothing.
\<close>

section \<open>Reading words\<close>

fun fetch_words :: "nat list \<Rightarrow> bytes \<Rightarrow> (nat list \<times> bytes) option" where
  "fetch_words [] data = Some ([], data)"
| "fetch_words (w # ws) data =
     (if length data < w then None
      else case fetch_words ws (drop w data) of
             None \<Rightarrow> None
           | Some (vs, rest) \<Rightarrow> Some (le_decode (take w data) # vs, rest))"

fun put_words :: "nat list \<Rightarrow> nat list \<Rightarrow> bytes" where
  "put_words (w # ws) (v # vs) = le_encode w v @ put_words ws vs"
| "put_words ws vs = []"

lemma length_put_words:
  "length vs = length ws \<Longrightarrow> length (put_words ws vs) = sum_list ws"
  by (induction ws vs rule: put_words.induct) simp_all

lemma fetch_words_put:
  "list_all2 (\<lambda>w v. v < 256 ^ w) ws vs \<Longrightarrow> fetch_words ws (put_words ws vs @ rest) = Some (vs, rest)"
proof (induction ws vs rule: put_words.induct)
  case (1 w ws v vs)
  then show ?case by (simp add: le_decode_encode)
qed (simp_all add: list_all2_Cons1 list_all2_Cons2)

lemma fetch_words_Some:
  "fetch_words ws data = Some (vs, rest) \<Longrightarrow>
     length vs = length ws \<and> sum_list ws \<le> length data \<and> rest = drop (sum_list ws) data \<and>
     list_all2 (\<lambda>w v. v < 256 ^ w) ws vs"
proof (induction ws arbitrary: data vs)
  case (Cons w ws)
  then obtain vs' where f: "fetch_words ws (drop w data) = Some (vs', rest)"
    and vs: "vs = le_decode (take w data) # vs'" and w: "w \<le> length data"
    by (auto split: if_splits option.splits)
  have "le_decode (take w data) < 256 ^ w"
    using le_decode_less [of "take w data"] w by simp
  with Cons.IH [OF f] vs w show ?case
    by (auto simp: add.commute)
qed simp

lemma fetch_words_None_iff: "fetch_words ws data = None \<longleftrightarrow> length data < sum_list ws"
proof (induction ws arbitrary: data)
  case (Cons w ws)
  show ?case
    using Cons [of "drop w data"] by (auto split: option.splits)
qed simp

section \<open>Reading names\<close>

text \<open>
  The scan walks an index from the front of the bytes to the first zero byte
  and fails at the end of the bytes.
\<close>

function scan_terminator :: "bytes \<Rightarrow> nat \<Rightarrow> nat option" where
  "scan_terminator data i =
     (if length data \<le> i then None
      else if data ! i = 0 then Some i
      else scan_terminator data (Suc i))"
  by pat_completeness auto

termination scan_terminator
  by (relation "measure (\<lambda>(data, i). length data - i)") auto

declare scan_terminator.simps [simp del]

definition fetch_str :: "bytes \<Rightarrow> (bytes \<times> bytes) option" where
  "fetch_str data =
     (case scan_terminator data 0 of
        None \<Rightarrow> None
      | Some i \<Rightarrow> Some (take i data, drop (Suc i) data))"

fun fetch_names :: "nat \<Rightarrow> bytes \<Rightarrow> (bytes list \<times> bytes) option" where
  "fetch_names 0 data = Some ([], data)"
| "fetch_names (Suc k) data =
     (case fetch_str data of
        None \<Rightarrow> None
      | Some (name, rest) \<Rightarrow>
          (case fetch_names k rest of
             None \<Rightarrow> None
           | Some (names, rest') \<Rightarrow> Some (name # names, rest')))"

definition put_names :: "bytes list \<Rightarrow> bytes" where
  "put_names names = concat (map (\<lambda>name. name @ [0]) names)"

text \<open>The scan against the reference: the length of the longest zero-free prefix.\<close>

lemma scan_terminator_from:
  "i \<le> length data \<Longrightarrow>
     scan_terminator data i =
       (if 0 \<in> set (drop i data) then Some (i + length (takeWhile (\<lambda>b. b \<noteq> 0) (drop i data)))
        else None)"
proof (induction data i rule: scan_terminator.induct)
  case (1 data i)
  show ?case
  proof (cases "length data \<le> i")
    case True
    then show ?thesis by (simp add: scan_terminator.simps [of data i])
  next
    case False
    then have d: "drop i data = data ! i # drop (Suc i) data"
      by (simp add: Cons_nth_drop_Suc)
    from False 1 show ?thesis
      by (simp add: scan_terminator.simps [of data i] d)
  qed
qed

lemma scan_terminator_eq:
  "scan_terminator data 0 =
     (if 0 \<in> set data then Some (length (takeWhile (\<lambda>b. b \<noteq> 0) data)) else None)"
  using scan_terminator_from [of 0 data] by simp

lemma fetch_str_eq:
  "fetch_str data =
     (if 0 \<in> set data
      then Some (takeWhile (\<lambda>b. b \<noteq> 0) data, tl (dropWhile (\<lambda>b. b \<noteq> 0) data))
      else None)"
proof -
  let ?n = "length (takeWhile (\<lambda>b. b \<noteq> 0) data)"
  have "take ?n data = takeWhile (\<lambda>b. b \<noteq> 0) data"
    by (rule takeWhile_eq_take [symmetric])
  moreover have "drop (Suc ?n) data = tl (dropWhile (\<lambda>b. b \<noteq> 0) data)"
    by (simp only: dropWhile_eq_drop drop_Suc tl_drop)
  ultimately show ?thesis
    by (simp only: fetch_str_def scan_terminator_eq) simp
qed

lemma fetch_str_put [simp]:
  "0 \<notin> set name \<Longrightarrow> fetch_str (name @ 0 # rest) = Some (name, rest)"
proof -
  assume "0 \<notin> set name"
  then have n: "\<And>b. b \<in> set name \<Longrightarrow> b \<noteq> 0" by auto
  have "takeWhile (\<lambda>b. b \<noteq> 0) (name @ 0 # rest) = name"
    using takeWhile_append2 [of name "\<lambda>b. b \<noteq> 0" "0 # rest", OF n] by simp
  moreover have "dropWhile (\<lambda>b. b \<noteq> 0) (name @ 0 # rest) = 0 # rest"
    using dropWhile_append2 [of name "\<lambda>b. b \<noteq> 0" "0 # rest", OF n] by simp
  ultimately show ?thesis
    by (simp add: fetch_str_eq)
qed

lemma fetch_str_Some:
  "fetch_str data = Some (name, rest) \<Longrightarrow> data = name @ 0 # rest \<and> 0 \<notin> set name"
proof -
  assume a: "fetch_str data = Some (name, rest)"
  then have z: "0 \<in> set data"
    and n: "name = takeWhile (\<lambda>b. b \<noteq> 0) data"
    and r: "rest = tl (dropWhile (\<lambda>b. b \<noteq> 0) data)"
    by (auto simp: fetch_str_eq split: if_splits)
  from z have "dropWhile (\<lambda>b. b \<noteq> 0) data \<noteq> []"
    by (simp add: dropWhile_eq_Nil_conv)
  moreover have "hd (dropWhile (\<lambda>b. b \<noteq> 0) data) = 0"
    using calculation hd_dropWhile [of "\<lambda>b. b \<noteq> 0" data] by simp
  ultimately have "dropWhile (\<lambda>b. b \<noteq> 0) data = 0 # rest"
    using r by (cases "dropWhile (\<lambda>b. b \<noteq> 0) data") simp_all
  then have "data = name @ 0 # rest"
    using takeWhile_dropWhile_id [of "\<lambda>b. b \<noteq> 0" data] n by simp
  moreover have "0 \<notin> set name"
    using n by (auto dest: set_takeWhileD)
  ultimately show ?thesis by simp
qed

lemma fetch_names_put:
  "\<forall>name \<in> set names. 0 \<notin> set name \<Longrightarrow>
     fetch_names (length names) (put_names names @ rest) = Some (names, rest)"
  by (induction names) (simp_all add: put_names_def)

lemma fetch_names_Some:
  "fetch_names k data = Some (names, rest) \<Longrightarrow>
     length names = k \<and> data = put_names names @ rest \<and> (\<forall>name \<in> set names. 0 \<notin> set name)"
proof (induction k arbitrary: data names)
  case (Suc k)
  then obtain name r names' where s: "fetch_str data = Some (name, r)"
    and f: "fetch_names k r = Some (names', rest)" and n: "names = name # names'"
    by (auto split: option.splits)
  from fetch_str_Some [OF s] Suc.IH [OF f] n show ?case
    by (simp add: put_names_def)
qed (simp add: put_names_def)

lemma fetch_names_None_iff: "fetch_names k data = None \<longleftrightarrow> count_list data 0 < k"
proof (induction k arbitrary: data)
  case (Suc k)
  show ?case
  proof (cases "fetch_str data")
    case None
    then have "0 \<notin> set data"
      by (simp add: fetch_str_eq split: if_splits)
    then have "count_list data 0 = 0"
      by (simp add: count_list_0_iff)
    with None show ?thesis by simp
  next
    case (Some p)
    obtain name rest where p: "p = (name, rest)" by (cases p)
    from fetch_str_Some [OF Some [unfolded p]] have "count_list data 0 = Suc (count_list rest 0)"
      by (simp add: count_list_0_iff)
    with Some p Suc [of rest] show ?thesis
      by (auto split: option.splits)
  qed
qed simp

section \<open>The table of opcodes\<close>

text \<open>
  For each opcode, the widths in bytes of the words of its argument struct
  and the number of names that follow the struct.  The set-attributes struct
  and the extended-attribute structs are longer in a macOS build, and three
  opcodes exist in a macOS build only.
\<close>

definition setattr_widths :: "platform \<Rightarrow> nat list" where
  "setattr_widths pf =
     [4, 4, 8, 8, 8, 8, 8, 8, 4, 4, 4, 4, 4, 4, 4, 4] @
     (if target_os_macos pf then [8, 8, 8, 4, 4, 4, 4] else [])"

definition xattr_widths :: "platform \<Rightarrow> nat list" where
  "xattr_widths pf = [4, 4] @ (if target_os_macos pf then [4, 4] else [])"

definition opcode_table :: "platform \<Rightarrow> (nat \<times> nat list \<times> nat) list" where
  "opcode_table pf =
     [(1, [], 1), (2, [8], 0), (3, [], 0), (4, setattr_widths pf, 0), (5, [], 0),
      (6, [], 2), (8, [4, 4], 1), (9, [4, 4], 1), (10, [], 1), (11, [], 1),
      (12, [8], 2), (13, [8], 1), (14, [4, 4], 0), (15, [8, 8, 4, 4], 0),
      (16, [8, 8, 4, 4], 0), (17, [], 0), (18, [8, 4, 4, 8], 0), (20, [8, 4, 4], 0),
      (21, xattr_widths pf, 1), (22, xattr_widths pf, 1), (23, xattr_widths pf, 0),
      (24, [], 1), (25, [8, 4, 4, 8], 0), (26, [4, 4, 4, 4], 0), (27, [4, 4], 0),
      (28, [8, 8, 4, 4], 0), (29, [8, 4, 4, 8], 0), (30, [8, 4, 4], 0),
      (31, [8, 8, 8, 8, 4, 4], 0), (32, [8, 8, 8, 8, 4, 4], 0), (33, [8, 8, 8, 8, 4, 4], 0),
      (34, [4, 4], 0), (35, [4, 4], 1), (36, [8], 0), (37, [8, 4, 4], 0), (38, [], 0)] @
     (if target_os_macos pf then [(61, [], 1), (62, [], 0), (63, [8, 8, 8], 2)] else [])"

definition layout :: "platform \<Rightarrow> nat \<Rightarrow> (nat list \<times> nat) option" where
  "layout pf = map_of (opcode_table pf)"

section \<open>From words, names and payload to the operation\<close>

definition word_at :: "nat list \<Rightarrow> nat \<Rightarrow> 'a::len word" where
  "word_at vs i = (if i < length vs then of_nat (vs ! i) else 0)"

definition name_at :: "bytes list \<Rightarrow> nat \<Rightarrow> os_str" where
  "name_at ns i = (if i < length ns then ns ! i else [])"

definition read_in_of :: "nat list \<Rightarrow> fuse_read_in" where
  "read_in_of vs = \<lparr>read_fh = word_at vs 0, read_offset = word_at vs 1, read_size = word_at vs 2\<rparr>"

definition release_in_of :: "nat list \<Rightarrow> fuse_release_in" where
  "release_in_of vs =
     \<lparr>release_fh = word_at vs 0, release_flags = word_at vs 1,
      release_release_flags = word_at vs 2, release_lock_owner = word_at vs 3\<rparr>"

definition lk_in_of :: "nat list \<Rightarrow> fuse_lk_in" where
  "lk_in_of vs =
     \<lparr>lk_fh = word_at vs 0, lk_owner = word_at vs 1,
      lk_lk = \<lparr>lock_start = word_at vs 2, lock_end = word_at vs 3, lock_typ = word_at vs 4,
               lock_pid = word_at vs 5\<rparr>\<rparr>"

definition setattr_in_of :: "nat list \<Rightarrow> fuse_setattr_in" where
  "setattr_in_of vs =
     \<lparr>setattr_valid = word_at vs 0, setattr_fh = word_at vs 2, setattr_size = word_at vs 3,
      setattr_atime = word_at vs 5, setattr_mtime = word_at vs 6,
      setattr_atimensec = word_at vs 8, setattr_mtimensec = word_at vs 9,
      setattr_mode = word_at vs 11, setattr_uid = word_at vs 13, setattr_gid = word_at vs 14,
      setattr_bkuptime = word_at vs 16, setattr_chgtime = word_at vs 17,
      setattr_crtime = word_at vs 18, setattr_bkuptimensec = word_at vs 19,
      setattr_chgtimensec = word_at vs 20, setattr_crtimensec = word_at vs 21,
      setattr_flags = word_at vs 22\<rparr>"

definition build_operation :: "nat \<Rightarrow> nat list \<Rightarrow> bytes list \<Rightarrow> bytes \<Rightarrow> operation option" where
  "build_operation opc vs ns rest =
     (if opc = 1 then Some (Lookup (name_at ns 0))
      else if opc = 2 then Some (Forget \<lparr>forget_nlookup = word_at vs 0\<rparr>)
      else if opc = 3 then Some GetAttr
      else if opc = 4 then Some (SetAttr (setattr_in_of vs))
      else if opc = 5 then Some ReadLink
      else if opc = 6 then Some (SymLink (name_at ns 0) (name_at ns 1))
      else if opc = 8 then
        Some (MkNod \<lparr>mknod_mode = word_at vs 0, mknod_rdev = word_at vs 1\<rparr> (name_at ns 0))
      else if opc = 9 then Some (MkDir \<lparr>mkdir_mode = word_at vs 0\<rparr> (name_at ns 0))
      else if opc = 10 then Some (Unlink (name_at ns 0))
      else if opc = 11 then Some (RmDir (name_at ns 0))
      else if opc = 12 then
        Some (Rename \<lparr>rename_newdir = word_at vs 0\<rparr> (name_at ns 0) (name_at ns 1))
      else if opc = 13 then Some (Link \<lparr>link_oldnodeid = word_at vs 0\<rparr> (name_at ns 0))
      else if opc = 14 then Some (Open \<lparr>open_flags = word_at vs 0\<rparr>)
      else if opc = 15 then Some (Read (read_in_of vs))
      else if opc = 16 then
        Some (Write \<lparr>write_fh = word_at vs 0, write_offset = word_at vs 1,
                      write_size = word_at vs 2, write_write_flags = word_at vs 3\<rparr> rest)
      else if opc = 17 then Some StatFs
      else if opc = 18 then Some (Release (release_in_of vs))
      else if opc = 20 then
        Some (FSync \<lparr>fsync_fh = word_at vs 0, fsync_fsync_flags = word_at vs 1\<rparr>)
      else if opc = 21 then
        Some (SetXAttr \<lparr>setxattr_size = word_at vs 0, setxattr_flags = word_at vs 1,
                         setxattr_position = word_at vs 2\<rparr> (name_at ns 0) rest)
      else if opc = 22 then Some (GetXAttr \<lparr>getxattr_size = word_at vs 0\<rparr> (name_at ns 0))
      else if opc = 23 then Some (ListXAttr \<lparr>getxattr_size = word_at vs 0\<rparr>)
      else if opc = 24 then Some (RemoveXAttr (name_at ns 0))
      else if opc = 25 then
        Some (Flush \<lparr>flush_fh = word_at vs 0, flush_lock_owner = word_at vs 3\<rparr>)
      else if opc = 26 then
        Some (Init \<lparr>init_major = word_at vs 0, init_minor = word_at vs 1,
                     init_max_readahead = word_at vs 2, init_flags = word_at vs 3\<rparr>)
      else if opc = 27 then Some (OpenDir \<lparr>open_flags = word_at vs 0\<rparr>)
      else if opc = 28 then Some (ReadDir (read_in_of vs))
      else if opc = 29 then Some (ReleaseDir (release_in_of vs))
      else if opc = 30 then
        Some (FSyncDir \<lparr>fsync_fh = word_at vs 0, fsync_fsync_flags = word_at vs 1\<rparr>)
      else if opc = 31 then Some (GetLk (lk_in_of vs))
      else if opc = 32 then Some (SetLk (lk_in_of vs))
      else if opc = 33 then Some (SetLkW (lk_in_of vs))
      else if opc = 34 then Some (Access \<lparr>access_mask = word_at vs 0\<rparr>)
      else if opc = 35 then
        Some (Create \<lparr>create_flags = word_at vs 0, create_mode = word_at vs 1\<rparr> (name_at ns 0))
      else if opc = 36 then Some (Interrupt \<lparr>interrupt_unique = word_at vs 0\<rparr>)
      else if opc = 37 then
        Some (BMap \<lparr>bmap_block = word_at vs 0, bmap_blocksize = word_at vs 1\<rparr>)
      else if opc = 38 then Some Destroy
      else if opc = 61 then Some (SetVolName (name_at ns 0))
      else if opc = 62 then Some GetXTimes
      else if opc = 63 then
        Some (Exchange \<lparr>exchange_olddir = word_at vs 0, exchange_newdir = word_at vs 1,
                         exchange_options = word_at vs 2\<rparr> (name_at ns 0) (name_at ns 1))
      else None)"

definition decode_operation :: "platform \<Rightarrow> fuse_in_header \<Rightarrow> bytes \<Rightarrow> operation option" where
  "decode_operation pf h data =
     (case layout pf (unat (hdr_opcode h)) of
        None \<Rightarrow> None
      | Some (ws, k) \<Rightarrow>
          (case fetch_words ws data of
             None \<Rightarrow> None
           | Some (vs, after_struct) \<Rightarrow>
               (case fetch_names k after_struct of
                  None \<Rightarrow> None
                | Some (ns, rest) \<Rightarrow> build_operation (unat (hdr_opcode h)) vs ns rest)))"

section \<open>The kernel's side: from the operation to bytes\<close>

fun opcode_of :: "operation \<Rightarrow> nat" where
  "opcode_of (Lookup name) = 1"
| "opcode_of (Forget arg) = 2"
| "opcode_of GetAttr = 3"
| "opcode_of (SetAttr arg) = 4"
| "opcode_of ReadLink = 5"
| "opcode_of (SymLink name link) = 6"
| "opcode_of (MkNod arg name) = 8"
| "opcode_of (MkDir arg name) = 9"
| "opcode_of (Unlink name) = 10"
| "opcode_of (RmDir name) = 11"
| "opcode_of (Rename arg name newname) = 12"
| "opcode_of (Link arg name) = 13"
| "opcode_of (Open arg) = 14"
| "opcode_of (Read arg) = 15"
| "opcode_of (Write arg data) = 16"
| "opcode_of StatFs = 17"
| "opcode_of (Release arg) = 18"
| "opcode_of (FSync arg) = 20"
| "opcode_of (SetXAttr arg name val) = 21"
| "opcode_of (GetXAttr arg name) = 22"
| "opcode_of (ListXAttr arg) = 23"
| "opcode_of (RemoveXAttr name) = 24"
| "opcode_of (Flush arg) = 25"
| "opcode_of (Init arg) = 26"
| "opcode_of (OpenDir arg) = 27"
| "opcode_of (ReadDir arg) = 28"
| "opcode_of (ReleaseDir arg) = 29"
| "opcode_of (FSyncDir arg) = 30"
| "opcode_of (GetLk arg) = 31"
| "opcode_of (SetLk arg) = 32"
| "opcode_of (SetLkW arg) = 33"
| "opcode_of (Access arg) = 34"
| "opcode_of (Create arg name) = 35"
| "opcode_of (Interrupt arg) = 36"
| "opcode_of (BMap arg) = 37"
| "opcode_of Destroy = 38"
| "opcode_of (SetVolName name) = 61"
| "opcode_of GetXTimes = 62"
| "opcode_of (Exchange arg oldname newname) = 63"

definition read_in_words :: "fuse_read_in \<Rightarrow> nat list" where
  "read_in_words arg = [unat (read_fh arg), unat (read_offset arg), unat (read_size arg), 0]"

definition release_in_words :: "fuse_release_in \<Rightarrow> nat list" where
  "release_in_words arg =
     [unat (release_fh arg), unat (release_flags arg), unat (release_release_flags arg),
      unat (release_lock_owner arg)]"

definition lk_in_words :: "fuse_lk_in \<Rightarrow> nat list" where
  "lk_in_words arg =
     [unat (lk_fh arg), unat (lk_owner arg), unat (lock_start (lk_lk arg)),
      unat (lock_end (lk_lk arg)), unat (lock_typ (lk_lk arg)), unat (lock_pid (lk_lk arg))]"

definition setattr_in_words :: "platform \<Rightarrow> fuse_setattr_in \<Rightarrow> nat list" where
  "setattr_in_words pf arg =
     [unat (setattr_valid arg), 0, unat (setattr_fh arg), unat (setattr_size arg), 0,
      unat (setattr_atime arg), unat (setattr_mtime arg), 0, unat (setattr_atimensec arg),
      unat (setattr_mtimensec arg), 0, unat (setattr_mode arg), 0, unat (setattr_uid arg),
      unat (setattr_gid arg), 0] @
     (if target_os_macos pf
      then [unat (setattr_bkuptime arg), unat (setattr_chgtime arg), unat (setattr_crtime arg),
            unat (setattr_bkuptimensec arg), unat (setattr_chgtimensec arg),
            unat (setattr_crtimensec arg), unat (setattr_flags arg)]
      else [])"

fun words_of :: "platform \<Rightarrow> operation \<Rightarrow> nat list" where
  "words_of pf (Init arg) =
     [unat (init_major arg), unat (init_minor arg), unat (init_max_readahead arg),
      unat (init_flags arg)]"
| "words_of pf (Interrupt arg) = [unat (interrupt_unique arg)]"
| "words_of pf (Forget arg) = [unat (forget_nlookup arg)]"
| "words_of pf (SetAttr arg) = setattr_in_words pf arg"
| "words_of pf (MkNod arg name) = [unat (mknod_mode arg), unat (mknod_rdev arg)]"
| "words_of pf (MkDir arg name) = [unat (mkdir_mode arg), 0]"
| "words_of pf (Rename arg name newname) = [unat (rename_newdir arg)]"
| "words_of pf (Link arg name) = [unat (link_oldnodeid arg)]"
| "words_of pf (Open arg) = [unat (open_flags arg), 0]"
| "words_of pf (Read arg) = read_in_words arg"
| "words_of pf (Write arg data) =
     [unat (write_fh arg), unat (write_offset arg), unat (write_size arg),
      unat (write_write_flags arg)]"
| "words_of pf (Flush arg) = [unat (flush_fh arg), 0, 0, unat (flush_lock_owner arg)]"
| "words_of pf (Release arg) = release_in_words arg"
| "words_of pf (FSync arg) = [unat (fsync_fh arg), unat (fsync_fsync_flags arg), 0]"
| "words_of pf (OpenDir arg) = [unat (open_flags arg), 0]"
| "words_of pf (ReadDir arg) = read_in_words arg"
| "words_of pf (ReleaseDir arg) = release_in_words arg"
| "words_of pf (FSyncDir arg) = [unat (fsync_fh arg), unat (fsync_fsync_flags arg), 0]"
| "words_of pf (SetXAttr arg name val) =
     [unat (setxattr_size arg), unat (setxattr_flags arg)] @
     (if target_os_macos pf then [unat (setxattr_position arg), 0] else [])"
| "words_of pf (GetXAttr arg name) =
     [unat (getxattr_size arg), 0] @ (if target_os_macos pf then [0, 0] else [])"
| "words_of pf (ListXAttr arg) =
     [unat (getxattr_size arg), 0] @ (if target_os_macos pf then [0, 0] else [])"
| "words_of pf (Access arg) = [unat (access_mask arg), 0]"
| "words_of pf (Create arg name) = [unat (create_flags arg), unat (create_mode arg)]"
| "words_of pf (GetLk arg) = lk_in_words arg"
| "words_of pf (SetLk arg) = lk_in_words arg"
| "words_of pf (SetLkW arg) = lk_in_words arg"
| "words_of pf (BMap arg) = [unat (bmap_block arg), unat (bmap_blocksize arg), 0]"
| "words_of pf (Exchange arg oldname newname) =
     [unat (exchange_olddir arg), unat (exchange_newdir arg), unat (exchange_options arg)]"
| "words_of pf other = []"

fun names_of :: "operation \<Rightarrow> os_str list" where
  "names_of (Lookup name) = [name]"
| "names_of (MkNod arg name) = [name]"
| "names_of (MkDir arg name) = [name]"
| "names_of (Unlink name) = [name]"
| "names_of (RmDir name) = [name]"
| "names_of (SymLink name link) = [name, link]"
| "names_of (Rename arg name newname) = [name, newname]"
| "names_of (Link arg name) = [name]"
| "names_of (SetXAttr arg name val) = [name]"
| "names_of (GetXAttr arg name) = [name]"
| "names_of (RemoveXAttr name) = [name]"
| "names_of (Create arg name) = [name]"
| "names_of (SetVolName name) = [name]"
| "names_of (Exchange arg oldname newname) = [oldname, newname]"
| "names_of other = []"

fun payload_of :: "operation \<Rightarrow> bytes" where
  "payload_of (Write arg data) = data"
| "payload_of (SetXAttr arg name val) = val"
| "payload_of other = []"

text \<open>
  The fields of the model's records that only the macOS layouts carry are
  zero in an operation decoded by another build.
\<close>

fun portable :: "platform \<Rightarrow> operation \<Rightarrow> bool" where
  "portable pf (SetAttr arg) \<longleftrightarrow>
     target_os_macos pf \<or>
     setattr_bkuptime arg = 0 \<and> setattr_chgtime arg = 0 \<and> setattr_crtime arg = 0 \<and>
     setattr_bkuptimensec arg = 0 \<and> setattr_chgtimensec arg = 0 \<and>
     setattr_crtimensec arg = 0 \<and> setattr_flags arg = 0"
| "portable pf (SetXAttr arg name val) \<longleftrightarrow> target_os_macos pf \<or> setxattr_position arg = 0"
| "portable pf other \<longleftrightarrow> True"

definition operation_wf :: "platform \<Rightarrow> operation \<Rightarrow> bool" where
  "operation_wf pf x \<longleftrightarrow>
     op_compiled pf x \<and> portable pf x \<and> list_all (\<lambda>name. 0 \<notin> set name) (names_of x)"

definition operation_bytes :: "platform \<Rightarrow> operation \<Rightarrow> bytes" where
  "operation_bytes pf x =
     (case layout pf (opcode_of x) of
        None \<Rightarrow> []
      | Some (ws, k) \<Rightarrow> put_words ws (words_of pf x) @ put_names (names_of x) @ payload_of x)"

text \<open>
  A whole buffer as the kernel writes it, and what the kernel guarantees of
  it: the header announces the operation that follows and the length of the
  buffer.
\<close>

definition request_bytes :: "platform \<Rightarrow> fuse_in_header \<Rightarrow> operation \<Rightarrow> bytes" where
  "request_bytes pf h x = header_bytes h @ operation_bytes pf x"

definition well_framed :: "platform \<Rightarrow> fuse_in_header \<Rightarrow> operation \<Rightarrow> bool" where
  "well_framed pf h x \<longleftrightarrow>
     operation_wf pf x \<and> unat (hdr_opcode h) = opcode_of x \<and>
     unat (hdr_len h) = length (request_bytes pf h x)"

section \<open>Encoding and decoding fit together\<close>

lemma unat_less_width [simp]:
  "unat (w :: u32) < 4294967296" "unat (v :: u64) < 18446744073709551616"
  using unsigned_less [of w] unsigned_less [of v] by simp_all

lemma word_at_simps [simp]:
  "word_at [] i = 0"
  "word_at (v # vs) 0 = of_nat v"
  "word_at (v # vs) (Suc i) = word_at vs i"
  "word_at (v # vs) (numeral k) = word_at vs (pred_numeral k)"
  by (simp_all add: word_at_def)

lemma name_at_simps [simp]:
  "name_at [] i = []"
  "name_at (n # ns) 0 = n"
  "name_at (n # ns) (Suc i) = name_at ns i"
  "name_at (n # ns) (numeral k) = name_at ns (pred_numeral k)"
  by (simp_all add: name_at_def)

lemmas struct_of_defs = read_in_of_def release_in_of_def lk_in_of_def setattr_in_of_def
lemmas struct_words_defs =
  read_in_words_def release_in_words_def lk_in_words_def setattr_in_words_def
lemmas layout_defs = layout_def opcode_table_def setattr_widths_def xattr_widths_def

lemma layout_opcode_of:
  "op_compiled pf x \<Longrightarrow>
     \<exists>ws. layout pf (opcode_of x) = Some (ws, length (names_of x)) \<and>
          list_all2 (\<lambda>w v. v < 256 ^ w) ws (words_of pf x)"
  by (cases x) (simp_all add: layout_defs struct_words_defs)

lemma build_parts:
  "portable pf x \<Longrightarrow>
     build_operation (opcode_of x) (words_of pf x) (names_of x) (payload_of x) = Some x"
  by (cases x) (auto simp: build_operation_def struct_of_defs struct_words_defs)

lemma decode_encode:
  assumes "operation_wf pf x" and "unat (hdr_opcode h) = opcode_of x"
  shows "decode_operation pf h (operation_bytes pf x) = Some x"
proof -
  from assms(1) have c: "op_compiled pf x" and p: "portable pf x"
    and n: "\<forall>name \<in> set (names_of x). 0 \<notin> set name"
    by (simp_all add: operation_wf_def list_all_iff)
  from layout_opcode_of [OF c] obtain ws
    where l: "layout pf (opcode_of x) = Some (ws, length (names_of x))"
      and w: "list_all2 (\<lambda>w v. v < 256 ^ w) ws (words_of pf x)"
    by blast
  have "fetch_words ws (put_words ws (words_of pf x) @ put_names (names_of x) @ payload_of x) =
      Some (words_of pf x, put_names (names_of x) @ payload_of x)"
    using w by (rule fetch_words_put)
  moreover have "fetch_names (length (names_of x)) (put_names (names_of x) @ payload_of x) =
      Some (names_of x, payload_of x)"
    using n by (rule fetch_names_put)
  ultimately show ?thesis
    using l assms(2) by (simp add: decode_operation_def operation_bytes_def build_parts [OF p])
qed

text \<open>What the builder makes has the opcode it was asked for.\<close>

lemma name_at_mem: "i < length ns \<Longrightarrow> name_at ns i \<in> set ns"
  by (simp add: name_at_def)

lemma layout_Some_cases:
  assumes "layout pf opc = Some (ws, k)"
  shows "(opc, ws, k) \<in> set (opcode_table pf)"
  using assms unfolding layout_def by (rule map_of_SomeD)

lemma build_typed:
  assumes "layout pf opc = Some (ws, k)" and "length vs = length ws" and "length ns = k"
    and "build_operation opc vs ns rest = Some x"
  shows "opcode_of x = opc" and "op_compiled pf x" and "portable pf x"
    and "set (names_of x) \<subseteq> set ns"
proof -
  note t = layout_Some_cases [OF assms(1)]
  show "opcode_of x = opc"
    using assms(4) by (auto simp: build_operation_def split: if_splits)
  show "op_compiled pf x"
    using t assms(4)
    by (auto simp: opcode_table_def build_operation_def split: if_splits)
  show "set (names_of x) \<subseteq> set ns"
    using t assms(3,4)
    by (auto simp: opcode_table_def build_operation_def name_at_mem split: if_splits)
  show "portable pf x"
    using t assms(2,4)
    by (auto simp: opcode_table_def build_operation_def setattr_widths_def xattr_widths_def
        struct_of_defs length_Suc_conv split: if_splits)
qed

lemma decode_operation_Some:
  assumes "decode_operation pf h data = Some x"
  shows "opcode_of x = unat (hdr_opcode h)" and "operation_wf pf x"
proof -
  from assms obtain ws k vs r ns rest
    where l: "layout pf (unat (hdr_opcode h)) = Some (ws, k)"
      and w: "fetch_words ws data = Some (vs, r)"
      and n: "fetch_names k r = Some (ns, rest)"
      and b: "build_operation (unat (hdr_opcode h)) vs ns rest = Some x"
    by (auto simp: decode_operation_def split: option.splits)
  from fetch_words_Some [OF w] have lv: "length vs = length ws" by simp
  from fetch_names_Some [OF n] have ln: "length ns = k"
    and z: "\<forall>name \<in> set ns. 0 \<notin> set name"
    by simp_all
  note ty = build_typed [OF l lv ln b]
  show "opcode_of x = unat (hdr_opcode h)" by (rule ty(1))
  from ty(4) z have "\<forall>name \<in> set (names_of x). 0 \<notin> set name" by blast
  with ty(2,3) show "operation_wf pf x"
    by (simp add: operation_wf_def list_all_iff)
qed

lemma decode_operation_None_iff:
  "decode_operation pf h data = None \<longleftrightarrow>
     (case layout pf (unat (hdr_opcode h)) of
        None \<Rightarrow> True
      | Some (ws, k) \<Rightarrow>
          length data < sum_list ws \<or> count_list (drop (sum_list ws) data) 0 < k)"
proof (cases "layout pf (unat (hdr_opcode h))")
  case None
  then show ?thesis by (simp add: decode_operation_def)
next
  case (Some l)
  obtain ws k where l: "l = (ws, k)" by (cases l)
  have b: "build_operation (unat (hdr_opcode h)) vs ns rest \<noteq> None" for vs ns rest
    using layout_Some_cases [OF Some [unfolded l]]
    by (auto simp: opcode_table_def build_operation_def split: if_splits)
  show ?thesis
  proof (cases "fetch_words ws data")
    case None
    with Some l show ?thesis
      by (simp add: decode_operation_def fetch_words_None_iff [symmetric])
  next
    case (Some p)
    obtain vs r where p: "p = (vs, r)" by (cases p)
    from fetch_words_Some [OF Some [unfolded p]]
    have r: "r = drop (sum_list ws) data" and le: "\<not> length data < sum_list ws" by simp_all
    from \<open>layout pf (unat (hdr_opcode h)) = Some l\<close> l Some p r le b show ?thesis
      by (auto simp: decode_operation_def fetch_names_None_iff [symmetric] split: option.splits)
  qed
qed

section \<open>Worked buffers\<close>

text \<open>
  A lookup of the name \<^verbatim>\<open>etc\<close> in the root directory, and a buffer that
  announces a lookup and carries a name without its terminator.
\<close>

definition example_lookup_header :: fuse_in_header where
  "example_lookup_header = \<lparr>hdr_len = 44, hdr_opcode = 1, hdr_unique = 42, hdr_nodeid = 1,
     hdr_uid = 1000, hdr_gid = 1000, hdr_pid = 77, hdr_padding = 0\<rparr>"

definition example_name :: os_str where
  "example_name = [101, 116, 99]"

definition example_truncated :: bytes where
  "example_truncated = header_bytes (example_lookup_header\<lparr>hdr_len := 43\<rparr>) @ example_name"

lemma example_lookup_simps [simp]:
  "unat (hdr_len example_lookup_header) = 44" "unat (hdr_opcode example_lookup_header) = 1"
  "length example_name = 3" "0 \<notin> set example_name"
  "operation_bytes pf (Lookup example_name) = example_name @ [0]"
  "operation_wf pf (Lookup example_name)"
  by (simp_all add: example_lookup_header_def example_name_def operation_bytes_def layout_defs
      operation_wf_def put_names_def)

lemma example_truncated_simps [simp]:
  "length example_truncated = 43" "get_u32 example_truncated = 43"
  "get_u32 (drop 4 example_truncated) = 1" "drop 40 example_truncated = example_name"
  by (simp_all add: example_truncated_def)
    (simp_all add: header_bytes_def example_lookup_header_def)

lemma layout_lookup [simp]: "layout pf (Suc 0) = Some ([], 1)"
  by (simp add: layout_defs)

lemma Request_new_lookup:
  "Request_new (try_from (decode_operation pf)) ch
       (header_bytes example_lookup_header @ example_name @ [0]) =
     Some \<lparr>request_ch = ch,
            request_data = header_bytes example_lookup_header @ example_name @ [0],
            request_ll = \<lparr>ll_header = example_lookup_header,
                           ll_operation = Lookup example_name\<rparr>\<rparr>"
  using decode_encode [of pf "Lookup example_name" example_lookup_header]
  by (simp add: Request_new_bytes)

section \<open>Properties of the decoder\<close>

text \<open>
  C17.  Decoding loses nothing.  When the kernel encodes an operation of
  this build whose names contain no zero byte (the argument struct word by
  word in little-endian order with its padding, each name followed by a
  zero byte, then the payload) behind a header that carries the operation's
  opcode and the total length, the constructor of requests reads back that
  header and that operation, for each of the 39 kinds of operation.
\<close>

theorem request_new_decodes_encoded:
  assumes "operation_wf pf x" and "unat (hdr_opcode h) = opcode_of x"
    and "unat (hdr_len h) = 40 + length (operation_bytes pf x)"
  shows "Request_new (try_from (decode_operation pf)) ch (header_bytes h @ operation_bytes pf x) =
     Some \<lparr>request_ch = ch, request_data = header_bytes h @ operation_bytes pf x,
            request_ll = \<lparr>ll_header = h, ll_operation = x\<rparr>\<rparr>"
  using assms by (simp add: Request_new_bytes decode_encode)

theorem request_new_decodes_encoded_witness:
  "Request_new (try_from (decode_operation example_linux)) 3
       (header_bytes example_lookup_header @ example_name @ [0]) =
     Some \<lparr>request_ch = 3,
            request_data = header_bytes example_lookup_header @ example_name @ [0],
            request_ll = \<lparr>ll_header = example_lookup_header,
                           ll_operation = Lookup example_name\<rparr>\<rparr>"
  using request_new_decodes_encoded [of example_linux "Lookup example_name" example_lookup_header 3]
  by simp

text \<open>
  C20.  The operation of a constructed request is the kind its header
  announces and is an operation of this build: its opcode is the opcode of
  the header, a variant that exists only on macOS is decoded only in a macOS
  build, the fields that only macOS transmits are zero elsewhere, and no name
  contains a zero byte.
\<close>

theorem decoded_operation_typed:
  assumes "Request_new (try_from (decode_operation pf)) ch data = Some req"
  shows "opcode_of (ll_operation (request_ll req)) = unat (get_u32 (drop 4 data)) \<and>
     op_compiled pf (ll_operation (request_ll req)) \<and>
     portable pf (ll_operation (request_ll req)) \<and>
     list_all (\<lambda>name. 0 \<notin> set name) (names_of (ll_operation (request_ll req)))"
proof -
  from assms obtain r where r: "try_from (decode_operation pf) data = Inr r"
    and req: "request_ll req = r"
    by (auto simp: Request_new_Some_iff)
  from r have d: "decode_operation pf (parse_fields data) (drop 40 data) = Some (ll_operation r)"
    by (simp add: try_from_Inr_iff)
  from decode_operation_Some [OF d] req show ?thesis
    by (simp add: operation_wf_def parse_fields_def)
qed

theorem decoded_operation_typed_witness:
  "opcode_of (Lookup example_name) =
     unat (get_u32 (drop 4 (header_bytes example_lookup_header @ example_name @ [0]))) \<and>
   op_compiled example_linux (Lookup example_name)"
  using decoded_operation_typed [OF Request_new_lookup [of example_linux 3]]
  by simp

text \<open>
  C21.  A buffer is dropped exactly when its framing is wrong or what
  follows the header cannot be an operation: the buffer is shorter than a
  header, or its length field is not its length, or the opcode is not in the
  table of this build, or fewer bytes follow the header than the argument
  struct of the opcode has, or fewer zero bytes follow the struct than the
  opcode has names.  Nothing else makes the decoder fail; in particular a
  write whose payload disagrees with its size field is decoded.
\<close>

theorem request_new_drops:
  "Request_new (try_from (decode_operation pf)) ch data = None \<longleftrightarrow>
     length data < 40 \<or> unat (get_u32 data) \<noteq> length data \<or>
     (case layout pf (unat (get_u32 (drop 4 data))) of
        None \<Rightarrow> True
      | Some (ws, k) \<Rightarrow>
          length data < 40 + sum_list ws \<or> count_list (drop (40 + sum_list ws) data) 0 < k)"
proof (cases "40 \<le> length data")
  case True
  then have "decode_operation pf (parse_fields data) (drop 40 data) = None \<longleftrightarrow>
      (case layout pf (unat (get_u32 (drop 4 data))) of
        None \<Rightarrow> True
      | Some (ws, k) \<Rightarrow>
          length data < 40 + sum_list ws \<or> count_list (drop (40 + sum_list ws) data) 0 < k)"
    by (auto simp: decode_operation_None_iff parse_fields_def add.commute
        split: option.splits)
  with True show ?thesis
    by (auto simp: request_new_rejects)
next
  case False
  then show ?thesis
    by (auto simp: request_new_rejects)
qed

theorem request_new_drops_witness:
  "Request_new (try_from (decode_operation example_linux)) 3 example_truncated = None"
  using request_new_drops [of example_linux 3 example_truncated]
  by (simp add: count_list_0_iff)

end
