(* ===== verification/Fuse_Directory.thy ===== *)
theory Fuse_Directory
  imports Fuse_Dispatch Fuse_Wire
begin

text \<open>
  The directory reply: the reply object of the read-directory arm, which a
  filesystem fills entry by entry before it sends it.  The module
  \<^verbatim>\<open>reply.rs\<close> is not among the sources; the specification gives the
  contract (entries are appended one at a time, the listing is bounded by
  the byte budget the object was made with, one terminal send), and the
  layout of an entry is that of the kernel interface (\<^verbatim>\<open>fuse_dirent\<close>: node
  id, offset, length of the name and type, then the name, padded with zero
  bytes to a multiple of eight).

  \<^item> \<open>dirent_bytes\<close> is an entry on the wire; \<open>dirents_of\<close> is the kernel's side,
    which reads a listing back.  It walks through the bytes by the length
    each entry announces, so its recursion is not structural.
  \<^item> \<open>directory\<close> is the reply object while it is filled, \<open>dir_add\<close> appends
    an entry unless the budget would be exceeded and says whether the object
    was full, \<open>dir_ok\<close> sends what was collected.  \<open>dir_fill\<close> is what a
    filesystem does with a list of entries: it adds them in order and stops
    at the first that does not fit.
\<close>

section \<open>Entries\<close>

record dirent =
  dirent_ino :: u64
  dirent_off :: i64
  dirent_typ :: u32
  dirent_name :: os_str

definition DIRENT_SIZE :: nat where
  "DIRENT_SIZE = 24"

definition align8 :: "nat \<Rightarrow> nat" where
  "align8 n = (n + 7) div 8 * 8"

definition entry_size :: "dirent \<Rightarrow> nat" where
  "entry_size e = align8 (DIRENT_SIZE + length (dirent_name e))"

definition dirent_bytes :: "dirent \<Rightarrow> bytes" where
  "dirent_bytes e =
     u64_bytes (dirent_ino e) @ u64_bytes (dirent_off e) @
     u32_bytes (as_u32 (length (dirent_name e))) @ u32_bytes (dirent_typ e) @
     dirent_name e @
     replicate (entry_size e - (DIRENT_SIZE + length (dirent_name e))) 0"

section \<open>The reply object\<close>

record directory =
  dir_of :: reply_directory
  dir_data :: bytes

definition dir_begin :: "reply_directory \<Rightarrow> directory" where
  "dir_begin d = \<lparr>dir_of = d, dir_data = []\<rparr>"

definition dir_add :: "directory \<Rightarrow> dirent \<Rightarrow> bool \<times> directory" where
  "dir_add b e =
     (if dir_size (dir_of b) < length (dir_data b) + entry_size e then (True, b)
      else (False, b\<lparr>dir_data := dir_data b @ dirent_bytes e\<rparr>))"

definition dir_ok :: "directory \<Rightarrow> message" where
  "dir_ok b = reply_ok (dir_reply (dir_of b)) (Data (dir_data b))"

fun dir_fill :: "directory \<Rightarrow> dirent list \<Rightarrow> directory" where
  "dir_fill b [] = b"
| "dir_fill b (e # es) = (case dir_add b e of (True, b') \<Rightarrow> b' | (False, b') \<Rightarrow> dir_fill b' es)"

section \<open>The kernel's side: reading a listing\<close>

definition announced_size :: "bytes \<Rightarrow> nat" where
  "announced_size data = align8 (DIRENT_SIZE + unat (get_u32 (drop 16 data)))"

definition first_entry :: "bytes \<Rightarrow> dirent" where
  "first_entry data =
     \<lparr>dirent_ino = get_u64 data, dirent_off = get_u64 (drop 8 data),
      dirent_typ = get_u32 (drop 20 data),
      dirent_name = take (unat (get_u32 (drop 16 data))) (drop DIRENT_SIZE data)\<rparr>"

lemma le_align8: "n \<le> align8 n"
  unfolding align8_def by presburger

lemma align8_dvd [simp]: "8 dvd align8 n"
  by (simp add: align8_def)

lemma align8_less: "align8 n < n + 8"
  unfolding align8_def by presburger

lemma announced_size_pos: "0 < announced_size data"
  using le_align8 [of "DIRENT_SIZE + unat (get_u32 (drop 16 data))"]
  by (simp add: announced_size_def DIRENT_SIZE_def)

function dirents_of :: "bytes \<Rightarrow> dirent list" where
  "dirents_of data =
     (if length data < DIRENT_SIZE \<or> length data < announced_size data then []
      else first_entry data # dirents_of (drop (announced_size data) data))"
  by pat_completeness auto

termination
  by (relation "measure length") (auto simp: DIRENT_SIZE_def announced_size_pos intro!: diff_less)

declare dirents_of.simps [simp del]

section \<open>Entries on the wire\<close>

lemma length_dirent_bytes [simp]: "length (dirent_bytes e) = entry_size e"
  using le_align8 [of "DIRENT_SIZE + length (dirent_name e)"]
  by (simp add: dirent_bytes_def entry_size_def DIRENT_SIZE_def)

lemma entry_size_bounds:
  "DIRENT_SIZE + length (dirent_name e) \<le> entry_size e" "8 dvd entry_size e"
  "entry_size e < DIRENT_SIZE + length (dirent_name e) + 8"
  by (simp_all add: entry_size_def le_align8 align8_less)

lemma dirent_bytes_fields:
  assumes "length (dirent_name e) < 2 ^ 32"
  shows "announced_size (dirent_bytes e @ rest) = entry_size e"
    and "first_entry (dirent_bytes e @ rest) = e"
  using assms
  by (simp_all add: announced_size_def first_entry_def entry_size_def dirent_bytes_def
      DIRENT_SIZE_def unat_as_u32)

lemma dirents_of_Nil [simp]: "dirents_of [] = []"
  by (simp add: dirents_of.simps DIRENT_SIZE_def)

lemma dirents_of_bytes:
  assumes "length (dirent_name e) < 2 ^ 32"
  shows "dirents_of (dirent_bytes e @ rest) = e # dirents_of rest"
  using entry_size_bounds(1) [of e]
  by (subst dirents_of.simps) (simp add: dirent_bytes_fields [OF assms])

lemma dirents_of_concat:
  "\<forall>e \<in> set es. length (dirent_name e) < 2 ^ 32 \<Longrightarrow>
     dirents_of (concat (map dirent_bytes es)) = es"
  by (induction es) (simp_all add: dirents_of_bytes)

section \<open>Filling the reply object\<close>

lemma dir_add_cases [case_names full added]:
  assumes "dir_size (dir_of b) < length (dir_data b) + entry_size e \<Longrightarrow>
      dir_add b e = (True, b) \<Longrightarrow> P"
    and "length (dir_data b) + entry_size e \<le> dir_size (dir_of b) \<Longrightarrow>
      dir_add b e = (False, b\<lparr>dir_data := dir_data b @ dirent_bytes e\<rparr>) \<Longrightarrow> P"
  shows P
  using assms by (cases "dir_size (dir_of b) < length (dir_data b) + entry_size e")
    (simp_all add: dir_add_def)

lemma dir_add_budget:
  assumes "length (dir_data b) \<le> dir_size (dir_of b)"
  shows "length (dir_data (snd (dir_add b e))) \<le> dir_size (dir_of (snd (dir_add b e)))"
  using assms by (cases rule: dir_add_cases [of b e]) simp_all

text \<open>
  What \<open>dir_fill\<close> collects is a prefix of the entries, and the longest that
  fits: either all entries were added, or the next one would have exceeded
  the budget.
\<close>

lemma dir_fill_prefix:
  "\<exists>k \<le> length es.
     dir_fill b es = b\<lparr>dir_data := dir_data b @ concat (map dirent_bytes (take k es))\<rparr> \<and>
     (k < length es \<longrightarrow>
        dir_size (dir_of b) < length (dir_data b) + sum_list (map entry_size (take (Suc k) es)))"
proof (induction es arbitrary: b)
  case Nil
  then show ?case by simp
next
  case (Cons e es)
  show ?case
  proof (cases rule: dir_add_cases [of b e])
    case full
    then show ?thesis
      by (intro exI [of _ 0]) simp
  next
    case added
    from Cons [of "b\<lparr>dir_data := dir_data b @ dirent_bytes e\<rparr>"] obtain k
      where "k \<le> length es"
        and "dir_fill (b\<lparr>dir_data := dir_data b @ dirent_bytes e\<rparr>) es =
          b\<lparr>dir_data := dir_data b @ dirent_bytes e @ concat (map dirent_bytes (take k es))\<rparr>"
        and "k < length es \<longrightarrow> dir_size (dir_of b) <
          length (dir_data b) + entry_size e + sum_list (map entry_size (take (Suc k) es))"
      by auto
    with added show ?thesis
      by (intro exI [of _ "Suc k"]) (simp add: add.assoc)
  qed
qed

lemma dir_fill_budget:
  "length (dir_data b) \<le> dir_size (dir_of b) \<Longrightarrow>
     length (dir_data (dir_fill b es)) \<le> dir_size (dir_of (dir_fill b es))"
proof (induction es arbitrary: b)
  case (Cons e es)
  then show ?case
    by (cases rule: dir_add_cases [of b e]) simp_all
qed simp

lemma dir_fill_aligned:
  "8 dvd length (dir_data b) \<Longrightarrow> 8 dvd length (dir_data (dir_fill b es))"
proof (induction es arbitrary: b)
  case (Cons e es)
  then show ?case
    by (cases rule: dir_add_cases [of b e]) (simp_all add: entry_size_bounds)
qed simp

lemma dir_fill_listing:
  assumes "\<forall>e \<in> set es. length (dirent_name e) < 2 ^ 32"
  shows "\<exists>k \<le> length es.
     dirents_of (dir_data (dir_fill (dir_begin d) es)) = take k es \<and>
     (k < length es \<longrightarrow> dir_size d < sum_list (map entry_size (take (Suc k) es)))"
proof -
  from dir_fill_prefix [of es "dir_begin d"] obtain k where k: "k \<le> length es"
    and "dir_fill (dir_begin d) es =
      (dir_begin d)\<lparr>dir_data := dir_data (dir_begin d) @ concat (map dirent_bytes (take k es))\<rparr>"
    and "k < length es \<longrightarrow> dir_size (dir_of (dir_begin d)) <
      length (dir_data (dir_begin d)) + sum_list (map entry_size (take (Suc k) es))"
    by blast
  then have f: "dir_data (dir_fill (dir_begin d) es) = concat (map dirent_bytes (take k es))"
    and m: "k < length es \<longrightarrow> dir_size d < sum_list (map entry_size (take (Suc k) es))"
    by (simp_all add: dir_begin_def)
  from assms have "\<forall>e \<in> set (take k es). length (dirent_name e) < 2 ^ 32"
    by (auto dest: in_set_takeD)
  then have "dirents_of (concat (map dirent_bytes (take k es))) = take k es"
    by (rule dirents_of_concat)
  with k f m show ?thesis by auto
qed

lemma dir_fill_begin:
  "length (dir_data (dir_fill (dir_begin d) es)) \<le> dir_size d"
  "8 dvd length (dir_data (dir_fill (dir_begin d) es))"
  "dir_of (dir_fill (dir_begin d) es) = d"
  using dir_fill_budget [of "dir_begin d" es] dir_fill_aligned [of "dir_begin d" es]
    dir_fill_prefix [of es "dir_begin d"]
  by (auto simp: dir_begin_def)

section \<open>A filesystem that lists a directory\<close>

text \<open>
  \<open>lists\<close> says of a filesystem that it answers a read-directory call by
  filling the reply object of the call with the entries \<open>es\<close> and sending
  it.  \<open>listing_fs\<close> is such a filesystem, for the worked instances.
\<close>

definition lists :: "'fs filesystem_ops \<Rightarrow> request \<Rightarrow> 'fs \<Rightarrow> dirent list \<Rightarrow> bool" where
  "lists fs req st es \<longleftrightarrow>
     (\<forall>ino fh off d. fst (fs_handle fs req (fs_readdir ino fh off d) st) =
        Term_ok (dir_data (dir_fill (dir_begin d) es)))"

fun list_directory :: "dirent list \<Rightarrow> fs_call \<Rightarrow> terminal" where
  "list_directory es (fs_readdir ino fh off d) = Term_ok (dir_data (dir_fill (dir_begin d) es))"
| "list_directory es other = Term_error 38"

definition listing_fs :: "dirent list \<Rightarrow> nat filesystem_ops" where
  "listing_fs es = \<lparr>fs_init = (\<lambda>req n. (Inr (), Suc n)), fs_destroy = (\<lambda>req n. Suc n),
     fs_handle = (\<lambda>req call n. (list_directory es call, Suc n))\<rparr>"

lemma listsD:
  "lists fs req st es \<Longrightarrow>
     fst (fs_handle fs req (fs_readdir ino fh off d) st) =
       Term_ok (dir_data (dir_fill (dir_begin d) es))"
  by (simp add: lists_def)

lemma lists_listing_fs [simp]: "lists (listing_fs es) req st es"
  by (simp add: lists_def listing_fs_def)

definition example_entries :: "dirent list" where
  "example_entries =
     [\<lparr>dirent_ino = 2, dirent_off = 1, dirent_typ = 4, dirent_name = [97]\<rparr>,
      \<lparr>dirent_ino = 3, dirent_off = 2, dirent_typ = 8, dirent_name = [98, 98]\<rparr>,
      \<lparr>dirent_ino = 4, dirent_off = 3, dirent_typ = 8, dirent_name = [99]\<rparr>]"

definition example_readdir :: fuse_read_in where
  "example_readdir = \<lparr>read_fh = 9, read_offset = 0, read_size = 64\<rparr>"

lemma example_names_short: "\<forall>e \<in> set example_entries. length (dirent_name e) < 2 ^ 32"
  by (simp add: example_entries_def)

lemma example_entries_simps [simp]:
  "length example_entries = 3" "unat (read_size example_readdir) = 64"
  "request_reply (example_request x) = Reply_new 42 3"
  "ll_operation (request_ll (example_request x)) = x"
  by (simp_all add: example_entries_def example_readdir_def request_reply_def
      example_request_def accessor_defs)

section \<open>Properties of the directory reply\<close>

text \<open>
  C29.  The listing a read-directory request is answered with stays within
  the size the kernel asked for.  When a filesystem answers the call of the
  read-directory arm by filling the reply object of the call with a list of
  entries and sending it, the dispatch on a live session sends one message,
  a success on the request's reply object, whose payload is no longer than
  the size field of the request and a multiple of eight bytes; read back
  entry by entry it is a prefix of the entries, in order, and the longest
  that fits the size.
\<close>

theorem readdir_listing_within_budget:
  assumes "ll_operation (request_ll req) = ReadDir arg" and "live se"
    and "lists fs req (filesystem se) es"
    and "\<forall>e \<in> set es. length (dirent_name e) < 2 ^ 32"
  shows "\<exists>k \<le> length es. \<exists>bs se'.
     dispatch pf fs req se = Inr ([reply_ok (request_reply req) (Data bs)], se') \<and>
     length bs \<le> unat (read_size arg) \<and> 8 dvd length bs \<and> dirents_of bs = take k es \<and>
     (k < length es \<longrightarrow> unat (read_size arg) < sum_list (map entry_size (take (Suc k) es)))"
proof -
  define d where "d = ReplyDirectory_new (ll_unique (request_ll req)) (request_ch req)
    (as_usize (read_size arg))"
  define call where "call = call_readdir req arg"
  have c: "call = fs_readdir (ll_nodeid (request_ll req)) (read_fh arg)
      (as_i64 (read_offset arg)) d"
    and d: "dir_reply d = request_reply req" "dir_size d = unat (read_size arg)"
    by (simp_all add: call_def d_def call_readdir_def request_reply_def as_usize_def)
  let ?bs = "dir_data (dir_fill (dir_begin d) es)"
  obtain t fs1 where h: "fs_handle fs req call (filesystem se) = (t, fs1)"
    by (cases "fs_handle fs req call (filesystem se)")
  with listsD [OF assms(3), of "ll_nodeid (request_ll req)" "read_fh arg"
      "as_i64 (read_offset arg)" d]
  have t: "t = Term_ok ?bs"
    by (simp add: c)
  from assms(1,2) h have "dispatch pf fs req se =
      Inr ([reply_ok (request_reply req) (Data ?bs)], se\<lparr>filesystem := fs1\<rparr>)"
    by (simp add: dispatch_def call_def [symmetric] to_filesystem_call)
      (simp add: c answer_def d t)
  moreover from dir_fill_listing [OF assms(4), of d] obtain k where "k \<le> length es"
    "dirents_of ?bs = take k es"
    "k < length es \<longrightarrow> dir_size d < sum_list (map entry_size (take (Suc k) es))"
    by blast
  ultimately show ?thesis
    using dir_fill_begin(1,2) [of d es] d(2)
    by (intro exI [of _ k] conjI exI [of _ ?bs] exI [of _ "se\<lparr>filesystem := fs1\<rparr>"]) simp_all
qed

theorem readdir_listing_within_budget_witness:
  "\<exists>k \<le> 3. \<exists>bs se'.
     dispatch example_linux (listing_fs example_entries) (example_request (ReadDir example_readdir))
       example_live = Inr ([reply_ok (Reply_new 42 3) (Data bs)], se') \<and>
     length bs \<le> 64 \<and> 8 dvd length bs \<and> dirents_of bs = take k example_entries \<and>
     (k < 3 \<longrightarrow> 64 < sum_list (map entry_size (take (Suc k) example_entries)))"
  using readdir_listing_within_budget [of "example_request (ReadDir example_readdir)"
      example_readdir example_live "listing_fs example_entries" example_entries example_linux]
    example_names_short
  by simp

end
