(* ===== verification/Spec2Isabelle.thy ===== *)
theory Spec2Isabelle
  imports Fuse_Run Fuse_Schedule Fuse_Dispatch_Spec Fuse_Decode Fuse_Directory
    "HOL-Library.Sublist"
begin

text \<open>
  \<^bold>\<open>A verification library for the FUSE request dispatcher of datenlord.\<close>

  The program is \<^verbatim>\<open>src/fuse_ll/src/fuse/request.rs\<close>: the type \<^verbatim>\<open>Request\<close>, which
  wraps one message read from the kernel, and its method \<^verbatim>\<open>dispatch\<close>, which
  enforces the session's handshake state machine, derives the arguments of
  the filesystem operation from the wire struct, calls the filesystem and
  lets it answer on a reply object bound to the request's correlation id.
  The dispatcher reads three other parts of the crate that are not among the
  sources: the kernel ABI (constants and argument structs), the parsed
  request (\<^verbatim>\<open>ll_request\<close>), and the reply objects; and it updates the flags of
  the session.  Those parts are modelled from the specification, as far as
  the dispatcher uses them.

  \<^bold>\<open>Theories, in the order of import.\<close>

  \<^item> \<open>Fuse_Prelude\<close>: the machine integers (\<open>u32\<close>, \<open>u64\<close>, \<open>i64\<close> as words, so
    that arithmetic wraps and casts keep bits), the flag test \<open>flag_set\<close> of
    the source's \<^verbatim>\<open>match x & M { 0 => .., _ => .. }\<close>, the type \<open>panic\<close> and
    \<open>bind_result\<close> for computations that may panic, and the fact collections
    \<open>abi_defs\<close>, \<open>arm_defs\<close>, \<open>accessor_defs\<close>.
  \<^item> \<open>Fuse_Time\<close>: \<^verbatim>\<open>Duration::new\<close> and \<^verbatim>\<open>SystemTime::checked_add\<close> of the
    standard library on their Unix representation, with the overflow cases
    as \<open>None\<close>; lemmas give the exact value in nanoseconds and the conditions
    of overflow.
  \<^item> \<open>Fuse_Abi\<close>: the record \<open>platform\<close> of what depends on the build (target
    OS, minor version, buffer sizes, the clock), the constants, and one
    record per argument struct.
  \<^item> \<open>Fuse_LL_Request\<close>: the header, the datatype \<open>operation\<close> with one
    constructor per variant the dispatcher matches, and \<open>class_of\<close>.
  \<^item> \<open>Fuse_Reply\<close>: reply objects and the messages they put on the channel.
  \<^item> \<open>Fuse_Request\<close>: the struct \<^verbatim>\<open>Request\<close>, its constructor \<^verbatim>\<open>new\<close> over a
    decoder, and its accessors \<^verbatim>\<open>reply\<close>, \<^verbatim>\<open>unique\<close>, \<^verbatim>\<open>uid\<close>, \<^verbatim>\<open>gid\<close>, \<^verbatim>\<open>pid\<close>.
  \<^item> \<open>Fuse_Filesystem\<close>: the filesystem trait as the datatype \<open>fs_call\<close> of its
    methods with their arguments, and an implementation as a record
    \<open>filesystem_ops\<close> of functions on a state of any type \<open>'fs\<close>; every
    theorem about the dispatcher holds for every implementation.
  \<^item> \<open>Fuse_Session\<close>: the fields of the session the dispatcher touches, the
    invariant \<open>session_inv\<close>, the abstract state \<open>state_of\<close>, and the handshake
    state machine \<open>session_step\<close> as an inductive relation.
  \<^item> \<open>Fuse_Handshake\<close>: the \<^verbatim>\<open>Init\<close> arm (\<open>dispatch_init\<close>) with the version test
    and the negotiated values.
  \<^item> \<open>Fuse_Setattr\<close>: the \<^verbatim>\<open>SetAttr\<close> arm, one definition \<open>attr_X\<close> per optional
    field, \<open>epoch_plus\<close> for \<^verbatim>\<open>UNIX_EPOCH + Duration::new(..)\<close> with its two
    panics, and \<open>get_macos_setattr\<close>.
  \<^item> \<open>Fuse_Arms\<close>: the other arms that call the filesystem, \<open>call_X\<close> for the arm
    of operation \<open>X\<close>.
  \<^item> \<open>Fuse_Dispatch\<close>: the guards, the \<^verbatim>\<open>Destroy\<close> and \<^verbatim>\<open>Interrupt\<close> arms, and
    the \<^verbatim>\<open>match\<close> as \<open>dispatch_op\<close>, one equation per arm in source order;
    \<open>dispatch\<close> is \<^verbatim>\<open>Request::dispatch\<close>.
  \<^item> \<open>Fuse_Dispatch_Spec\<close>: the policy of the session as a table, \<open>decide\<close>
    over the state of the session and the operation, and \<open>dispatch_spec\<close>,
    which carries out what the table decides; the typing of replies,
    \<open>message_typed\<close>.
  \<^item> \<open>Fuse_Wire\<close>: little-endian integers, the forty bytes of the request
    header with \<open>parse_header\<close> and \<open>header_bytes\<close>, the decoder \<open>try_from\<close>
    over a parameter \<open>decode_op\<close> for the operation, and \<open>message_bytes\<close>,
    the bytes of a reply.
  \<^item> \<open>Fuse_Run\<close>: the session loop: \<open>run\<close>, the dispatch of a sequence of
    requests on one session, \<open>serve\<close>, the same from a sequence of buffers,
    and \<open>serve_loop\<close>, the loop kept as a loop over a state with
    \<open>while_option\<close>; \<open>steps\<close>, the state machine iterated; \<open>offers\<close>, the
    versions the handshakes of a run offered.
  \<^item> \<open>Fuse_Deferred\<close>: filesystems whose methods keep the reply object and
    answer after the dispatch has returned: \<open>invoke_d\<close> and \<open>dispatch_d\<close>,
    and the events of a session (\<open>fire\<close>, \<open>play\<close>): a request arrives, or a
    held reply object is completed.
  \<^item> \<open>Fuse_Schedule\<close>: the order of those events: schedules as shuffles of
    arrivals and completions, similarity of configurations, and the
    schedule that dispatches first and completes afterwards.
  \<^item> \<open>Fuse_Decode\<close>: the decoder of operations, \<open>decode_operation\<close>, which is
    the \<open>decode_op\<close> of the crate: the table \<open>layout\<close> from opcodes to
    argument structs and names, the three ways of reading (\<open>fetch_words\<close>,
    \<open>fetch_str\<close>, \<open>fetch_names\<close>), and \<open>build_operation\<close>; and the kernel's
    side, \<open>operation_bytes\<close> and \<open>request_bytes\<close>.
  \<^item> \<open>Fuse_Directory\<close>: the directory reply while a filesystem fills it,
    \<open>dir_add\<close> and \<open>dir_ok\<close> on a byte budget, an entry on the wire
    (\<open>dirent_bytes\<close>), and the kernel's reading of a listing (\<open>dirents_of\<close>).
  \<^item> This theory: the properties that span the components, of whole runs
    from the bytes the kernel writes to the bytes of the replies.

  \<^bold>\<open>Correspondence with the code.\<close>  A dispatch takes the build \<open>pf\<close>, the
  filesystem implementation \<open>fs\<close>, the request and the session, and returns
  either a panic (\<open>Inl\<close>) or the list of messages put on the channel together
  with the updated session (\<open>Inr\<close>).  \<^verbatim>\<open>se.filesystem.m(self, args, reply)\<close>
  is \<open>invoke\<close> on the value \<open>fs_X args reply\<close> of \<open>fs_call\<close>: the implementation
  maps its state to a new state and one terminal operation (\<open>Term_ok\<close> or
  \<open>Term_error\<close>), which \<open>answer\<close> applies to the reply object the call
  carries; \<^verbatim>\<open>forget\<close> carries none and yields no message.  Guards of the
  \<^verbatim>\<open>match\<close> are the conditionals of \<open>dispatch_op\<close> and \<open>to_filesystem\<close>, in the
  order of the source: the handshake arm is tried before the guard on
  \<^verbatim>\<open>initialized\<close>, the teardown arm before the guard on \<^verbatim>\<open>destroyed\<close>.
  The three operations that exist only in a macOS build return the value
  \<open>Variant_not_compiled\<close> on any other build; the theorems assume
  \<open>op_compiled\<close> where it matters.  The dispatcher takes the session by
  exclusive reference (\<^verbatim>\<open>se: &mut Session<FS>\<close>), so dispatches on one
  session do not overlap: requests of several channels or workers interleave
  as whole dispatches, which is a list of requests for \<open>run\<close>.  What may
  overlap with later dispatches is the answer of a filesystem that was
  handed the reply object and completes it later; \<open>Fuse_Deferred\<close> has the
  events for that.

  \<^bold>\<open>What is proved.\<close>
  \<^item> The invariant and the state machine: \<open>dispatch\<close> preserves
    \<open>session_inv\<close> and refines \<open>session_step\<close>; \<open>run\<close> refines the iterated
    relation \<open>steps\<close>, so the state never moves backwards.
  \<^item> The reply discipline: one message per dispatch, with the request's
    correlation id and channel, none for a \<^verbatim>\<open>forget\<close> on a live session; over
    a run the channels and ids of the answers are a subsequence of those of
    the requests, also channel by channel when requests from several
    channels are interleaved on the session.
  \<^item> Replies after the dispatch has returned: for every filesystem that
    keeps reply objects and every order of arrivals and completions, the
    messages sent and the reply objects held account for the requests that
    arrived, each once; a reply object is used up by its completion; held
    reply objects can always be completed; the session walks the same state
    machine; and a filesystem that never keeps a reply object gives the run
    of the other theories.
  \<^item> Order: a completion can be delayed past any arrival, and every schedule
    of arrivals and completions that can happen ends like the schedule that
    dispatches all requests first and completes afterwards, with the same
    session and filesystem state, the same reply objects held and the same
    messages up to their order.
  \<^item> History: after a run the session has recorded the last supported
    version a handshake offered, whether or not that handshake succeeded;
    it is initialized only if a supported handshake was seen and destroyed
    only if a teardown was.
  \<^item> Every branch of the special arms: old protocol version, failing mount
    hook, accepted handshake with the exact reply, teardown, interrupt, and
    the I/O error before the handshake and after the teardown.
  \<^item> The derived arguments: presence of each optional attribute follows its
    validity bit, times are exact below the overflow bounds and panic above
    them (clamped to the clock for the macOS-only times), flag bits become
    booleans, unsigned offsets become signed with the same bits, the
    directory reply gets the requested byte budget, and a listing filled
    into it stays within that budget and reads back as the longest prefix
    of the entries that fits.
  \<^item> Panics: only on a live session and only in the set-attributes, write
    and set-extended-attribute arms; a run returns whenever the times of
    its set-attributes requests are in range and the payloads of its write
    and set-extended-attribute requests have the declared size.
  \<^item> Equivalence with the table: \<open>dispatch\<close> is equal to \<open>dispatch_spec\<close> on
    every input, so the path of a request depends on the session only
    through its state.
  \<^item> Builds: outside the handshake, the interrupt, set-attributes,
    set-extended-attribute and the three macOS-only operations, the
    dispatch of a request is the same in every build
    (\<open>Fuse_Dispatch_Spec.dispatch_portable\<close>).
  \<^item> Typing: every message of a dispatch carries a payload of the kind its
    operation allows and none beside an error number; every decoded
    operation has the opcode of its header and is an operation of the build.
  \<^item> The wire: a request is constructed exactly from the well-framed
    buffers, decoding and re-encoding the header lose nothing, and the
    correlation id in the bytes of every reply is the one in the bytes of a
    buffer that was served.
  \<^item> The decoder: decoding the kernel's encoding of an operation gives back
    the operation, for each of the 39 kinds; the decoder fails exactly on an
    unknown opcode, a short argument struct or a name without terminator;
    and serving encoded buffers is running the encoded operations, so the
    properties of \<open>run\<close> hold of the bytes on the channel.

  \<^bold>\<open>Bounds and termination.\<close>  There is no fuel and no bound on lists: every
  definition is a total function, and integers are words of the source's
  width.  \<^verbatim>\<open>request.rs\<close> has no loop and no recursion, so every definition
  that models it is a composition of case distinctions; the session loop is
  a structural recursion over the list of requests in \<open>run\<close> and \<open>serve\<close>.
  The same loop as a \<open>while_option\<close> over its state, \<open>Fuse_Run.serve_loop\<close>,
  could return \<open>None\<close> if it did not end; it is proved to end on every
  input, by the number of buffers not yet read, in the state that holds the
  outcome of \<open>serve\<close>.  A sequence of events in \<open>Fuse_Deferred\<close> is \<open>None\<close>
  when one of its events cannot happen, not for lack of fuel.  Two
  recursions are not structural: the decoder's scan for the terminator of a name,
  \<open>Fuse_Decode.scan_terminator\<close>, which terminates by the distance of the
  index from the end of the buffer, and the kernel's reading of a directory
  listing, \<open>Fuse_Directory.dirents_of\<close>, which terminates because every
  entry announces a positive size; both proofs are where the functions are
  defined.  The
  session buffer size is a natural number; the lemma on the granted
  readahead assumes it is below \<open>2^32\<close>, the range in which the source's
  cast \<^verbatim>\<open>BUFFER_SIZE as u32\<close> does not truncate.  The opcodes and the layouts
  of the argument structs in \<open>Fuse_Decode\<close> are those of the kernel
  interface 7.8 (with the macOS extensions in a macOS build), whose structs
  have the fields the dispatcher reads; the specification leaves them to
  the ABI layer.

  \<^bold>\<open>What is not modelled.\<close>  Of \<^verbatim>\<open>request.rs\<close> itself only the log output is
  left out: every other statement of the file has its definition, so no
  more of the program can be added; what remains belongs to the files that
  are not among the sources.  Of those, the specification does not give
  the byte layout of the payloads a filesystem returns, other than a
  directory listing (a payload is a byte string here); the channel and the
  thread that reads it and mounting are input and output only.
  \<^verbatim>\<open>Request::new\<close> and \<open>serve\<close> take the decoder of operations
  as a parameter, so their theorems hold for every decoder; \<open>Fuse_Decode\<close>
  gives the one of the crate.  What a filesystem computes is not modelled:
  an implementation is any function from its state and the call to a new
  state and a terminal operation, or, in \<open>Fuse_Deferred\<close>, the decision to
  keep the reply object.  That a reply object is completed at most once is
  the ownership discipline of the reply type in \<^verbatim>\<open>reply.rs\<close>, which is not
  among the sources; the model has it as the removal of the object from the
  multiset of held objects.  A reply object that is dropped without a
  terminal operation stays in that multiset: what the reply type does when
  it is dropped is not among the sources and is not modelled.
\<close>

section \<open>Bytes and operations\<close>

text \<open>
  Serving the buffers the kernel writes is running the operations the
  kernel encoded: the decoder gives back each of them.
\<close>

definition kernel_request ::
  "channel_sender \<Rightarrow> platform \<Rightarrow> fuse_in_header \<times> operation \<Rightarrow> request" where
  "kernel_request ch pf hx =
     \<lparr>request_ch = ch, request_data = request_bytes pf (fst hx) (snd hx),
      request_ll = \<lparr>ll_header = fst hx, ll_operation = snd hx\<rparr>\<rparr>"

lemma requests_of_encoded:
  assumes "list_all (\<lambda>hx. well_framed pf (fst hx) (snd hx)) hxs"
  shows "requests_of (decode_operation pf) ch (map (\<lambda>hx. request_bytes pf (fst hx) (snd hx)) hxs) =
     map (kernel_request ch pf) hxs"
  using assms
  by (induction hxs)
    (simp_all add: well_framed_def request_bytes_def kernel_request_def Request_new_bytes
      decode_encode)

lemma serve_single_encoded:
  assumes "well_framed pf h x"
  shows "serve (decode_operation pf) pf fs ch [request_bytes pf h x] se =
     dispatch_op pf fs (kernel_request ch pf (h, x)) se x"
  using assms requests_of_encoded [of pf "[(h, x)]" ch]
  by (simp add: serve_def run_single dispatch_def) (simp add: kernel_request_def)

section \<open>Worked run: a whole life of a session\<close>

definition example_life :: "request list" where
  "example_life = [example_request GetAttr, example_request (Init example_init_in),
     example_request GetAttr, example_request Destroy, example_request GetAttr]"

lemma run_example_life:
  "run example_linux counting_fs example_life (Session_new 0) =
     Inr ([reply_error (Reply_new 42 3) 5,
           reply_ok (Reply_new 42 3)
             (Init_out \<lparr>out_major = 7, out_minor = 8, out_max_readahead = 65536,
                out_flags = 1, out_unused = 0, out_max_write = 61440\<rparr>),
           reply_ok (Reply_new 42 3) (Data []),
           reply_ok (Reply_new 42 3) No_data,
           reply_error (Reply_new 42 3) 5],
          \<lparr>filesystem = 3, proto_major = 7, proto_minor = 31, initialized = True,
             destroyed = True\<rparr>)"
  by (simp add: example_life_def run.simps(2) dispatch_eval dispatch_init_def init_out_def
      negotiated_readahead_def INIT_FLAGS_value example_linux_def example_init_in_def
      abi_unsupported_def Session_new_def call_getattr_def as_u32_def abi_defs)

text \<open>
  A buffer that sets an extended attribute: the size field announces five
  bytes, three follow the name.
\<close>

definition example_setxattr_header :: fuse_in_header where
  "example_setxattr_header = \<lparr>hdr_len = 58, hdr_opcode = 21, hdr_unique = 42, hdr_nodeid = 7,
     hdr_uid = 1000, hdr_gid = 1000, hdr_pid = 77, hdr_padding = 0\<rparr>"

lemma example_setxattr_framed:
  "well_framed example_linux example_setxattr_header
     (SetXAttr \<lparr>setxattr_size = 5, setxattr_flags = 0, setxattr_position = 0\<rparr>
        [117, 115, 101, 114, 46, 107] [1, 2, 3])"
  by (simp add: well_framed_def request_bytes_def operation_bytes_def operation_wf_def
      layout_defs put_names_def example_setxattr_header_def example_linux_def)

section \<open>Properties of runs\<close>

text \<open>
  C35.  A run that returns keeps the session well formed, the state of the
  session has moved along the steps of the handshake state machine labelled
  with the classes of the requests, in order, and it has never moved
  backwards: an initialized session is never uninitialized again, and a
  destroyed session stays destroyed whatever requests follow.
\<close>

theorem run_refines_steps:
  assumes "session_inv se" and "run pf fs reqs se = Inr (msgs, se')"
  shows "session_inv se' \<and> steps (state_of se) (classes reqs) (state_of se') \<and>
     state_of se \<le> state_of se' \<and>
     (initialized se \<longrightarrow> initialized se') \<and> (destroyed se \<longrightarrow> destroyed se')"
  using run_inv [OF assms] run_steps [OF assms] run_monotone [OF assms] assms(1)
  by (auto simp: state_of_le_iff session_inv_def)

theorem run_refines_steps_witness:
  "steps Uninitialized [Regular, Handshake, Regular, Teardown, Regular] Destroyed"
  using run_refines_steps [OF _ run_example_life]
  by (simp add: example_life_def state_of_def)

text \<open>
  C36.  The messages of a run answer its requests in order: the pairs of
  channel and correlation id of the messages form a subsequence of those of
  the requests, so no request is answered twice, no answer is invented, and
  answers are never reordered.  When requests from several channels are
  interleaved on one session, the same holds of each channel by itself: the
  answers sent to a channel are answers to the requests that came from it,
  in their order.
\<close>

theorem run_replies_match_requests:
  assumes "run pf fs reqs se = Inr (msgs, se')"
  shows "subseq (map origin_of msgs) (map origin reqs) \<and>
     subseq (map msg_unique (filter (\<lambda>m. msg_ch m = ch) msgs))
       (map request_unique (filter (\<lambda>req. request_ch req = ch) reqs))"
proof -
  have s: "subseq (map origin_of msgs) (map origin reqs)"
    using assms
  proof (induction reqs arbitrary: se msgs)
    case (Cons req reqs)
    then obtain first se1 more where d: "dispatch pf fs req se = Inr (first, se1)"
      and r: "run pf fs reqs se1 = Inr (more, se')" and m: "msgs = first @ more"
      by (auto simp: run_Cons_Inr)
    from dispatch_messages [OF d] Cons.IH [OF r] m show ?case
      by (auto simp: origin_def origin_of_def)
  qed simp
  from subseq_filter [OF s, of "\<lambda>p. fst p = ch"]
  have "subseq (map origin_of (filter (\<lambda>m. msg_ch m = ch) msgs))
      (map origin (filter (\<lambda>req. request_ch req = ch) reqs))"
    by (simp add: filter_map comp_def origin_def origin_of_def)
  from subseq_map [OF this, of snd] s show ?thesis
    by (simp add: comp_def origin_def origin_of_def)
qed

theorem run_replies_match_requests_witness:
  "subseq [(3, 42), (3, 42), (3, 42), (3, 42), (3, 42 :: u64)] (map origin example_life)"
  using run_replies_match_requests [OF run_example_life]
  by (simp add: origin_of_def)

text \<open>
  C37.  A run returns whenever every request of it can be served: its
  operation exists in the build, the times of a set-attributes are in range
  (access and modification time below \<open>2^63\<close> seconds, the macOS times
  representable as a duration), and the payload of a write or of a
  set-extended-attribute has the size its argument struct declares.  No
  other operation can make the dispatcher panic, in any state of the
  session and with any filesystem.
\<close>

theorem run_returns:
  assumes "\<forall>req \<in> set reqs. serviceable (ll_operation (request_ll req)) \<and>
      op_compiled pf (ll_operation (request_ll req))"
  shows "\<exists>msgs se'. run pf fs reqs se = Inr (msgs, se')"
  using assms
proof (induction reqs arbitrary: se)
  case (Cons req reqs)
  then obtain first se1 where d: "dispatch pf fs req se = Inr (first, se1)"
    using dispatch_op_serviceable [of "ll_operation (request_ll req)" pf fs req se]
    by (auto simp: dispatch_def)
  from Cons obtain more se' where "run pf fs reqs se1 = Inr (more, se')"
    by force
  with d show ?case by (simp add: run_Cons_step)
qed simp

theorem run_returns_witness:
  "\<exists>msgs se'. run example_macos counting_fs
     (example_life @
      [example_request (SetAttr (example_setattr 0xFFFFFFFF 1)),
       example_request (Write \<lparr>write_fh = 9, write_offset = 0, write_size = 3, write_write_flags = 0\<rparr>
         [1, 2, 3])])
     (Session_new 0) = Inr (msgs, se')"
  using run_returns [of "example_life @
      [example_request (SetAttr (example_setattr 0xFFFFFFFF 1)),
       example_request (Write \<lparr>write_fh = 9, write_offset = 0, write_size = 3, write_write_flags = 0\<rparr>
         [1, 2, 3])]" example_macos counting_fs "Session_new 0"]
  by (simp add: example_life_def as_usize_def)

section \<open>From buffers to reply bytes\<close>

text \<open>
  C40.  Every message sent while serving a sequence of buffers answers one
  of the buffers: bytes 8 to 15 of the message, where the reply header holds
  the correlation id, are bytes 8 to 15 of that buffer, and the message goes
  to the channel the buffers came from.
\<close>

theorem serve_echoes_unique:
  assumes "serve decode_op pf fs ch bufs se = Inr (msgs, se')" and "m \<in> set msgs"
  shows "\<exists>data \<in> set bufs. take 8 (drop 8 (message_bytes m)) = take 8 (drop 8 data) \<and>
     msg_ch m = ch"
proof -
  from assms obtain req where req: "req \<in> set (requests_of decode_op ch bufs)"
    and m: "msg_unique m = request_unique req" "msg_ch m = request_ch req"
    unfolding serve_def by (blast dest: run_messages_from_requests)
  from requests_of_origin [OF req] obtain data where "data \<in> set bufs"
    and "Request_new (try_from decode_op) ch data = Some req"
    by blast
  with m request_new_unique_bytes [of decode_op ch data req] show ?thesis
    by (auto simp: message_unique_bytes)
qed

theorem serve_echoes_unique_witness:
  "serve example_decode_op example_linux counting_fs 3 [header_bytes example_header]
       (Session_new 0) =
     Inr ([reply_error (Reply_new 42 3) 5], Session_new 0) \<and>
   take 8 (drop 8 (message_bytes (reply_error (Reply_new 42 3) 5))) =
     take 8 (drop 8 (header_bytes example_header))"
proof -
  have s: "serve example_decode_op example_linux counting_fs 3 [header_bytes example_header]
       (Session_new 0) = Inr ([reply_error (Reply_new 42 3) 5], Session_new 0)"
    by (simp add: serve_def Request_new_example run.simps(2) dispatch_def
        to_filesystem_before request_reply_def ll_unique_def abi_defs)
  from serve_echoes_unique [OF s] s show ?thesis
    by simp
qed



text \<open>
  C39.  The assertion of the set-extended-attribute arm can be reached from
  the bytes on the channel.  The decoder takes the value of the attribute to
  be all the bytes after the name and does not compare it with the size
  field of the argument struct, so a well-framed buffer whose value is
  shorter or longer than its size field announces is decoded, and served on
  a live session it makes the dispatcher panic, with no reply and no call
  of the filesystem; with the announced length it does not.
\<close>

theorem served_setxattr_mismatch_panics:
  assumes "live se" and "well_framed pf h (SetXAttr arg name val)"
  shows "serve (decode_operation pf) pf fs ch [request_bytes pf h (SetXAttr arg name val)] se =
       Inl Assertion_failed \<longleftrightarrow>
     length val \<noteq> unat (setxattr_size arg)"
  using assms(1)
  by (auto simp: serve_single_encoded [OF assms(2)] to_filesystem_live call_setxattr_def
      as_usize_def)

theorem served_setxattr_mismatch_panics_witness:
  "serve (decode_operation example_linux) example_linux counting_fs 3
       [request_bytes example_linux example_setxattr_header
          (SetXAttr \<lparr>setxattr_size = 5, setxattr_flags = 0, setxattr_position = 0\<rparr>
             [117, 115, 101, 114, 46, 107] [1, 2, 3])]
       example_live =
     Inl Assertion_failed"
  using served_setxattr_mismatch_panics [of example_live example_linux example_setxattr_header
      "\<lparr>setxattr_size = 5, setxattr_flags = 0, setxattr_position = 0\<rparr>"
      "[117, 115, 101, 114, 46, 107]" "[1, 2, 3]" counting_fs 3]
  by (simp add: example_setxattr_framed)

end
